theory Spec2Isabelle
  imports Complex_Main
begin

section \<open>MathTuro: the client-side helpers over the hosted data service\<close>

text \<open>
  The repository is a set of browser-side JavaScript helpers (student.js, teacher.js,
  admin.js, uploads.js, utils.js) that call a hosted backend. Every helper is embedded as
  a HOL function of its arguments, of the browser state it reads (the \<open>user\<close> item of
  localStorage, the clock) and of the replies the backend gives to the remote calls it
  makes. What a helper does besides returning (alerts, toasts, console output, remote
  requests, localStorage writes) is returned as a list of effects, in program order.
\<close>

subsection \<open>Configuration (config.js)\<close>

record config =
  SESSION_CHECK_INTERVAL :: int
  SESSION_WARNING_BEFORE_EXPIRY :: int
  CACHE_TTL :: int
  CACHE_ENABLED :: bool

definition CONFIG :: config where
  "CONFIG = \<lparr> SESSION_CHECK_INTERVAL = 5 * 60 * 1000,
              SESSION_WARNING_BEFORE_EXPIRY = 5 * 60 * 1000,
              CACHE_TTL = 5 * 60 * 1000,
              CACHE_ENABLED = True \<rparr>"

subsection \<open>The time-to-live cache (utils.js)\<close>

text \<open>
  \<open>const cache = new Map()\<close> holds objects \<open>{data, expiry}\<close>. \<open>Date.now()\<close> is the
  argument \<open>now\<close> (milliseconds, an integer). \<open>getCached\<close> returns JavaScript's
  \<open>null\<close> as \<open>None\<close> and mutates the map, so the model returns the map as well.
  The optional argument \<open>ttl\<close> defaults to \<open>CONFIG.CACHE_TTL\<close>. The configuration is a
  parameter, so that both settings of \<open>CACHE_ENABLED\<close> can be examined.
\<close>

record 'v cache_entry =
  data :: 'v
  expiry :: int

type_synonym ('k, 'v) cache = "'k \<rightharpoonup> 'v cache_entry"

definition getCached :: "config \<Rightarrow> int \<Rightarrow> ('k, 'v) cache \<Rightarrow> 'k \<Rightarrow> 'v option \<times> ('k, 'v) cache" where
  "getCached cfg now cache key =
     (if \<not> CACHE_ENABLED cfg then (None, cache)
      else case cache key of
             None \<Rightarrow> (None, cache)
           | Some cached \<Rightarrow>
               if now > expiry cached then (None, cache(key := None))
               else (Some (data cached), cache))"

definition setCache :: "config \<Rightarrow> int \<Rightarrow> ('k, 'v) cache \<Rightarrow> 'k \<Rightarrow> 'v \<Rightarrow> int option \<Rightarrow> ('k, 'v) cache" where
  "setCache cfg now cache key v ttl =
     (if \<not> CACHE_ENABLED cfg then cache
      else cache(key \<mapsto> \<lparr> data = v,
                            expiry = now + (case ttl of None \<Rightarrow> CACHE_TTL cfg | Some t \<Rightarrow> t) \<rparr>))"

text \<open>
  \<open>clearCache(key = null)\<close> tests \<open>if (key)\<close>: a key that is absent or the empty string is
  falsy and the whole map is cleared. Keys are strings here.
\<close>

definition clearCache :: "(string, 'v) cache \<Rightarrow> string option \<Rightarrow> (string, 'v) cache" where
  "clearCache cache key =
     (case key of
        None \<Rightarrow> Map.empty
      | Some k \<Rightarrow> if k = [] then Map.empty else cache(k := None))"

definition stored_expiry :: "config \<Rightarrow> int \<Rightarrow> int option \<Rightarrow> int" where
  "stored_expiry cfg set_time ttl = set_time + (case ttl of None \<Rightarrow> CACHE_TTL cfg | Some t \<Rightarrow> t)"

subsection \<open>The session monitor (utils.js)\<close>

text \<open>
  \<open>let sessionCheckInterval = null\<close> holds the handle that \<open>setInterval\<close> returned.
  The browser hands out timer handles from a counter; \<open>session_timers\<close> lists the
  repeating timers that run the session check and are not cleared. A handle is a
  number, and \<open>if (sessionCheckInterval)\<close> tests its truthiness: \<open>null\<close> and \<open>0\<close>
  are both falsy.
\<close>

record monitor =
  sessionCheckInterval :: "nat option"
  session_timers :: "nat list"
  next_handle :: nat

definition truthy_handle :: "nat option \<Rightarrow> bool" where
  "truthy_handle h = (case h of None \<Rightarrow> False | Some n \<Rightarrow> n \<noteq> 0)"

definition setInterval :: "monitor \<Rightarrow> nat \<times> monitor" where
  "setInterval m =
     (next_handle m,
      m\<lparr> session_timers := session_timers m @ [next_handle m],
         next_handle := Suc (next_handle m) \<rparr>)"

definition clearInterval :: "nat option \<Rightarrow> monitor \<Rightarrow> monitor" where
  "clearInterval h m =
     (case h of None \<Rightarrow> m
      | Some n \<Rightarrow> m\<lparr> session_timers := removeAll n (session_timers m) \<rparr>)"

definition startSessionMonitor :: "monitor \<Rightarrow> monitor" where
  "startSessionMonitor m =
     (if truthy_handle (sessionCheckInterval m) then m
      else case setInterval m of (h, m') \<Rightarrow> m'\<lparr> sessionCheckInterval := Some h \<rparr>)"

definition stopSessionMonitor :: "monitor \<Rightarrow> monitor" where
  "stopSessionMonitor m =
     (if truthy_handle (sessionCheckInterval m)
      then (clearInterval (sessionCheckInterval m) m)\<lparr> sessionCheckInterval := None \<rparr>
      else m)"

text \<open>
  Another timer of the page (a toast's \<open>setTimeout\<close>, the redirect after expiry) takes a
  handle from the same counter and is not a session timer. \<open>handleSessionExpired\<close> (below)
  stops the monitor, removes the stored user, clears the cache, shows a toast and sets
  a timeout for the redirect.
\<close>

definition other_timer :: "monitor \<Rightarrow> monitor" where
  "other_timer m = m\<lparr> next_handle := Suc (next_handle m) \<rparr>"

text \<open>
  The page starts with no monitor; browsers number timers from 1.
\<close>

definition initial_monitor :: monitor where
  "initial_monitor = \<lparr> sessionCheckInterval = None, session_timers = [], next_handle = 1 \<rparr>"

subsection \<open>Numbers in percentages\<close>

text \<open>
  JavaScript numbers are IEEE 754 doubles. A count of list elements is an integer below
  \<open>2^53\<close> and so is a double exactly; \<open>a / b\<close> and \<open>a * b\<close> are the exact quotient and
  product rounded to the nearest double, ties to the even significand. \<open>fl x\<close> is the
  double nearest to a rational \<open>x \<ge> 0\<close> in the range of normal doubles (which holds
  the quotients and percentages of list lengths): with \<open>2^e \<le> x < 2^(e+1)\<close>, the
  doubles around \<open>x\<close> are the multiples of \<open>2^(e-52)\<close>. \<open>Math.round\<close> gives the nearest
  integer, the upper one at a tie.
\<close>

function bit_length :: "int \<Rightarrow> int" where
  "bit_length n = (if n \<le> 0 then 0 else 1 + bit_length (n div 2))"
  by pat_completeness auto
termination
  by (relation "measure nat") auto

declare bit_length.simps [simp del]

definition binade :: "rat \<Rightarrow> int" where
  "binade x =
     (case quotient_of x of
        (p, q) \<Rightarrow>
          (let d = bit_length p - bit_length q
           in if 2 powi d \<le> x then d else d - 1))"

definition round_half_even :: "rat \<Rightarrow> int" where
  "round_half_even x =
     (let f = \<lfloor>x\<rfloor>; r = x - of_int f
      in if r < 1 / 2 then f else if 1 / 2 < r then f + 1 else if even f then f else f + 1)"

definition fl :: "rat \<Rightarrow> rat" where
  "fl x =
     (if x = 0 then 0
      else (let ulp = 2 powi (binade x - 52) in of_int (round_half_even (x / ulp)) * ulp))"

definition Math_round :: "rat \<Rightarrow> int" where
  "Math_round x = \<lfloor>x + 1 / 2\<rfloor>"

text \<open>
  \<open>total > 0 ? Math.round((completed / total) * 100) : 0\<close>, the expression of all three
  progress reports.
\<close>

definition completionPercentage :: "nat \<Rightarrow> nat \<Rightarrow> int" where
  "completionPercentage completedLessons totalLessons =
     (if totalLessons > 0
      then Math_round (fl (fl (of_nat completedLessons / of_nat totalLessons) * 100))
      else 0)"

subsection \<open>JavaScript numbers\<close>

text \<open>
  A value of type Number is \<open>NaN\<close>, an infinity or a finite double, held here as the
  rational it denotes (\<open>-0\<close> is not told apart from \<open>0\<close>: the two compare equal).
  \<open>Number_of_int i\<close> is the Number value for the mathematical integer \<open>i\<close>: the double
  nearest to it, ties to even, and an infinity when the rounded magnitude reaches
  \<open>2^1024\<close>, which is beyond the largest double.
\<close>

datatype number = NaN | Num rat | PosInfinity | NegInfinity

definition Number_of_int :: "int \<Rightarrow> number" where
  "Number_of_int i =
     (let m = fl (of_int \<bar>i\<bar>)
      in if 2 ^ 1024 \<le> m then (if i < 0 then NegInfinity else PosInfinity)
         else Num (if i < 0 then - m else m))"

text \<open>
  \<open>isNaN\<close>, and the comparisons \<open>a < b\<close> and \<open>a <= b\<close> on Numbers; \<open>a > b\<close> is \<open>b < a\<close>.
  Every comparison with \<open>NaN\<close> is false.
\<close>

definition isNaN :: "number \<Rightarrow> bool" where
  "isNaN a = (a = NaN)"

fun js_less :: "number \<Rightarrow> number \<Rightarrow> bool" where
  "js_less NaN b = False"
| "js_less a NaN = False"
| "js_less (Num x) (Num y) = (x < y)"
| "js_less (Num x) PosInfinity = True"
| "js_less (Num x) NegInfinity = False"
| "js_less PosInfinity b = False"
| "js_less NegInfinity NegInfinity = False"
| "js_less NegInfinity b = True"

definition js_less_eq :: "number \<Rightarrow> number \<Rightarrow> bool" where
  "js_less_eq a b = (\<not> isNaN a \<and> \<not> isNaN b \<and> \<not> js_less b a)"

subsection \<open>The browser, the backend and effects\<close>

text \<open>
  \<open>JSON.parse(localStorage.getItem('user'))\<close> yields \<open>null\<close> when the item is absent,
  throws a SyntaxError when it is not JSON, and otherwise yields the stored user, of
  which the helpers read \<open>id\<close> and \<open>role\<close>.
\<close>

record user =
  uid :: string
  role :: string

datatype stored_user = NoItem | Malformed | Stored user

text \<open>
  An awaited remote call ends in one of three ways: it resolves with data and no error,
  it resolves with an error object \<open>{message}\<close> and no data, or the request is made and
  its promise is rejected, which throws at the \<open>await\<close>. \<open>getSupabase()\<close> is taken to
  return the client, except where a helper is given the argument \<open>client\<close>.
\<close>

datatype 'a reply = Resolved 'a | ErrorResult string | Rejected string

text \<open>
  Column values of a request, as the helper hands them to the client library.
  \<open>new Date().toISOString()\<close> is \<open>JTime\<close> of the clock reading; the readings within one
  request are taken at the same instant \<open>now\<close>.
\<close>

datatype jv = JNull | JStr string | JNum number | JBool bool | JTime int

type_synonym payload = "(string \<times> jv) list"

datatype filter = Eq string jv | In string "jv list"

datatype request =
    Select string string "filter list"
  | Insert string payload
  | Update string payload "filter list"
  | Upsert string payload string
  | Delete string "filter list"
  | StorageUpload string string
  | AuthAdminDeleteUser string
  | AuthGetSession
  | AuthRefreshSession

datatype effect =
    Alert string
  | ConsoleError string
  | ShowToast string string
  | Call request
  | SetItem string string
  | RemoveItem string
  | ClearCache
  | Redirect string

text \<open>
  A \<open>try\<close> block returns \<open>Inl\<close> of the message when an exception leaves it and \<open>Inr\<close> of
  its value otherwise, with the effects up to that point; \<open>catch\<close> runs the handler
  after them.
\<close>

type_synonym 'a outcome = "(string + 'a) \<times> effect list"

definition try_catch :: "'a outcome \<Rightarrow> (string \<Rightarrow> 'a outcome) \<Rightarrow> 'a outcome" where
  "try_catch body handler =
     (case body of
        (Inl e, fx) \<Rightarrow> (case handler e of (r, fx') \<Rightarrow> (r, fx @ fx'))
      | (Inr v, fx) \<Rightarrow> (Inr v, fx))"

definition calls :: "effect list \<Rightarrow> request list" where
  "calls fx = concat (map (\<lambda>e. case e of Call r \<Rightarrow> [r] | _ \<Rightarrow> []) fx)"

definition alerts :: "effect list \<Rightarrow> string list" where
  "alerts fx = concat (map (\<lambda>e. case e of Alert m \<Rightarrow> [m] | _ \<Rightarrow> []) fx)"

subsection \<open>The session check (utils.js)\<close>

definition handleSessionExpired :: "monitor \<Rightarrow> effect list \<times> monitor" where
  "handleSessionExpired m =
     ([RemoveItem ''user'', ClearCache,
       ShowToast ''Your session has expired. Please log in again.'' ''warning'',
       Redirect ''login.html''],
      other_timer (other_timer (stopSessionMonitor m)))"

text \<open>
  The callback that the monitor runs at every interval. \<open>sessionReply\<close> is the reply of
  \<open>auth.getSession()\<close>: the session's \<open>expires_at\<close> (in seconds), or no session;
  \<open>refreshReply\<close> is the reply of \<open>auth.refreshSession()\<close>, asked for only when the session
  is close to expiry. An exception is caught by the callback and logged. A toast takes a
  timer handle.
\<close>

definition sessionCheck ::
    "config \<Rightarrow> int \<Rightarrow> int option reply \<Rightarrow> unit reply \<Rightarrow> monitor \<Rightarrow> effect list \<times> monitor" where
  "sessionCheck cfg now sessionReply refreshReply m =
     (case sessionReply of
        Rejected e \<Rightarrow> ([Call AuthGetSession, ConsoleError ''Session check error:''], m)
      | ErrorResult msg \<Rightarrow>
          (case handleSessionExpired m of (fx, m') \<Rightarrow> (Call AuthGetSession # fx, m'))
      | Resolved None \<Rightarrow>
          (case handleSessionExpired m of (fx, m') \<Rightarrow> (Call AuthGetSession # fx, m'))
      | Resolved (Some expires_at) \<Rightarrow>
          let expiresAt = expires_at * 1000;
              timeUntilExpiry = expiresAt - now;
              warned = (timeUntilExpiry < SESSION_WARNING_BEFORE_EXPIRY cfg \<and> timeUntilExpiry > 0);
              warning = (if warned
                         then [ShowToast ''Your session will expire soon. Please save your work.''
                                 ''warning'']
                         else []);
              m' = (if warned then other_timer m else m)
          in if timeUntilExpiry < SESSION_WARNING_BEFORE_EXPIRY cfg
             then (case refreshReply of
                     Rejected e \<Rightarrow>
                       (Call AuthGetSession # warning @
                          [Call AuthRefreshSession, ConsoleError ''Session check error:''], m')
                   | ErrorResult msg \<Rightarrow>
                       (Call AuthGetSession # warning @
                          [Call AuthRefreshSession, ConsoleError ''Failed to refresh session:''], m')
                   | Resolved _ \<Rightarrow> (Call AuthGetSession # warning @ [Call AuthRefreshSession], m'))
             else (Call AuthGetSession # warning, m'))"

inductive reachable :: "monitor \<Rightarrow> bool" where
  init: "reachable initial_monitor"
| start: "reachable m \<Longrightarrow> reachable (startSessionMonitor m)"
| stop: "reachable m \<Longrightarrow> reachable (stopSessionMonitor m)"
| tick: "reachable m \<Longrightarrow> reachable (snd (sessionCheck cfg now sessionReply refreshReply m))"
| other: "reachable m \<Longrightarrow> reachable (other_timer m)"

definition monitor_inv :: "monitor \<Rightarrow> bool" where
  "monitor_inv m =
     (0 < next_handle m \<and>
      (case sessionCheckInterval m of
         None \<Rightarrow> session_timers m = []
       | Some h \<Rightarrow> 0 < h \<and> h < next_handle m \<and> session_timers m = [h]))"

subsection \<open>JavaScript strings and numbers\<close>

text \<open>
  Strings are lists of code units below 256. \<open>String.prototype.trim\<close> removes white
  space and line terminators from both ends; below 256 these are TAB, LF, VT, FF, CR,
  SP and NBSP.
\<close>

definition js_whitespace :: "char \<Rightarrow> bool" where
  "js_whitespace c = (of_char c \<in> {9, 10, 11, 12, 13, 32, 160 :: nat})"

definition js_trim :: "string \<Rightarrow> string" where
  "js_trim s = rev (dropWhile js_whitespace (rev (dropWhile js_whitespace s)))"

subsection \<open>Reviewing quiz submissions (teacher.js)\<close>

definition reviewer :: "user \<Rightarrow> bool" where
  "reviewer u = (\<not> (role u \<noteq> ''teacher'' \<and> role u \<noteq> ''admin''))"

definition approveQuizSubmission_try ::
    "stored_user \<Rightarrow> int \<Rightarrow> string \<Rightarrow> string option \<Rightarrow> unit reply \<Rightarrow> bool outcome" where
  "approveQuizSubmission_try item now submissionId comment updateReply =
     (case item of
        Malformed \<Rightarrow> (Inl ''SyntaxError'', [])
      | NoItem \<Rightarrow> (Inr False, [Alert ''You do not have permission to approve quiz submissions''])
      | Stored u \<Rightarrow>
          if \<not> reviewer u
          then (Inr False, [Alert ''You do not have permission to approve quiz submissions''])
          else
            let upd = Call (Update ''quiz_submissions''
                        [(''status'', JStr ''approved''),
                         (''teacher_comment'', (case comment of None \<Rightarrow> JNull | Some c \<Rightarrow> JStr c)),
                         (''reviewed_at'', JTime now),
                         (''reviewed_by'', JStr (uid u)),
                         (''updated_at'', JTime now)]
                        [Eq ''id'' (JStr submissionId)])
            in case updateReply of
                 Rejected e \<Rightarrow> (Inl e, [upd])
               | ErrorResult msg \<Rightarrow>
                   (Inr False, [upd, ConsoleError ''Error approving quiz submission:'',
                                Alert (''Failed to approve quiz submission: '' @ msg)])
               | Resolved _ \<Rightarrow> (Inr True, [upd]))"

definition approveQuizSubmission ::
    "stored_user \<Rightarrow> int \<Rightarrow> string \<Rightarrow> string option \<Rightarrow> unit reply \<Rightarrow> bool outcome" where
  "approveQuizSubmission item now submissionId comment updateReply =
     try_catch (approveQuizSubmission_try item now submissionId comment updateReply)
       (\<lambda>e. (Inr False, [ConsoleError ''Error approving quiz submission:'',
                          Alert ''Failed to approve quiz submission. Please try again.'']))"

text \<open>
  \<open>!comment\<close> holds for \<open>null\<close>, \<open>undefined\<close> (both \<open>None\<close>) and the empty string.
\<close>

definition rejectQuizSubmission_try ::
    "stored_user \<Rightarrow> int \<Rightarrow> string \<Rightarrow> string option \<Rightarrow> unit reply \<Rightarrow> bool outcome" where
  "rejectQuizSubmission_try item now submissionId comment updateReply =
     (case item of
        Malformed \<Rightarrow> (Inl ''SyntaxError'', [])
      | NoItem \<Rightarrow> (Inr False, [Alert ''You do not have permission to reject quiz submissions''])
      | Stored u \<Rightarrow>
          if \<not> reviewer u
          then (Inr False, [Alert ''You do not have permission to reject quiz submissions''])
          else
            (case comment of
               None \<Rightarrow> (Inr False,
                 [Alert ''Please provide a comment explaining why you are rejecting this submission''])
             | Some c \<Rightarrow>
                 if c = [] \<or> js_trim c = []
                 then (Inr False,
                   [Alert ''Please provide a comment explaining why you are rejecting this submission''])
                 else
                   let upd = Call (Update ''quiz_submissions''
                               [(''status'', JStr ''rejected''),
                                (''teacher_comment'', JStr (js_trim c)),
                                (''reviewed_at'', JTime now),
                                (''reviewed_by'', JStr (uid u)),
                                (''updated_at'', JTime now)]
                               [Eq ''id'' (JStr submissionId)])
                   in case updateReply of
                        Rejected e \<Rightarrow> (Inl e, [upd])
                      | ErrorResult msg \<Rightarrow>
                          (Inr False, [upd, ConsoleError ''Error rejecting quiz submission:'',
                                       Alert (''Failed to reject quiz submission: '' @ msg)])
                      | Resolved _ \<Rightarrow> (Inr True, [upd])))"

definition rejectQuizSubmission ::
    "stored_user \<Rightarrow> int \<Rightarrow> string \<Rightarrow> string option \<Rightarrow> unit reply \<Rightarrow> bool outcome" where
  "rejectQuizSubmission item now submissionId comment updateReply =
     try_catch (rejectQuizSubmission_try item now submissionId comment updateReply)
       (\<lambda>e. (Inr False, [ConsoleError ''Error rejecting quiz submission:'',
                          Alert ''Failed to reject quiz submission. Please try again.'']))"

text \<open>The update that a rejection sends, as the source writes it.\<close>

definition rejection_update :: "user \<Rightarrow> int \<Rightarrow> string \<Rightarrow> string \<Rightarrow> request" where
  "rejection_update u now submissionId c =
     Update ''quiz_submissions''
       [(''status'', JStr ''rejected''),
        (''teacher_comment'', JStr (js_trim c)),
        (''reviewed_at'', JTime now),
        (''reviewed_by'', JStr (uid u)),
        (''updated_at'', JTime now)]
       [Eq ''id'' (JStr submissionId)]"

subsection \<open>User administration (admin.js)\<close>

definition deleteUser_try :: "stored_user \<Rightarrow> string \<Rightarrow> unit reply \<Rightarrow> unit reply \<Rightarrow> bool outcome" where
  "deleteUser_try item userId dbReply authReply =
     (case item of
        Malformed \<Rightarrow> (Inl ''SyntaxError'', [])
      | NoItem \<Rightarrow> (Inr False, [ShowToast ''You do not have permission to delete users'' ''error''])
      | Stored u \<Rightarrow>
          if role u \<noteq> ''admin''
          then (Inr False, [ShowToast ''You do not have permission to delete users'' ''error''])
          else if uid u = userId
          then (Inr False, [ShowToast ''You cannot delete your own account'' ''error''])
          else
            let dbDelete = Call (Delete ''users'' [Eq ''id'' (JStr userId)]);
                authDelete = Call (AuthAdminDeleteUser userId)
            in case dbReply of
                 Rejected e \<Rightarrow> (Inl e, [dbDelete])
               | ErrorResult msg \<Rightarrow>
                   (Inr False, [dbDelete, ConsoleError ''Database error:'',
                                ShowToast (''Failed to delete user: '' @ msg) ''error''])
               | Resolved _ \<Rightarrow>
                   (case authReply of
                      Rejected e \<Rightarrow> (Inl e, [dbDelete, authDelete])
                    | ErrorResult msg \<Rightarrow>
                        (Inr False, [dbDelete, authDelete, ConsoleError ''Auth error:'',
                           ShowToast (''Failed to delete user from authentication system: '' @ msg)
                             ''error''])
                    | Resolved _ \<Rightarrow> (Inr True, [dbDelete, authDelete])))"

definition deleteUser :: "stored_user \<Rightarrow> string \<Rightarrow> unit reply \<Rightarrow> unit reply \<Rightarrow> bool outcome" where
  "deleteUser item userId dbReply authReply =
     try_catch (deleteUser_try item userId dbReply authReply)
       (\<lambda>e. (Inr False, [ConsoleError ''Error deleting user:'',
                          ShowToast ''Failed to delete user. Please try again.'' ''error'']))"

subsection \<open>List-returning reads (student.js, teacher.js, admin.js)\<close>

text \<open>
  The rows fetched are of any type \<open>'row\<close>. \<open>if (status)\<close> and \<open>if (role)\<close> hold for a
  non-empty string.
\<close>

definition optional_eq :: "string \<Rightarrow> string option \<Rightarrow> filter list" where
  "optional_eq column v =
     (case v of None \<Rightarrow> [] | Some t \<Rightarrow> if t = [] then [] else [Eq column (JStr t)])"

definition getQuizSubmissions_try ::
    "stored_user \<Rightarrow> string option \<Rightarrow> 'row list reply \<Rightarrow> 'row list outcome" where
  "getQuizSubmissions_try item status queryReply =
     (case item of
        Malformed \<Rightarrow> (Inl ''SyntaxError'', [])
      | NoItem \<Rightarrow> (Inr [], [])
      | Stored u \<Rightarrow>
          if role u \<noteq> ''student'' then (Inr [], [])
          else
            let query = Call (Select ''quiz_submissions'' ''*, lessons(title, module_id), modules(title)''
                          ([Eq ''student_id'' (JStr (uid u))] @ optional_eq ''status'' status))
            in case queryReply of
                 Rejected e \<Rightarrow> (Inl e, [query])
               | ErrorResult msg \<Rightarrow> (Inr [], [query, ConsoleError ''Error loading quiz submissions:''])
               | Resolved rows \<Rightarrow> (Inr rows, [query]))"

definition getQuizSubmissions ::
    "stored_user \<Rightarrow> string option \<Rightarrow> 'row list reply \<Rightarrow> 'row list outcome" where
  "getQuizSubmissions item status queryReply =
     try_catch (getQuizSubmissions_try item status queryReply)
       (\<lambda>e. (Inr [], [ConsoleError ''Error getting quiz submissions:'']))"

definition getPendingQuizSubmissions_try :: "stored_user \<Rightarrow> 'row list reply \<Rightarrow> 'row list outcome" where
  "getPendingQuizSubmissions_try item queryReply =
     (case item of
        Malformed \<Rightarrow> (Inl ''SyntaxError'', [])
      | NoItem \<Rightarrow> (Inr [], [])
      | Stored u \<Rightarrow>
          if \<not> reviewer u then (Inr [], [])
          else
            let query = Call (Select ''quiz_submissions''
                          ''*, users(full_name), lessons(title, module_id), modules(title)''
                          [Eq ''status'' (JStr ''pending'')])
            in case queryReply of
                 Rejected e \<Rightarrow> (Inl e, [query])
               | ErrorResult msg \<Rightarrow> (Inr [], [query, ConsoleError ''Error loading pending submissions:''])
               | Resolved rows \<Rightarrow> (Inr rows, [query]))"

definition getPendingQuizSubmissions :: "stored_user \<Rightarrow> 'row list reply \<Rightarrow> 'row list outcome" where
  "getPendingQuizSubmissions item queryReply =
     try_catch (getPendingQuizSubmissions_try item queryReply)
       (\<lambda>e. (Inr [], [ConsoleError ''Error getting pending submissions:'']))"

definition getUsers_try :: "stored_user \<Rightarrow> string option \<Rightarrow> 'row list reply \<Rightarrow> 'row list outcome" where
  "getUsers_try item role_filter queryReply =
     (case item of
        Malformed \<Rightarrow> (Inl ''SyntaxError'', [])
      | NoItem \<Rightarrow> (Inr [], [ShowToast ''You do not have permission to access user data'' ''error''])
      | Stored u \<Rightarrow>
          if role u \<noteq> ''admin''
          then (Inr [], [ShowToast ''You do not have permission to access user data'' ''error''])
          else
            let query = Call (Select ''users'' ''*''
                          (optional_eq ''role'' role_filter))
            in case queryReply of
                 Rejected e \<Rightarrow> (Inl e, [query])
               | ErrorResult msg \<Rightarrow> (Inr [], [query, ConsoleError ''Error loading users:''])
               | Resolved rows \<Rightarrow> (Inr rows, [query]))"

definition getUsers :: "stored_user \<Rightarrow> string option \<Rightarrow> 'row list reply \<Rightarrow> 'row list outcome" where
  "getUsers item role_filter queryReply =
     try_catch (getUsers_try item role_filter queryReply)
       (\<lambda>e. (Inr [], [ConsoleError ''Error getting users:'']))"

definition backend_error :: "'a reply \<Rightarrow> bool" where
  "backend_error r = (case r of Resolved _ \<Rightarrow> False | _ \<Rightarrow> True)"

subsection \<open>Uploading a quiz screenshot (uploads.js)\<close>

text \<open>
  A number in a template literal is printed in decimal. \<open>file.type.split('/')[1]\<close> is the
  text between the first and the second slash, and \<open>undefined\<close> (printed as such) when
  there is no slash.
\<close>

definition digit_char :: "int \<Rightarrow> char" where
  "digit_char d =
     (if d = 0 then CHR ''0'' else if d = 1 then CHR ''1'' else if d = 2 then CHR ''2''
      else if d = 3 then CHR ''3'' else if d = 4 then CHR ''4'' else if d = 5 then CHR ''5''
      else if d = 6 then CHR ''6'' else if d = 7 then CHR ''7'' else if d = 8 then CHR ''8''
      else CHR ''9'')"

function decimal :: "int \<Rightarrow> string" where
  "decimal n = (if n < 10 then [digit_char n] else decimal (n div 10) @ [digit_char (n mod 10)])"
  by pat_completeness auto
termination
  by (relation "measure nat") auto

definition Number_toString :: "int \<Rightarrow> string" where
  "Number_toString n = (if n < 0 then CHR ''-'' # decimal (- n) else decimal n)"

definition split_slash_1 :: "string \<Rightarrow> string" where
  "split_slash_1 s =
     (case dropWhile (\<lambda>c. c \<noteq> CHR ''/'') s of
        [] \<Rightarrow> ''undefined''
      | _ # rest \<Rightarrow> takeWhile (\<lambda>c. c \<noteq> CHR ''/'') rest)"

record upload_file =
  ftype :: string
  fsize :: int

datatype upload_result = Uploaded string string | UploadFailed string

definition allowedTypes :: "string list" where
  "allowedTypes = [''image/jpeg'', ''image/png'', ''image/webp'', ''image/gif'']"

definition maxSize :: int where
  "maxSize = 5 * 1024 * 1024"

definition screenshot_filename :: "string \<Rightarrow> string \<Rightarrow> int \<Rightarrow> upload_file \<Rightarrow> string" where
  "screenshot_filename lessonId studentId timestamp f =
     studentId @ ''_lesson'' @ lessonId @ ''_'' @ Number_toString timestamp @ ''.'' @
     split_slash_1 (ftype f)"

definition screenshot_path :: "string \<Rightarrow> string \<Rightarrow> int \<Rightarrow> upload_file \<Rightarrow> string" where
  "screenshot_path lessonId studentId timestamp f =
     ''quiz_screenshots/'' @ screenshot_filename lessonId studentId timestamp f"

text \<open>
  \<open>getPublicUrl\<close> is the storage client's (synchronous) function from a bucket and a path
  to \<open>data.publicUrl\<close>, or \<open>None\<close> when it gives no data.
\<close>

definition uploadQuizScreenshot_try ::
    "string \<Rightarrow> string \<Rightarrow> upload_file option \<Rightarrow> int \<Rightarrow> (string \<Rightarrow> string \<Rightarrow> string option) \<Rightarrow>
     unit reply \<Rightarrow> upload_result outcome" where
  "uploadQuizScreenshot_try lessonId studentId file_arg now getPublicUrl uploadReply =
     (case file_arg of
        None \<Rightarrow> (Inr (UploadFailed ''No file selected''), [])
      | Some f \<Rightarrow>
          if ftype f \<notin> set allowedTypes
          then (Inr (UploadFailed ''Only image files (JPEG, PNG, WebP, GIF) are allowed''), [])
          else if fsize f > maxSize
          then (Inr (UploadFailed ''File size must be less than 5MB''), [])
          else
            let filename = screenshot_filename lessonId studentId now f;
                storagePath = ''quiz_screenshots/'' @ filename;
                upload = Call (StorageUpload ''quiz-screenshots'' storagePath)
            in case uploadReply of
                 Rejected e \<Rightarrow> (Inl e, [upload])
               | ErrorResult msg \<Rightarrow> (Inl msg, [upload])
               | Resolved _ \<Rightarrow>
                   (case getPublicUrl ''quiz-screenshots'' storagePath of
                      None \<Rightarrow> (Inl ''Failed to get public URL'', [upload])
                    | Some publicUrl \<Rightarrow> (Inr (Uploaded publicUrl filename), [upload])))"

definition uploadQuizScreenshot ::
    "string \<Rightarrow> string \<Rightarrow> upload_file option \<Rightarrow> int \<Rightarrow> (string \<Rightarrow> string \<Rightarrow> string option) \<Rightarrow>
     unit reply \<Rightarrow> upload_result outcome" where
  "uploadQuizScreenshot lessonId studentId file_arg now getPublicUrl uploadReply =
     try_catch (uploadQuizScreenshot_try lessonId studentId file_arg now getPublicUrl uploadReply)
       (\<lambda>e. (Inr (UploadFailed e), [ConsoleError ''Error uploading quiz screenshot:'']))"

subsection \<open>Submitting quiz scores (student.js)\<close>

text \<open>
  \<open>parseInt(string)\<close> with no radix: leading white space is skipped, a sign is read, a
  prefix \<open>0x\<close> or \<open>0X\<close> selects radix 16 and radix 10 is used otherwise, the longest
  prefix of digits of the radix is read as a mathematical integer, and there being no
  digit gives \<open>NaN\<close>. The result is the Number value for that integer, so an integer
  beyond \<open>2^53\<close> is rounded to a double and one beyond the largest double gives an
  infinity. (The language allows an implementation to read the digits after the 20th
  as zeros in radix 10; the digits are read exactly here.)
\<close>

definition digit_value :: "char \<Rightarrow> nat option" where
  "digit_value c =
     (let n = of_char c :: nat in
      if 48 \<le> n \<and> n \<le> 57 then Some (n - 48)
      else if 97 \<le> n \<and> n \<le> 122 then Some (n - 87)
      else if 65 \<le> n \<and> n \<le> 90 then Some (n - 55)
      else None)"

definition radix_digit :: "nat \<Rightarrow> char \<Rightarrow> bool" where
  "radix_digit R c = (case digit_value c of None \<Rightarrow> False | Some d \<Rightarrow> d < R)"

definition parse_digits :: "nat \<Rightarrow> string \<Rightarrow> int" where
  "parse_digits R ds =
     foldl (\<lambda>acc c. acc * int R + (case digit_value c of None \<Rightarrow> 0 | Some d \<Rightarrow> int d)) 0 ds"

definition strip_sign :: "string \<Rightarrow> int \<times> string" where
  "strip_sign s =
     (case s of
        [] \<Rightarrow> (1, s)
      | c # rest \<Rightarrow> if c = CHR ''-'' then (- 1, rest) else if c = CHR ''+'' then (1, rest) else (1, s))"

definition strip_radix :: "string \<Rightarrow> nat \<times> string" where
  "strip_radix s =
     (case s of
        a # b # rest \<Rightarrow>
          if a = CHR ''0'' \<and> (b = CHR ''x'' \<or> b = CHR ''X'') then (16, rest) else (10, s)
      | _ \<Rightarrow> (10, s))"

definition parseInt :: "string \<Rightarrow> number" where
  "parseInt input =
     (case strip_sign (dropWhile js_whitespace input) of
        (sign, s) \<Rightarrow>
          (case strip_radix s of
             (R, t) \<Rightarrow>
               (let z = takeWhile (radix_digit R) t
                in if z = [] then NaN else Number_of_int (sign * parse_digits R z))))"

text \<open>
  The checks of \<open>submitQuizScore\<close> and \<open>updateQuizSubmission\<close> on the two inputs, in the
  source's order: the alert of the first check that fails, or the two numbers.
\<close>

definition validate_score :: "string \<Rightarrow> string \<Rightarrow> string + (number \<times> number)" where
  "validate_score score totalItems =
     (let numScore = parseInt score;
          numTotalItems = parseInt totalItems
      in if isNaN numScore \<or> isNaN numTotalItems
         then Inl ''Score and total items must be numbers''
         else if js_less numScore (Num 0) \<or> js_less_eq numTotalItems (Num 0)
         then Inl ''Score must be at least 0 and total items must be greater than 0''
         else if js_less numTotalItems numScore
         then Inl ''Score cannot be greater than total items''
         else Inr (numScore, numTotalItems))"

definition submitQuizScore_try ::
    "stored_user \<Rightarrow> int \<Rightarrow> string \<Rightarrow> string \<Rightarrow> string \<Rightarrow> upload_file option \<Rightarrow>
     (string \<Rightarrow> string \<Rightarrow> string option) \<Rightarrow> unit reply \<Rightarrow> unit reply \<Rightarrow> bool outcome" where
  "submitQuizScore_try item now lessonId score totalItems screenshotFile getPublicUrl
       uploadReply insertReply =
     (case item of
        Malformed \<Rightarrow> (Inl ''SyntaxError'', [])
      | NoItem \<Rightarrow> (Inr False, [Alert ''You must be logged in as a student to submit quiz scores''])
      | Stored u \<Rightarrow>
          if role u \<noteq> ''student''
          then (Inr False, [Alert ''You must be logged in as a student to submit quiz scores''])
          else
            (case validate_score score totalItems of
               Inl message \<Rightarrow> (Inr False, [Alert message])
             | Inr (numScore, numTotalItems) \<Rightarrow>
                 (case (case screenshotFile of
                          None \<Rightarrow> (Inr (Inr JNull), [])
                        | Some f \<Rightarrow>
                            (case uploadQuizScreenshot lessonId (uid u) (Some f) now getPublicUrl
                                    uploadReply of
                               (Inl e, fx) \<Rightarrow> (Inl e, fx)
                             | (Inr (UploadFailed err), fx) \<Rightarrow>
                                 (Inr (Inl False),
                                  fx @ [Alert (''Failed to upload screenshot: '' @ err)])
                             | (Inr (Uploaded url filename), fx) \<Rightarrow> (Inr (Inr (JStr url)), fx))) of
                    (Inl e, fx) \<Rightarrow> (Inl e, fx)
                  | (Inr (Inl returned), fx) \<Rightarrow> (Inr returned, fx)
                  | (Inr (Inr screenshotUrl), fx) \<Rightarrow>
                      let ins = Call (Insert ''quiz_submissions''
                                  [(''student_id'', JStr (uid u)),
                                   (''lesson_id'', JStr lessonId),
                                   (''score'', JNum numScore),
                                   (''total_items'', JNum numTotalItems),
                                   (''screenshot_url'', screenshotUrl),
                                   (''status'', JStr ''pending''),
                                   (''submitted_at'', JTime now),
                                   (''created_at'', JTime now),
                                   (''updated_at'', JTime now)])
                      in case insertReply of
                           Rejected e \<Rightarrow> (Inl e, fx @ [ins])
                         | ErrorResult msg \<Rightarrow> (Inl msg, fx @ [ins])
                         | Resolved _ \<Rightarrow> (Inr True, fx @ [ins]))))"

definition submitQuizScore ::
    "stored_user \<Rightarrow> int \<Rightarrow> string \<Rightarrow> string \<Rightarrow> string \<Rightarrow> upload_file option \<Rightarrow>
     (string \<Rightarrow> string \<Rightarrow> string option) \<Rightarrow> unit reply \<Rightarrow> unit reply \<Rightarrow> bool outcome" where
  "submitQuizScore item now lessonId score totalItems screenshotFile getPublicUrl
       uploadReply insertReply =
     try_catch (submitQuizScore_try item now lessonId score totalItems screenshotFile getPublicUrl
                  uploadReply insertReply)
       (\<lambda>e. (Inr False, [ConsoleError ''Error submitting quiz score:'',
                          Alert ''Failed to submit quiz score. Please try again.'']))"

definition requestQuizResubmission_try ::
    "stored_user \<Rightarrow> int \<Rightarrow> string \<Rightarrow> unit reply \<Rightarrow> bool outcome" where
  "requestQuizResubmission_try item now submissionId updateReply =
     (case item of
        Malformed \<Rightarrow> (Inl ''SyntaxError'', [])
      | NoItem \<Rightarrow> (Inr False, [Alert ''You must be logged in as a student to request resubmission''])
      | Stored u \<Rightarrow>
          if role u \<noteq> ''student''
          then (Inr False, [Alert ''You must be logged in as a student to request resubmission''])
          else
            let upd = Call (Update ''quiz_submissions''
                        [(''status'', JStr ''pending''),
                         (''teacher_comment'', JNull),
                         (''updated_at'', JTime now)]
                        [Eq ''id'' (JStr submissionId), Eq ''student_id'' (JStr (uid u))])
            in case updateReply of
                 Rejected e \<Rightarrow> (Inl e, [upd])
               | ErrorResult msg \<Rightarrow> (Inl msg, [upd])
               | Resolved _ \<Rightarrow> (Inr True, [upd]))"

definition requestQuizResubmission ::
    "stored_user \<Rightarrow> int \<Rightarrow> string \<Rightarrow> unit reply \<Rightarrow> bool outcome" where
  "requestQuizResubmission item now submissionId updateReply =
     try_catch (requestQuizResubmission_try item now submissionId updateReply)
       (\<lambda>e. (Inr False, [ConsoleError ''Error requesting resubmission:'',
                          Alert ''Failed to request resubmission. Please try again.'']))"

text \<open>
  \<open>lessonReply\<close> is the reply to the query for the submission's \<open>lesson_id\<close>, made only
  when a new screenshot is given.
\<close>

definition updateQuizSubmission_try ::
    "stored_user \<Rightarrow> int \<Rightarrow> string \<Rightarrow> string \<Rightarrow> string \<Rightarrow> upload_file option \<Rightarrow>
     (string \<Rightarrow> string \<Rightarrow> string option) \<Rightarrow> string reply \<Rightarrow> unit reply \<Rightarrow> unit reply \<Rightarrow>
     bool outcome" where
  "updateQuizSubmission_try item now submissionId score totalItems screenshotFile getPublicUrl
       lessonReply uploadReply updateReply =
     (case item of
        Malformed \<Rightarrow> (Inl ''SyntaxError'', [])
      | NoItem \<Rightarrow> (Inr False, [Alert ''You must be logged in as a student to update quiz submissions''])
      | Stored u \<Rightarrow>
          if role u \<noteq> ''student''
          then (Inr False, [Alert ''You must be logged in as a student to update quiz submissions''])
          else
            (case validate_score score totalItems of
               Inl message \<Rightarrow> (Inr False, [Alert message])
             | Inr (numScore, numTotalItems) \<Rightarrow>
                 let updateData = [(''score'', JNum numScore),
                                   (''total_items'', JNum numTotalItems),
                                   (''status'', JStr ''pending''),
                                   (''teacher_comment'', JNull),
                                   (''updated_at'', JTime now)];
                     getLesson = Call (Select ''quiz_submissions'' ''lesson_id''
                                   [Eq ''id'' (JStr submissionId)])
                 in
                 (case (case screenshotFile of
                          None \<Rightarrow> (Inr (Inr updateData), [])
                        | Some f \<Rightarrow>
                            (case lessonReply of
                               Rejected e \<Rightarrow> (Inl e, [getLesson])
                             | ErrorResult msg \<Rightarrow> (Inl msg, [getLesson])
                             | Resolved lesson_id \<Rightarrow>
                                 (case uploadQuizScreenshot lesson_id (uid u) (Some f) now
                                         getPublicUrl uploadReply of
                                    (Inl e, fx) \<Rightarrow> (Inl e, getLesson # fx)
                                  | (Inr (UploadFailed err), fx) \<Rightarrow>
                                      (Inr (Inl False),
                                       getLesson # fx @ [Alert (''Failed to upload screenshot: '' @ err)])
                                  | (Inr (Uploaded url filename), fx) \<Rightarrow>
                                      (Inr (Inr (updateData @ [(''screenshot_url'', JStr url)])),
                                       getLesson # fx)))) of
                    (Inl e, fx) \<Rightarrow> (Inl e, fx)
                  | (Inr (Inl returned), fx) \<Rightarrow> (Inr returned, fx)
                  | (Inr (Inr updateData'), fx) \<Rightarrow>
                      let upd = Call (Update ''quiz_submissions'' updateData'
                                  [Eq ''id'' (JStr submissionId), Eq ''student_id'' (JStr (uid u))])
                      in case updateReply of
                           Rejected e \<Rightarrow> (Inl e, fx @ [upd])
                         | ErrorResult msg \<Rightarrow> (Inl msg, fx @ [upd])
                         | Resolved _ \<Rightarrow> (Inr True, fx @ [upd]))))"

definition updateQuizSubmission ::
    "stored_user \<Rightarrow> int \<Rightarrow> string \<Rightarrow> string \<Rightarrow> string \<Rightarrow> upload_file option \<Rightarrow>
     (string \<Rightarrow> string \<Rightarrow> string option) \<Rightarrow> string reply \<Rightarrow> unit reply \<Rightarrow> unit reply \<Rightarrow>
     bool outcome" where
  "updateQuizSubmission item now submissionId score totalItems screenshotFile getPublicUrl
       lessonReply uploadReply updateReply =
     try_catch (updateQuizSubmission_try item now submissionId score totalItems screenshotFile
                  getPublicUrl lessonReply uploadReply updateReply)
       (\<lambda>e. (Inr False, [ConsoleError ''Error updating quiz submission:'',
                          Alert ''Failed to update quiz submission. Please try again.'']))"

text \<open>
  What a request writes to \<open>quiz_submissions\<close>: the payload of an insert or an update on
  that table, and nothing for any other request.
\<close>

definition submission_written :: "request \<Rightarrow> payload option" where
  "submission_written r =
     (case r of
        Insert table row \<Rightarrow> if table = ''quiz_submissions'' then Some row else None
      | Update table row filters \<Rightarrow> if table = ''quiz_submissions'' then Some row else None
      | Upsert table row conflict \<Rightarrow> if table = ''quiz_submissions'' then Some row else None
      | _ \<Rightarrow> None)"

definition score_within_total :: "request \<Rightarrow> bool" where
  "score_within_total r =
     (case submission_written r of
        None \<Rightarrow> True
      | Some row \<Rightarrow>
          (case (map_of row ''score'', map_of row ''total_items'') of
             (Some (JNum s), Some (JNum t)) \<Rightarrow> js_less_eq (Num 0) s \<and> js_less_eq s t
           | _ \<Rightarrow> False))"

definition statuses_written :: "effect list \<Rightarrow> jv list" where
  "statuses_written fx =
     concat (map (\<lambda>r. case submission_written r of
                         None \<Rightarrow> []
                       | Some row \<Rightarrow> (case map_of row ''status'' of None \<Rightarrow> [] | Some v \<Rightarrow> [v]))
                 (calls fx))"

text \<open>Properties of a single request, used to state what the operations write.\<close>

definition writes_pending_score :: "number \<Rightarrow> number \<Rightarrow> request \<Rightarrow> bool" where
  "writes_pending_score s t r =
     (case submission_written r of
        None \<Rightarrow> True
      | Some row \<Rightarrow> map_of row ''score'' = Some (JNum s) \<and> map_of row ''total_items'' = Some (JNum t) \<and>
           map_of row ''status'' = Some (JStr ''pending''))"

definition writes_status :: "jv \<Rightarrow> request \<Rightarrow> bool" where
  "writes_status v r =
     (case submission_written r of None \<Rightarrow> True | Some row \<Rightarrow> map_of row ''status'' = Some v)"

definition is_write :: "request \<Rightarrow> bool" where
  "is_write r = (submission_written r \<noteq> None)"

subsection \<open>Student notes (student.js)\<close>






subsection \<open>Progress reports (student.js, teacher.js)\<close>

text \<open>
  Rows as the helpers read them. The reports are modelled by the values they return
  (\<open>null\<close> is \<open>None\<close>); the queries and console output are not listed. A query that ends in
  an error object leaves \<open>null\<close> in the variable that receives its data.
\<close>

record lesson =
  lesson_id :: string
  lesson_title :: string

record progress_row =
  p_student_id :: string
  p_lesson_id :: string
  p_completed :: bool
  p_completed_at :: "int option"

record submission_row =
  q_student_id :: string
  q_lesson_id :: string
  q_score :: int
  q_total_items :: int
  q_status :: string

record student_row =
  student_id :: string
  full_name :: string
  email :: string

record module_row =
  module_id :: string
  module_title :: string
  module_lessons :: "lesson list option"

record lesson_report =
  r_lesson_id :: string
  r_completed :: bool
  r_quiz_submitted :: bool
  r_quiz_status :: "string option"

record progress_report =
  report_of :: string
  total_lessons :: nat
  completed_lessons :: nat
  completion_percentage :: int
  lessons :: "lesson_report list"

record quiz_progress_report = progress_report +
  submitted_quizzes :: nat
  approved_quizzes :: nat

record student_progress =
  sp_student_id :: string
  sp_total_lessons :: nat
  sp_completed_lessons :: nat
  overall_completion :: int
  total_quizzes_submitted :: nat
  total_quizzes_approved :: nat
  modules :: "quiz_progress_report list"

definition data_of :: "'a reply \<Rightarrow> string + 'a option" where
  "data_of r = (case r of Resolved d \<Rightarrow> Inr (Some d) | ErrorResult msg \<Rightarrow> Inr None | Rejected e \<Rightarrow> Inl e)"

text \<open>
  \<open>xs.map(f)\<close> where the callback may throw: the first exception leaves the map.
\<close>

fun map_throwing :: "('a \<Rightarrow> string + 'b) \<Rightarrow> 'a list \<Rightarrow> string + 'b list" where
  "map_throwing f [] = Inr []"
| "map_throwing f (x # xs) =
     (case f x of
        Inl e \<Rightarrow> Inl e
      | Inr y \<Rightarrow> (case map_throwing f xs of Inl e \<Rightarrow> Inl e | Inr ys \<Rightarrow> Inr (y # ys)))"

text \<open>
  The per-lesson entry of \<open>getStudentProgressByModule\<close>: \<open>progress.find\<close> and
  \<open>submissions.find\<close> take the first row of the lesson, and throw a TypeError on \<open>null\<close>.
\<close>

definition lessonProgress_entry ::
    "progress_row list option \<Rightarrow> submission_row list option \<Rightarrow> lesson \<Rightarrow> string + lesson_report" where
  "lessonProgress_entry progress submissions l =
     (case progress of
        None \<Rightarrow> Inl ''TypeError''
      | Some ps \<Rightarrow>
          (case submissions of
             None \<Rightarrow> Inl ''TypeError''
           | Some ss \<Rightarrow>
               let lessonProgress = find (\<lambda>p. p_lesson_id p = lesson_id l) ps;
                   quizSubmission = find (\<lambda>q. q_lesson_id q = lesson_id l) ss
               in Inr \<lparr> r_lesson_id = lesson_id l,
                        r_completed = (case lessonProgress of None \<Rightarrow> False | Some p \<Rightarrow> p_completed p),
                        r_quiz_submitted = (quizSubmission \<noteq> None),
                        r_quiz_status = map_option q_status quizSubmission \<rparr>))"

definition getStudentProgressByModule_try ::
    "stored_user \<Rightarrow> string \<Rightarrow> lesson list reply \<Rightarrow>
     (string \<Rightarrow> string list \<Rightarrow> progress_row list reply) \<Rightarrow>
     (string \<Rightarrow> string list \<Rightarrow> submission_row list reply) \<Rightarrow> string + progress_report option" where
  "getStudentProgressByModule_try item moduleId lessonsReply progressQuery submissionsQuery =
     (case item of
        Malformed \<Rightarrow> Inl ''SyntaxError''
      | NoItem \<Rightarrow> Inr None
      | Stored u \<Rightarrow>
          if role u \<noteq> ''student'' then Inr None
          else
            (case lessonsReply of
               Rejected e \<Rightarrow> Inl e
             | ErrorResult msg \<Rightarrow> Inr None
             | Resolved lessons_rows \<Rightarrow>
                 (case data_of (progressQuery (uid u) (map lesson_id lessons_rows)) of
                    Inl e \<Rightarrow> Inl e
                  | Inr progress \<Rightarrow>
                      (case data_of (submissionsQuery (uid u) (map lesson_id lessons_rows)) of
                         Inl e \<Rightarrow> Inl e
                       | Inr submissions \<Rightarrow>
                           (case map_throwing (lessonProgress_entry progress submissions) lessons_rows of
                              Inl e \<Rightarrow> Inl e
                            | Inr lessonProgress \<Rightarrow>
                                let completedLessons = length (filter r_completed lessonProgress);
                                    totalLessons = length lessonProgress
                                in Inr (Some \<lparr> report_of = moduleId,
                                               total_lessons = totalLessons,
                                               completed_lessons = completedLessons,
                                               completion_percentage =
                                                 completionPercentage completedLessons totalLessons,
                                               lessons = lessonProgress \<rparr>))))))"

definition getStudentProgressByModule ::
    "stored_user \<Rightarrow> string \<Rightarrow> lesson list reply \<Rightarrow>
     (string \<Rightarrow> string list \<Rightarrow> progress_row list reply) \<Rightarrow>
     (string \<Rightarrow> string list \<Rightarrow> submission_row list reply) \<Rightarrow> progress_report option" where
  "getStudentProgressByModule item moduleId lessonsReply progressQuery submissionsQuery =
     (case getStudentProgressByModule_try item moduleId lessonsReply progressQuery submissionsQuery of
        Inl e \<Rightarrow> None
      | Inr r \<Rightarrow> r)"

text \<open>
  The per-lesson entry of the teacher's reports: \<open>!!lessonProgress?.completed\<close>.
\<close>

definition lesson_entry :: "progress_row list \<Rightarrow> submission_row list \<Rightarrow> lesson \<Rightarrow> lesson_report" where
  "lesson_entry ps ss l =
     (let lessonProgress = find (\<lambda>p. p_lesson_id p = lesson_id l) ps;
          quizSubmission = find (\<lambda>q. q_lesson_id q = lesson_id l) ss
      in \<lparr> r_lesson_id = lesson_id l,
           r_completed = (case lessonProgress of None \<Rightarrow> False | Some p \<Rightarrow> p_completed p),
           r_quiz_submitted = (quizSubmission \<noteq> None),
           r_quiz_status = map_option q_status quizSubmission \<rparr>)"

text \<open>
  The entry of one module in \<open>getStudentProgress\<close>. \<open>module.lessons || []\<close> replaces
  \<open>null\<close> by the empty list. The callbacks of \<open>filter\<close> call \<open>progress.some\<close> and
  \<open>submissions.some\<close>, which throw on \<open>null\<close>; they run only when the module has a lesson.
\<close>

definition moduleProgress_entry ::
    "progress_row list option \<Rightarrow> submission_row list option \<Rightarrow> module_row \<Rightarrow>
     string + quiz_progress_report" where
  "moduleProgress_entry progress submissions m =
     (let moduleLessons = (case module_lessons m of None \<Rightarrow> [] | Some ls \<Rightarrow> ls)
      in if moduleLessons = []
         then Inr \<lparr> report_of = module_id m, total_lessons = 0, completed_lessons = 0,
                    completion_percentage = 0, lessons = [],
                    submitted_quizzes = 0, approved_quizzes = 0 \<rparr>
         else
           (case progress of
              None \<Rightarrow> Inl ''TypeError''
            | Some ps \<Rightarrow>
                (case submissions of
                   None \<Rightarrow> Inl ''TypeError''
                 | Some ss \<Rightarrow>
                     let completedLessons = length (filter (\<lambda>l.
                           list_ex (\<lambda>p. p_lesson_id p = lesson_id l \<and> p_completed p) ps) moduleLessons);
                         quizSubmissions = length (filter (\<lambda>l.
                           list_ex (\<lambda>q. q_lesson_id q = lesson_id l) ss) moduleLessons);
                         approvedQuizzes = length (filter (\<lambda>l.
                           list_ex (\<lambda>q. q_lesson_id q = lesson_id l \<and> q_status q = ''approved'') ss)
                           moduleLessons)
                     in Inr \<lparr> report_of = module_id m,
                              total_lessons = length moduleLessons,
                              completed_lessons = completedLessons,
                              completion_percentage =
                                completionPercentage completedLessons (length moduleLessons),
                              lessons = map (lesson_entry ps ss) moduleLessons,
                              submitted_quizzes = quizSubmissions,
                              approved_quizzes = approvedQuizzes \<rparr>)))"

text \<open>
  \<open>modules.reduce((sum, module) => sum + module.lessons.length, 0)\<close> reads \<open>length\<close> of
  \<open>module.lessons\<close> itself and throws when that is \<open>null\<close>.
\<close>

definition lessons_length :: "module_row \<Rightarrow> string + nat" where
  "lessons_length m = (case module_lessons m of None \<Rightarrow> Inl ''TypeError'' | Some ls \<Rightarrow> Inr (length ls))"

definition getStudentProgress_try ::
    "stored_user \<Rightarrow> string \<Rightarrow> student_row reply \<Rightarrow> module_row list reply \<Rightarrow>
     progress_row list reply \<Rightarrow> submission_row list reply \<Rightarrow> string + student_progress option" where
  "getStudentProgress_try item studentId studentReply modulesReply progressReply submissionsReply =
     (case item of
        Malformed \<Rightarrow> Inl ''SyntaxError''
      | NoItem \<Rightarrow> Inr None
      | Stored u \<Rightarrow>
          if \<not> reviewer u then Inr None
          else
            (case studentReply of
               Rejected e \<Rightarrow> Inl e
             | ErrorResult msg \<Rightarrow> Inr None
             | Resolved student \<Rightarrow>
                 (case modulesReply of
                    Rejected e \<Rightarrow> Inl e
                  | ErrorResult msg \<Rightarrow> Inr None
                  | Resolved modules_rows \<Rightarrow>
                      (case data_of progressReply of
                         Inl e \<Rightarrow> Inl e
                       | Inr progress \<Rightarrow>
                           (case data_of submissionsReply of
                              Inl e \<Rightarrow> Inl e
                            | Inr submissions \<Rightarrow>
                                (case map_throwing (moduleProgress_entry progress submissions)
                                        modules_rows of
                                   Inl e \<Rightarrow> Inl e
                                 | Inr moduleProgress \<Rightarrow>
                                     (case map_throwing lessons_length modules_rows of
                                        Inl e \<Rightarrow> Inl e
                                      | Inr lengths \<Rightarrow>
                                          let totalLessons = sum_list lengths;
                                              totalCompletedLessons =
                                                sum_list (map completed_lessons moduleProgress);
                                              totalApprovedQuizzes =
                                                sum_list (map approved_quizzes moduleProgress);
                                              totalQuizSubmissions =
                                                sum_list (map submitted_quizzes moduleProgress)
                                          in Inr (Some
                                               \<lparr> sp_student_id = student_id student,
                                                 sp_total_lessons = totalLessons,
                                                 sp_completed_lessons = totalCompletedLessons,
                                                 overall_completion =
                                                   completionPercentage totalCompletedLessons totalLessons,
                                                 total_quizzes_submitted = totalQuizSubmissions,
                                                 total_quizzes_approved = totalApprovedQuizzes,
                                                 modules = moduleProgress \<rparr>))))))))"

definition getStudentProgress ::
    "stored_user \<Rightarrow> string \<Rightarrow> student_row reply \<Rightarrow> module_row list reply \<Rightarrow>
     progress_row list reply \<Rightarrow> submission_row list reply \<Rightarrow> student_progress option" where
  "getStudentProgress item studentId studentReply modulesReply progressReply submissionsReply =
     (case getStudentProgress_try item studentId studentReply modulesReply progressReply
             submissionsReply of
        Inl e \<Rightarrow> None
      | Inr r \<Rightarrow> r)"

text \<open>
  The entry of one student in \<open>getStudentsByModule\<close>: \<open>progress.filter\<close> throws on
  \<open>null\<close>, then \<open>submissions.filter\<close> does. The completed lessons are counted as the
  student's progress rows with \<open>completed\<close>.
\<close>

definition studentProgress_entry ::
    "lesson list \<Rightarrow> progress_row list option \<Rightarrow> submission_row list option \<Rightarrow> student_row \<Rightarrow>
     string + quiz_progress_report" where
  "studentProgress_entry lessons_rows progress submissions student =
     (case progress of
        None \<Rightarrow> Inl ''TypeError''
      | Some ps \<Rightarrow>
          (case submissions of
             None \<Rightarrow> Inl ''TypeError''
           | Some ss \<Rightarrow>
               let studentProgress = filter (\<lambda>p. p_student_id p = student_id student) ps;
                   studentSubmissions = filter (\<lambda>q. q_student_id q = student_id student) ss;
                   completedLessons = length (filter p_completed studentProgress);
                   submittedQuizzes = length studentSubmissions;
                   approvedQuizzes = length (filter (\<lambda>q. q_status q = ''approved'') studentSubmissions)
               in Inr \<lparr> report_of = student_id student,
                        total_lessons = length lessons_rows,
                        completed_lessons = completedLessons,
                        completion_percentage =
                          completionPercentage completedLessons (length lessons_rows),
                        lessons = map (lesson_entry studentProgress studentSubmissions) lessons_rows,
                        submitted_quizzes = submittedQuizzes,
                        approved_quizzes = approvedQuizzes \<rparr>))"

definition getStudentsByModule_try ::
    "stored_user \<Rightarrow> string \<Rightarrow> lesson list reply \<Rightarrow> student_row list reply \<Rightarrow>
     (string list \<Rightarrow> progress_row list reply) \<Rightarrow> (string list \<Rightarrow> submission_row list reply) \<Rightarrow>
     string + quiz_progress_report list" where
  "getStudentsByModule_try item moduleId lessonsReply studentsReply progressQuery submissionsQuery =
     (case item of
        Malformed \<Rightarrow> Inl ''SyntaxError''
      | NoItem \<Rightarrow> Inr []
      | Stored u \<Rightarrow>
          if \<not> reviewer u then Inr []
          else
            (case lessonsReply of
               Rejected e \<Rightarrow> Inl e
             | ErrorResult msg \<Rightarrow> Inr []
             | Resolved lessons_rows \<Rightarrow>
                 (case studentsReply of
                    Rejected e \<Rightarrow> Inl e
                  | ErrorResult msg \<Rightarrow> Inr []
                  | Resolved students \<Rightarrow>
                      (case data_of (progressQuery (map lesson_id lessons_rows)) of
                         Inl e \<Rightarrow> Inl e
                       | Inr progress \<Rightarrow>
                           (case data_of (submissionsQuery (map lesson_id lessons_rows)) of
                              Inl e \<Rightarrow> Inl e
                            | Inr submissions \<Rightarrow>
                                map_throwing (studentProgress_entry lessons_rows progress submissions)
                                  students)))))"

definition getStudentsByModule ::
    "stored_user \<Rightarrow> string \<Rightarrow> lesson list reply \<Rightarrow> student_row list reply \<Rightarrow>
     (string list \<Rightarrow> progress_row list reply) \<Rightarrow> (string list \<Rightarrow> submission_row list reply) \<Rightarrow>
     quiz_progress_report list" where
  "getStudentsByModule item moduleId lessonsReply studentsReply progressQuery submissionsQuery =
     (case getStudentsByModule_try item moduleId lessonsReply studentsReply progressQuery
             submissionsQuery of
        Inl e \<Rightarrow> []
      | Inr r \<Rightarrow> r)"

text \<open>
  The claim's count: the lessons of the list that have a progress row with
  \<open>completed = true\<close> among the given rows. And its percentage: \<open>100 * completed / total\<close>
  rounded to the nearest integer, the upper one at a tie (as \<open>Math.round\<close> rounds).
\<close>

definition lessons_completed :: "lesson list \<Rightarrow> progress_row list \<Rightarrow> nat" where
  "lessons_completed ls rows =
     length (filter (\<lambda>l. list_ex (\<lambda>p. p_lesson_id p = lesson_id l \<and> p_completed p) rows) ls)"

definition rounded_percentage :: "nat \<Rightarrow> nat \<Rightarrow> int" where
  "rounded_percentage c n =
     (if n > 0 then \<lfloor>100 * of_nat c / (of_nat n :: rat) + 1 / 2\<rfloor> else 0)"

text \<open>
  The three numbers of a report that the claim is about, and what the claim expects
  them to be for a module of \<open>getStudentProgress\<close> and for a student of
  \<open>getStudentsByModule\<close>.
\<close>

definition expected_module_numbers :: "progress_row list \<Rightarrow> module_row \<Rightarrow> nat \<times> nat \<times> int" where
  "expected_module_numbers ps m =
     (let ls = (case module_lessons m of None \<Rightarrow> [] | Some ls \<Rightarrow> ls)
      in (length ls, lessons_completed ls ps,
          completionPercentage (lessons_completed ls ps) (length ls)))"

definition report_numbers :: "'a progress_report_scheme \<Rightarrow> nat \<times> nat \<times> int" where
  "report_numbers r = (total_lessons r, completed_lessons r, completion_percentage r)"

definition expected_student_numbers :: "lesson list \<Rightarrow> progress_row list \<Rightarrow> student_row \<Rightarrow> nat \<times> nat \<times> int" where
  "expected_student_numbers ls ps s =
     (let rows = filter (\<lambda>p. p_student_id p = student_id s) ps
      in (length ls, lessons_completed ls rows,
          completionPercentage (lessons_completed ls rows) (length ls)))"

section \<open>Properties\<close>

subsection \<open>The cache\<close>

lemma getCached_after_setCache:
  assumes "CACHE_ENABLED cfg"
  shows "getCached cfg now (setCache cfg t0 cache key v ttl) key =
           (if now > stored_expiry cfg t0 ttl
            then (None, (setCache cfg t0 cache key v ttl)(key := None))
            else (Some v, setCache cfg t0 cache key v ttl))"
  using assms by (simp add: getCached_def setCache_def stored_expiry_def)

lemma cache_disabled:
  assumes "\<not> CACHE_ENABLED cfg"
  shows "setCache cfg t0 cache key v ttl = cache" and "getCached cfg now cache key = (None, cache)"
  using assms by (simp_all add: getCached_def setCache_def)

text \<open>
  C7. After \<open>setCache(key, v, ttl)\<close> at time \<open>t0\<close>, \<open>getCached(key)\<close> at time \<open>now\<close>
  returns \<open>v\<close> and leaves the cache as it is while \<open>now\<close> has not passed the stored
  expiry \<open>t0 + ttl\<close>; once \<open>now\<close> is strictly past the expiry it returns null and the
  entry is deleted, so that the key is absent afterwards. With \<open>CACHE_ENABLED\<close> false,
  \<open>setCache\<close> leaves the cache as it was and \<open>getCached\<close> returns null for every key and
  every cache.
\<close>

theorem cache_ttl_contract:
  fixes cache :: "('k, 'v) cache"
  shows "(CACHE_ENABLED cfg \<longrightarrow>
            expiry (the (setCache cfg t0 cache key v ttl key)) = stored_expiry cfg t0 ttl \<and>
            (now \<le> stored_expiry cfg t0 ttl \<longrightarrow>
               getCached cfg now (setCache cfg t0 cache key v ttl) key =
                 (Some v, setCache cfg t0 cache key v ttl)) \<and>
            (stored_expiry cfg t0 ttl < now \<longrightarrow>
               fst (getCached cfg now (setCache cfg t0 cache key v ttl) key) = None \<and>
               snd (getCached cfg now (setCache cfg t0 cache key v ttl) key) key = None)) \<and>
         (\<not> CACHE_ENABLED cfg \<longrightarrow>
            setCache cfg t0 cache key v ttl = cache \<and>
            fst (getCached cfg now cache key) = None)"
proof (cases "CACHE_ENABLED cfg")
  case True
  have "expiry (the (setCache cfg t0 cache key v ttl key)) = stored_expiry cfg t0 ttl"
    using True by (simp add: setCache_def stored_expiry_def)
  with True show ?thesis
    by (simp add: getCached_after_setCache)
next
  case False
  then show ?thesis
    by (simp add: cache_disabled)
qed

theorem cache_ttl_contract_witness:
  "getCached CONFIG 300000 (setCache CONFIG 0 Map.empty ''modules'' (7::nat) None) ''modules''
     = (Some 7, setCache CONFIG 0 Map.empty ''modules'' 7 None) \<and>
   fst (getCached CONFIG 300001 (setCache CONFIG 0 Map.empty ''modules'' (7::nat) None) ''modules'')
     = None \<and>
   snd (getCached CONFIG 300001 (setCache CONFIG 0 Map.empty ''modules'' (7::nat) None) ''modules'')
     ''modules'' = None \<and>
   setCache (CONFIG\<lparr>CACHE_ENABLED := False\<rparr>) 0 Map.empty ''modules'' (7::nat) (Some 5) = Map.empty"
proof -
  have en: "CACHE_ENABLED CONFIG" and ex: "stored_expiry CONFIG 0 None = 300000"
    by (simp_all add: CONFIG_def stored_expiry_def)
  have dis: "\<not> CACHE_ENABLED (CONFIG\<lparr>CACHE_ENABLED := False\<rparr>)"
    by simp
  show ?thesis
    using cache_ttl_contract [of CONFIG 0 Map.empty "''modules''" "7::nat" None 300000]
      cache_ttl_contract [of CONFIG 0 Map.empty "''modules''" "7::nat" None 300001]
      cache_ttl_contract [of "CONFIG\<lparr>CACHE_ENABLED := False\<rparr>" 0 Map.empty "''modules''" "7::nat" "Some 5" 0]
      en ex dis
    by simp
qed

subsection \<open>The session monitor\<close>

lemma inv_initial: "monitor_inv initial_monitor"
  by (simp add: monitor_inv_def initial_monitor_def)

lemma inv_start: "monitor_inv m \<Longrightarrow> monitor_inv (startSessionMonitor m)"
  by (auto simp: monitor_inv_def startSessionMonitor_def setInterval_def truthy_handle_def
           split: option.splits)

lemma inv_stop: "monitor_inv m \<Longrightarrow> monitor_inv (stopSessionMonitor m)"
  by (auto simp: monitor_inv_def stopSessionMonitor_def clearInterval_def truthy_handle_def
           split: option.splits)

lemma inv_other: "monitor_inv m \<Longrightarrow> monitor_inv (other_timer m)"
  by (auto simp: monitor_inv_def other_timer_def split: option.splits)

lemma inv_tick:
  "monitor_inv m \<Longrightarrow> monitor_inv (snd (sessionCheck cfg now sessionReply refreshReply m))"
  by (cases sessionReply; cases refreshReply)
     (auto simp: sessionCheck_def handleSessionExpired_def Let_def inv_stop inv_other
           split: option.splits)

lemma reachable_inv: "reachable m \<Longrightarrow> monitor_inv m"
proof (induction rule: reachable.induct)
  case init
  show ?case by (rule inv_initial)
next
  case (start m)
  then show ?case by (simp add: inv_start)
next
  case (stop m)
  then show ?case by (simp add: inv_stop)
next
  case (tick m cfg now sessionReply refreshReply)
  then show ?case by (simp add: inv_tick)
next
  case (other m)
  then show ?case by (simp add: inv_other)
qed

lemma inv_handle_truthy:
  "monitor_inv m \<Longrightarrow> truthy_handle (sessionCheckInterval m) = (sessionCheckInterval m \<noteq> None)"
  by (auto simp: monitor_inv_def truthy_handle_def split: option.splits)

text \<open>
  C8. In every state reachable from page load by starting and stopping the monitor,
  by runs of the session check (session expiry included) and by other timers being set,
  at most one session-check interval
  is active, and it is the one whose handle \<open>sessionCheckInterval\<close> holds. Starting
  the monitor while one is running returns the state unchanged; stopping it leaves no
  session-check interval active and the handle null.
\<close>

theorem session_monitor_single_timer:
  assumes "reachable m"
  shows "length (session_timers m) \<le> 1 \<and>
         session_timers m = (case sessionCheckInterval m of None \<Rightarrow> [] | Some h \<Rightarrow> [h]) \<and>
         (sessionCheckInterval m \<noteq> None \<longrightarrow> startSessionMonitor m = m) \<and>
         sessionCheckInterval (stopSessionMonitor m) = None \<and>
         session_timers (stopSessionMonitor m) = []"
proof -
  have inv: "monitor_inv m"
    using assms by (rule reachable_inv)
  have one: "session_timers m = (case sessionCheckInterval m of None \<Rightarrow> [] | Some h \<Rightarrow> [h])"
    using inv by (auto simp: monitor_inv_def split: option.splits)
  then have le: "length (session_timers m) \<le> 1"
    by (simp split: option.splits)
  have again: "sessionCheckInterval m \<noteq> None \<longrightarrow> startSessionMonitor m = m"
    using inv_handle_truthy [OF inv] by (simp add: startSessionMonitor_def)
  have null: "sessionCheckInterval (stopSessionMonitor m) = None"
    using inv by (auto simp: monitor_inv_def stopSessionMonitor_def truthy_handle_def
                       split: option.splits)
  have cleared: "session_timers (stopSessionMonitor m) = []"
    using inv by (auto simp: monitor_inv_def stopSessionMonitor_def clearInterval_def
                       truthy_handle_def split: option.splits)
  from le one again null cleared show ?thesis
    by blast
qed

lemma reachable_started: "reachable (startSessionMonitor initial_monitor)"
  by (intro reachable.start reachable.init)

theorem session_monitor_single_timer_witness:
  "length (session_timers (startSessionMonitor initial_monitor)) \<le> 1 \<and>
   sessionCheckInterval (startSessionMonitor initial_monitor) = Some 1 \<and>
   session_timers (startSessionMonitor initial_monitor) = [1] \<and>
   startSessionMonitor (startSessionMonitor initial_monitor) = startSessionMonitor initial_monitor \<and>
   sessionCheckInterval (stopSessionMonitor (startSessionMonitor initial_monitor)) = None \<and>
   session_timers (stopSessionMonitor (startSessionMonitor initial_monitor)) = []"
proof -
  have h: "sessionCheckInterval (startSessionMonitor initial_monitor) = Some 1"
    by (simp add: startSessionMonitor_def initial_monitor_def setInterval_def truthy_handle_def)
  show ?thesis
    using session_monitor_single_timer [OF reachable_started] h
    by simp
qed

subsection \<open>Deleting users\<close>

lemma calls_simps [simp]:
  "calls [] = []"
  "calls (Call r # fx) = r # calls fx"
  "calls (Alert a # fx) = calls fx"
  "calls (ConsoleError a # fx) = calls fx"
  "calls (ShowToast a b # fx) = calls fx"
  "calls (SetItem a b # fx) = calls fx"
  "calls (RemoveItem a # fx) = calls fx"
  "calls (ClearCache # fx) = calls fx"
  "calls (Redirect a # fx) = calls fx"
  by (simp_all add: calls_def)

lemma calls_append [simp]: "calls (fx @ fx') = calls fx @ calls fx'"
  by (simp add: calls_def)

lemma deleteUser_self:
  assumes "role u = ''admin''"
  shows "deleteUser (Stored u) (uid u) dbReply authReply =
           (Inr False, [ShowToast ''You cannot delete your own account'' ''error''])"
  using assms by (simp add: deleteUser_def deleteUser_try_def try_catch_def)

lemma deleteUser_other_calls:
  assumes "role u = ''admin''" and "uid u \<noteq> userId"
  shows "calls (snd (deleteUser (Stored u) userId dbReply authReply)) =
           (case dbReply of
              Resolved _ \<Rightarrow> [Delete ''users'' [Eq ''id'' (JStr userId)], AuthAdminDeleteUser userId]
            | _ \<Rightarrow> [Delete ''users'' [Eq ''id'' (JStr userId)]])"
  using assms
  by (cases dbReply; cases authReply)
     (simp_all add: deleteUser_def deleteUser_try_def try_catch_def Let_def)

lemma deleteUser_other_result:
  assumes "role u = ''admin''" and "uid u \<noteq> userId"
  shows "fst (deleteUser (Stored u) userId dbReply authReply) =
           Inr ((\<exists>x. dbReply = Resolved x) \<and> (\<exists>y. authReply = Resolved y))"
  using assms
  by (cases dbReply; cases authReply)
     (simp_all add: deleteUser_def deleteUser_try_def try_catch_def Let_def)

text \<open>
  C10. For a logged-in admin, \<open>deleteUser\<close> with the admin's own id returns false and
  attempts no remote call at all (neither the delete on the users table nor the one on
  the auth service). For another id, the delete on the users table is attempted first;
  the auth service's delete follows it, and only when the table's delete resolved without
  error; the result is true exactly when both resolved.
\<close>

theorem deleteUser_never_self:
  assumes "role u = ''admin''"
  shows "fst (deleteUser (Stored u) (uid u) dbReply authReply) = Inr False \<and>
         calls (snd (deleteUser (Stored u) (uid u) dbReply authReply)) = [] \<and>
         (uid u \<noteq> userId \<longrightarrow>
            calls (snd (deleteUser (Stored u) userId dbReply authReply)) =
              (case dbReply of
                 Resolved _ \<Rightarrow> [Delete ''users'' [Eq ''id'' (JStr userId)], AuthAdminDeleteUser userId]
               | _ \<Rightarrow> [Delete ''users'' [Eq ''id'' (JStr userId)]]) \<and>
            fst (deleteUser (Stored u) userId dbReply authReply) =
              Inr ((\<exists>x. dbReply = Resolved x) \<and> (\<exists>y. authReply = Resolved y)))"
  using assms deleteUser_other_calls [OF assms] deleteUser_other_result [OF assms]
  by (simp add: deleteUser_self)

theorem deleteUser_never_self_witness:
  "fst (deleteUser (Stored \<lparr>uid = ''a1'', role = ''admin''\<rparr>) ''a1'' (Resolved ()) (Resolved ()))
     = Inr False \<and>
   calls (snd (deleteUser (Stored \<lparr>uid = ''a1'', role = ''admin''\<rparr>) ''a1'' (Resolved ()) (Resolved ())))
     = [] \<and>
   calls (snd (deleteUser (Stored \<lparr>uid = ''a1'', role = ''admin''\<rparr>) ''s7'' (Resolved ()) (Resolved ())))
     = [Delete ''users'' [Eq ''id'' (JStr ''s7'')], AuthAdminDeleteUser ''s7''] \<and>
   fst (deleteUser (Stored \<lparr>uid = ''a1'', role = ''admin''\<rparr>) ''s7'' (Resolved ()) (Resolved ()))
     = Inr True"
  using deleteUser_never_self [where u = "\<lparr>uid = ''a1'', role = ''admin''\<rparr>" and userId = "''s7''"
          and dbReply = "Resolved ()" and authReply = "Resolved ()"]
  by simp

subsection \<open>Rejecting a submission\<close>

lemma reject_blank:
  assumes "comment = None \<or> (\<exists>c. comment = Some c \<and> list_all js_whitespace c)"
  shows "fst (rejectQuizSubmission item now submissionId comment updateReply) = Inr False"
    and "calls (snd (rejectQuizSubmission item now submissionId comment updateReply)) = []"
proof -
  have blank: "js_trim c = []" if "list_all js_whitespace c" for c
  proof -
    from that have "dropWhile js_whitespace c = []"
      by (induction c) simp_all
    then have "js_trim c = rev (dropWhile js_whitespace (rev []))"
      unfolding js_trim_def by (rule arg_cong)
    then show ?thesis
      by simp
  qed
  show "fst (rejectQuizSubmission item now submissionId comment updateReply) = Inr False"
    using assms blank
    by (auto simp: rejectQuizSubmission_def rejectQuizSubmission_try_def try_catch_def
             split: stored_user.splits)
  show "calls (snd (rejectQuizSubmission item now submissionId comment updateReply)) = []"
    using assms blank
    by (auto simp: rejectQuizSubmission_def rejectQuizSubmission_try_def try_catch_def
             split: stored_user.splits)
qed

lemma trim_nonblank:
  assumes "\<not> list_all js_whitespace c"
  shows "js_trim c \<noteq> []" and "c \<noteq> []"
proof -
  from assms obtain x where x: "x \<in> set c" "\<not> js_whitespace x"
    by (auto simp: list_all_iff)
  then have "dropWhile js_whitespace c \<noteq> []"
    by auto
  then have "\<exists>y \<in> set (rev (dropWhile js_whitespace c)). \<not> js_whitespace y"
    using x by (metis dropWhile_eq_Nil_conv hd_dropWhile hd_in_set set_rev)
  then show "js_trim c \<noteq> []"
    by (auto simp: js_trim_def)
  from x show "c \<noteq> []"
    by auto
qed

lemma reject_sends:
  assumes "reviewer u" and "\<not> list_all js_whitespace c"
  shows "calls (snd (rejectQuizSubmission (Stored u) now submissionId (Some c) updateReply)) =
           [rejection_update u now submissionId c]"
    and "fst (rejectQuizSubmission (Stored u) now submissionId (Some c) updateReply) =
           Inr (\<exists>x. updateReply = Resolved x)"
  using assms trim_nonblank [OF assms(2)]
  by (cases updateReply;
      simp add: rejectQuizSubmission_def rejectQuizSubmission_try_def try_catch_def Let_def
                rejection_update_def)+

text \<open>
  C9. When the comment is null or undefined, or a string of white space only (the empty
  string included), \<open>rejectQuizSubmission\<close> returns false and attempts no remote call,
  whoever calls it. For a teacher or admin and a comment with a character that is not
  white space, exactly one request is sent: the update of the \<open>quiz_submissions\<close> row
  whose id is the submission's, setting \<open>status\<close> to \<open>rejected\<close>, \<open>teacher_comment\<close> to
  the trimmed comment, \<open>reviewed_at\<close> to the current time and \<open>reviewed_by\<close> to the
  caller's id; the result is true exactly when that update resolves without error.
\<close>

theorem rejectQuizSubmission_comment_required:
  "((comment = None \<or> (\<exists>c. comment = Some c \<and> list_all js_whitespace c)) \<longrightarrow>
      fst (rejectQuizSubmission item now submissionId comment updateReply) = Inr False \<and>
      calls (snd (rejectQuizSubmission item now submissionId comment updateReply)) = []) \<and>
   (reviewer u \<and> \<not> list_all js_whitespace c \<longrightarrow>
      calls (snd (rejectQuizSubmission (Stored u) now submissionId (Some c) updateReply)) =
        [Update ''quiz_submissions''
           [(''status'', JStr ''rejected''),
            (''teacher_comment'', JStr (js_trim c)),
            (''reviewed_at'', JTime now),
            (''reviewed_by'', JStr (uid u)),
            (''updated_at'', JTime now)]
           [Eq ''id'' (JStr submissionId)]] \<and>
      fst (rejectQuizSubmission (Stored u) now submissionId (Some c) updateReply) =
        Inr (\<exists>x. updateReply = Resolved x))"
  using reject_blank [of comment item now submissionId updateReply]
    reject_sends [of u c now submissionId updateReply]
  by (simp add: rejection_update_def)

lemma trim_example: "js_trim ''  wrong module '' = ''wrong module''"
  by (simp add: js_trim_def js_whitespace_def)

theorem rejectQuizSubmission_comment_required_witness:
  "fst (rejectQuizSubmission (Stored \<lparr>uid = ''t1'', role = ''teacher''\<rparr>) 5 ''q9'' (Some ''   '')
         (Resolved ())) = Inr False \<and>
   calls (snd (rejectQuizSubmission (Stored \<lparr>uid = ''t1'', role = ''teacher''\<rparr>) 5 ''q9''
         (Some ''   '') (Resolved ()))) = [] \<and>
   calls (snd (rejectQuizSubmission (Stored \<lparr>uid = ''t1'', role = ''teacher''\<rparr>) 5 ''q9''
         (Some ''  wrong module '') (Resolved ()))) =
     [Update ''quiz_submissions''
        [(''status'', JStr ''rejected''),
         (''teacher_comment'', JStr ''wrong module''),
         (''reviewed_at'', JTime 5),
         (''reviewed_by'', JStr ''t1''),
         (''updated_at'', JTime 5)]
        [Eq ''id'' (JStr ''q9'')]] \<and>
   fst (rejectQuizSubmission (Stored \<lparr>uid = ''t1'', role = ''teacher''\<rparr>) 5 ''q9''
         (Some ''  wrong module '') (Resolved ())) = Inr True"
proof -
  have ws: "list_all js_whitespace ''   ''" and nws: "\<not> list_all js_whitespace ''  wrong module ''"
    by (simp_all add: js_whitespace_def)
  have rv: "reviewer \<lparr>uid = ''t1'', role = ''teacher''\<rparr>"
    by (simp add: reviewer_def)
  note inst = rejectQuizSubmission_comment_required
            [where comment = "Some ''   ''" and item = "Stored \<lparr>uid = ''t1'', role = ''teacher''\<rparr>"
               and now = 5 and submissionId = "''q9''" and updateReply = "Resolved ()"
               and u = "\<lparr>uid = ''t1'', role = ''teacher''\<rparr>" and c = "''  wrong module ''"]
  have blank: "fst (rejectQuizSubmission (Stored \<lparr>uid = ''t1'', role = ''teacher''\<rparr>) 5 ''q9''
         (Some ''   '') (Resolved ())) = Inr False \<and>
       calls (snd (rejectQuizSubmission (Stored \<lparr>uid = ''t1'', role = ''teacher''\<rparr>) 5 ''q9''
         (Some ''   '') (Resolved ()))) = []"
    using inst ws by blast
  have sent: "calls (snd (rejectQuizSubmission (Stored \<lparr>uid = ''t1'', role = ''teacher''\<rparr>) 5 ''q9''
         (Some ''  wrong module '') (Resolved ()))) =
       [Update ''quiz_submissions''
          [(''status'', JStr ''rejected''),
           (''teacher_comment'', JStr (js_trim ''  wrong module '')),
           (''reviewed_at'', JTime 5),
           (''reviewed_by'', JStr (uid \<lparr>uid = ''t1'', role = ''teacher''\<rparr>)),
           (''updated_at'', JTime 5)]
          [Eq ''id'' (JStr ''q9'')]] \<and>
       fst (rejectQuizSubmission (Stored \<lparr>uid = ''t1'', role = ''teacher''\<rparr>) 5 ''q9''
         (Some ''  wrong module '') (Resolved ())) = Inr (\<exists>x. Resolved () = Resolved x)"
    using inst rv nws by blast
  from blank sent show ?thesis
    by (simp add: trim_example)
qed

subsection \<open>List-returning reads\<close>

lemma getQuizSubmissions_cases:
  "fst (getQuizSubmissions item status queryReply) =
     Inr (case item of
            Stored u \<Rightarrow> if role u = ''student''
                        then (case queryReply of Resolved rows \<Rightarrow> rows | _ \<Rightarrow> []) else []
          | _ \<Rightarrow> [])"
  by (cases item; cases queryReply)
     (simp_all add: getQuizSubmissions_def getQuizSubmissions_try_def try_catch_def Let_def)

lemma getPendingQuizSubmissions_cases:
  "fst (getPendingQuizSubmissions item queryReply) =
     Inr (case item of
            Stored u \<Rightarrow> if reviewer u
                        then (case queryReply of Resolved rows \<Rightarrow> rows | _ \<Rightarrow> []) else []
          | _ \<Rightarrow> [])"
  by (cases item; cases queryReply)
     (simp_all add: getPendingQuizSubmissions_def getPendingQuizSubmissions_try_def try_catch_def
                    Let_def)

lemma getUsers_cases:
  "fst (getUsers item role_filter queryReply) =
     Inr (case item of
            Stored u \<Rightarrow> if role u = ''admin''
                        then (case queryReply of Resolved rows \<Rightarrow> rows | _ \<Rightarrow> []) else []
          | _ \<Rightarrow> [])"
  by (cases item; cases queryReply)
     (simp_all add: getUsers_def getUsers_try_def try_catch_def Let_def)

text \<open>
  C4. \<open>getQuizSubmissions\<close>, \<open>getPendingQuizSubmissions\<close> and \<open>getUsers\<close> always return
  a list and let no exception out, whatever the stored user and the backend's reply.
  When the backend's reply is an error (an error object, or an exception thrown by the
  call) the list is empty; when the caller has the role the function asks for (student,
  teacher or admin, admin) and the query resolves with rows, the list is exactly those
  rows.
\<close>

theorem list_reads_fall_back_to_empty:
  "(\<exists>rows. fst (getQuizSubmissions item status queryReply) = Inr rows) \<and>
   (\<exists>rows. fst (getPendingQuizSubmissions item queryReply) = Inr rows) \<and>
   (\<exists>rows. fst (getUsers item role_filter queryReply) = Inr rows) \<and>
   (backend_error queryReply \<longrightarrow>
      fst (getQuizSubmissions item status queryReply) = Inr [] \<and>
      fst (getPendingQuizSubmissions item queryReply) = Inr [] \<and>
      fst (getUsers item role_filter queryReply) = Inr []) \<and>
   (queryReply = Resolved fetched \<longrightarrow>
      (role u = ''student'' \<longrightarrow>
         fst (getQuizSubmissions (Stored u) status queryReply) = Inr fetched) \<and>
      (reviewer u \<longrightarrow>
         fst (getPendingQuizSubmissions (Stored u) queryReply) = Inr fetched) \<and>
      (role u = ''admin'' \<longrightarrow>
         fst (getUsers (Stored u) role_filter queryReply) = Inr fetched))"
  unfolding getQuizSubmissions_cases getPendingQuizSubmissions_cases getUsers_cases
  by (cases queryReply; cases item) (simp_all add: backend_error_def)

theorem list_reads_fall_back_to_empty_witness:
  "fst (getQuizSubmissions (Stored \<lparr>uid = ''s1'', role = ''student''\<rparr>) None
         (ErrorResult ''permission denied'' :: nat list reply)) = Inr [] \<and>
   fst (getPendingQuizSubmissions (Stored \<lparr>uid = ''s1'', role = ''student''\<rparr>)
         (ErrorResult ''permission denied'' :: nat list reply)) = Inr [] \<and>
   fst (getUsers (Stored \<lparr>uid = ''s1'', role = ''student''\<rparr>) None
         (ErrorResult ''permission denied'' :: nat list reply)) = Inr [] \<and>
   fst (getQuizSubmissions (Stored \<lparr>uid = ''s1'', role = ''student''\<rparr>) (Some ''pending'')
         (Resolved [4, 2 :: nat])) = Inr [4, 2] \<and>
   fst (getPendingQuizSubmissions (Stored \<lparr>uid = ''a1'', role = ''admin''\<rparr>)
         (Resolved [4, 2 :: nat])) = Inr [4, 2] \<and>
   fst (getUsers (Stored \<lparr>uid = ''a1'', role = ''admin''\<rparr>) None
         (Resolved [4, 2 :: nat])) = Inr [4, 2]"
proof -
  have err: "backend_error (ErrorResult ''permission denied'' :: nat list reply)"
    by (simp add: backend_error_def)
  have rv: "reviewer \<lparr>uid = ''a1'', role = ''admin''\<rparr>"
    by (simp add: reviewer_def)
  show ?thesis
    using list_reads_fall_back_to_empty
            [where item = "Stored \<lparr>uid = ''s1'', role = ''student''\<rparr>" and status = None
               and role_filter = None and queryReply = "ErrorResult ''permission denied'' :: nat list reply"]
          list_reads_fall_back_to_empty
            [where queryReply = "Resolved [4, 2 :: nat]" and fetched = "[4, 2]"
               and u = "\<lparr>uid = ''s1'', role = ''student''\<rparr>" and status = "Some ''pending''"]
          list_reads_fall_back_to_empty
            [where queryReply = "Resolved [4, 2 :: nat]" and fetched = "[4, 2]"
               and u = "\<lparr>uid = ''a1'', role = ''admin''\<rparr>" and role_filter = None]
          err rv
    by simp
qed

subsection \<open>Doubles\<close>

lemma bit_length_nonneg: "0 \<le> bit_length n"
proof (induction n rule: bit_length.induct)
  case (1 n)
  show ?case
  proof (cases "n \<le> 0")
    case True
    then show ?thesis by (subst bit_length.simps) simp
  next
    case False
    with 1 show ?thesis by (subst bit_length.simps) simp
  qed
qed

lemma bit_length_pos: "0 < n \<Longrightarrow> 1 \<le> bit_length n"
  using bit_length_nonneg [of "n div 2"] by (subst bit_length.simps) simp

lemma bit_length_bounds:
  "0 < n \<Longrightarrow> 2 ^ nat (bit_length n - 1) \<le> n \<and> n < 2 ^ nat (bit_length n)"
proof (induction n rule: bit_length.induct)
  case (1 n)
  show ?case
  proof (cases "n div 2 = 0")
    case True
    with 1(2) have n1: "n = 1" by linarith
    have "bit_length 1 = 1"
      by (simp add: bit_length.simps [of 1] bit_length.simps [of 0])
    with n1 show ?thesis by simp
  next
    case False
    with 1(2) have pos: "0 < n div 2" by linarith
    from 1(2) have nle: "\<not> n \<le> 0" by simp
    have ih: "2 ^ nat (bit_length (n div 2) - 1) \<le> n div 2 \<and> n div 2 < 2 ^ nat (bit_length (n div 2))"
      using 1(1) [OF nle pos] .
    have bl: "bit_length n = 1 + bit_length (n div 2)"
      using nle by (subst bit_length.simps) simp
    have b1: "1 \<le> bit_length (n div 2)"
      using pos by (rule bit_length_pos)
    have e1: "nat (bit_length n - 1) = Suc (nat (bit_length (n div 2) - 1))"
      using bl b1 by simp
    have e2: "nat (bit_length n) = Suc (nat (bit_length (n div 2)))"
      using bl b1 by simp
    from ih have "2 * 2 ^ nat (bit_length (n div 2) - 1) \<le> 2 * (n div 2)" by simp
    also have "\<dots> \<le> n" by simp
    finally have lo: "2 ^ nat (bit_length n - 1) \<le> n"
      by (simp add: e1)
    from ih have "n div 2 + 1 \<le> 2 ^ nat (bit_length (n div 2))" by simp
    then have "2 * (n div 2) + 2 \<le> 2 * 2 ^ nat (bit_length (n div 2))" by simp
    moreover have "n < 2 * (n div 2) + 2" by presburger
    ultimately have hi: "n < 2 ^ nat (bit_length n)"
      by (simp add: e2)
    from lo hi show ?thesis ..
  qed
qed

lemma binade_le:
  assumes "0 < x"
  shows "2 powi (binade x) \<le> x"
proof -
  obtain p q where pq: "quotient_of x = (p, q)" by (cases "quotient_of x")
  then have q: "0 < q" by (rule quotient_of_denom_pos)
  from pq have x: "x = of_int p / of_int q" by (rule quotient_of_div)
  with assms q have p: "0 < p"
    by (simp add: zero_less_divide_iff)
  define d where "d = bit_length p - bit_length q"
  show ?thesis
  proof (cases "2 powi d \<le> x")
    case True
    then show ?thesis by (simp add: binade_def pq d_def Let_def)
  next
    case False
    then have b: "binade x = d - 1" by (simp add: binade_def pq d_def Let_def)
    have bp: "1 \<le> bit_length p" and bq: "1 \<le> bit_length q"
      using p q by (simp_all add: bit_length_pos)
    have lo: "(2::rat) ^ nat (bit_length p - 1) \<le> of_int p"
    proof -
      have "(2::int) ^ nat (bit_length p - 1) \<le> p" using bit_length_bounds [OF p] by simp
      then have "of_int ((2::int) ^ nat (bit_length p - 1)) \<le> (of_int p :: rat)"
        by (simp only: of_int_le_iff)
      then show ?thesis by simp
    qed
    have hi: "(of_int q :: rat) \<le> 2 ^ nat (bit_length q)"
    proof -
      have "q \<le> (2::int) ^ nat (bit_length q)" using bit_length_bounds [OF q] by simp
      then have "(of_int q :: rat) \<le> of_int ((2::int) ^ nat (bit_length q))"
        by (simp only: of_int_le_iff)
      then show ?thesis by simp
    qed
    have "(2::rat) powi (d - 1) = 2 powi (bit_length p - 1) / 2 powi (bit_length q)"
      by (simp add: d_def power_int_diff)
    also have "\<dots> = 2 ^ nat (bit_length p - 1) / 2 ^ nat (bit_length q)"
      using bp bq by (simp add: power_int_def)
    also have "\<dots> \<le> of_int p / 2 ^ nat (bit_length q)"
      using lo by (simp add: divide_right_mono)
    also have "\<dots> \<le> of_int p / of_int q"
      using hi p q by (simp add: frac_le)
    finally show ?thesis using b x by simp
  qed
qed

lemma binade_less:
  assumes "0 < x"
  shows "x < 2 powi (binade x + 1)"
proof -
  obtain p q where pq: "quotient_of x = (p, q)" by (cases "quotient_of x")
  then have q: "0 < q" by (rule quotient_of_denom_pos)
  from pq have x: "x = of_int p / of_int q" by (rule quotient_of_div)
  with assms q have p: "0 < p"
    by (simp add: zero_less_divide_iff)
  define d where "d = bit_length p - bit_length q"
  show ?thesis
  proof (cases "2 powi d \<le> x")
    case False
    then have "binade x = d - 1" by (simp add: binade_def pq d_def Let_def)
    with False show ?thesis by simp
  next
    case True
    then have b: "binade x = d" by (simp add: binade_def pq d_def Let_def)
    have bp: "1 \<le> bit_length p" and bq: "1 \<le> bit_length q"
      using p q by (simp_all add: bit_length_pos)
    have hi: "(of_int p :: rat) < 2 ^ nat (bit_length p)"
    proof -
      have "p < (2::int) ^ nat (bit_length p)" using bit_length_bounds [OF p] by simp
      then have "(of_int p :: rat) < of_int ((2::int) ^ nat (bit_length p))"
        by (simp only: of_int_less_iff)
      then show ?thesis by simp
    qed
    have lo: "(2::rat) ^ nat (bit_length q - 1) \<le> of_int q"
    proof -
      have "(2::int) ^ nat (bit_length q - 1) \<le> q" using bit_length_bounds [OF q] by simp
      then have "of_int ((2::int) ^ nat (bit_length q - 1)) \<le> (of_int q :: rat)"
        by (simp only: of_int_le_iff)
      then show ?thesis by simp
    qed
    have "x = of_int p / of_int q" by (rule x)
    also have "\<dots> < 2 ^ nat (bit_length p) / of_int q"
      using hi q by (simp add: divide_strict_right_mono)
    also have "\<dots> \<le> 2 ^ nat (bit_length p) / 2 ^ nat (bit_length q - 1)"
      using lo q by (intro divide_left_mono) simp_all
    also have "\<dots> = 2 powi (bit_length p) / 2 powi (bit_length q - 1)"
      using bp bq by (simp add: power_int_def)
    also have "\<dots> = (2::rat) powi (bit_length p - (bit_length q - 1))"
      by (rule power_int_diff [symmetric]) simp
    also have "\<dots> = (2::rat) powi (d + 1)"
      by (simp add: d_def algebra_simps)
    finally show ?thesis using b by simp
  qed
qed

lemma round_half_even_error: "\<bar>of_int (round_half_even y) - y\<bar> \<le> 1 / 2"
proof -
  have "of_int \<lfloor>y\<rfloor> \<le> y" "y < of_int \<lfloor>y\<rfloor> + 1" by linarith+
  then show ?thesis
    by (auto simp: round_half_even_def Let_def)
qed

lemma fl_error:
  assumes "0 < x"
  shows "\<bar>fl x - x\<bar> \<le> x / 2 ^ 53"
proof -
  define ulp :: rat where "ulp = 2 powi (binade x - 52)"
  have ulp: "0 < ulp" by (simp add: ulp_def)
  have flx: "fl x = of_int (round_half_even (x / ulp)) * ulp"
    using assms by (simp add: fl_def ulp_def Let_def)
  have "fl x - x = (of_int (round_half_even (x / ulp)) - x / ulp) * ulp"
    using ulp by (simp add: flx field_simps)
  then have "\<bar>fl x - x\<bar> = \<bar>of_int (round_half_even (x / ulp)) - x / ulp\<bar> * ulp"
    using ulp by (simp add: abs_mult)
  also have "\<dots> \<le> 1 / 2 * ulp"
    using round_half_even_error [of "x / ulp"] ulp by (simp add: mult_right_mono)
  also have "\<dots> = 2 powi (binade x) / 2 ^ 53"
    by (simp add: ulp_def power_int_diff)
  also have "\<dots> \<le> x / 2 ^ 53"
    using binade_le [OF assms] by (simp add: divide_right_mono)
  finally show ?thesis .
qed

lemma round_half_even_floor: "\<lfloor>y\<rfloor> \<le> round_half_even y"
  by (simp add: round_half_even_def Let_def)

lemma fl_lower_bound:
  assumes "2 powi k \<le> x"
  shows "2 powi k \<le> fl x"
proof -
  have x0: "0 < x"
  proof -
    have "(0::rat) < 2 powi k" by simp
    from this assms show ?thesis by (rule less_le_trans)
  qed
  define e where "e = binade x"
  define ulp :: rat where "ulp = 2 powi (e - 52)"
  have ulp: "0 < ulp" by (simp add: ulp_def)
  have "x < 2 powi (e + 1)" unfolding e_def using x0 by (rule binade_less)
  with assms have lt: "(2::rat) powi k < 2 powi (e + 1)" by (rule le_less_trans)
  have e: "k \<le> e"
  proof (rule ccontr)
    assume "\<not> k \<le> e"
    then have "e + 1 \<le> k" by simp
    then have "(2::rat) powi (e + 1) \<le> 2 powi k" by (rule power_int_increasing) simp
    with lt show False by simp
  qed
  have "(2::rat) powi e \<le> x" unfolding e_def using x0 by (rule binade_le)
  then have "(2::rat) powi e / ulp \<le> x / ulp"
    using ulp by (simp only: divide_right_mono less_imp_le)
  moreover have "(2::rat) powi e / ulp = of_int (2 ^ 52)"
    by (simp add: ulp_def power_int_diff)
  ultimately have "(of_int (2 ^ 52) :: rat) \<le> x / ulp" by (simp only:)
  then have "(2::int) ^ 52 \<le> \<lfloor>x / ulp\<rfloor>" by (simp only: le_floor_iff)
  also have "\<dots> \<le> round_half_even (x / ulp)" by (rule round_half_even_floor)
  finally have "(of_int (2 ^ 52) :: rat) \<le> of_int (round_half_even (x / ulp))"
    by (simp only: of_int_le_iff)
  then have "of_int (2 ^ 52) * ulp \<le> of_int (round_half_even (x / ulp)) * ulp"
    using ulp by (simp only: mult_right_mono less_imp_le)
  moreover have "of_int (2 ^ 52) * ulp = 2 powi e"
    by (simp add: ulp_def power_int_diff)
  moreover have "fl x = of_int (round_half_even (x / ulp)) * ulp"
    using x0 by (simp add: fl_def ulp_def e_def Let_def)
  ultimately have "(2::rat) powi e \<le> fl x" by (simp only:)
  moreover have "(2::rat) powi k \<le> 2 powi e"
    using e by (rule power_int_increasing) simp
  ultimately show ?thesis by (rule order_trans [rotated])
qed

lemma fl_overflow:
  assumes "2 ^ 1024 \<le> x"
  shows "2 ^ 1024 \<le> fl x"
proof -
  have p: "(2::rat) ^ 1024 = 2 powi 1024" by (simp only: power_int_numeral)
  from assms show ?thesis unfolding p by (rule fl_lower_bound)
qed

lemma Number_of_int_overflow:
  "2 ^ 1024 \<le> i \<Longrightarrow> Number_of_int i = PosInfinity"
  "i \<le> - (2 ^ 1024) \<Longrightarrow> Number_of_int i = NegInfinity"
proof -
  have big: "2 ^ 1024 \<le> fl (of_int \<bar>j\<bar>)" if "2 ^ 1024 \<le> \<bar>j\<bar>" for j :: int
  proof -
    from that have "(of_int (2 ^ 1024) :: rat) \<le> of_int \<bar>j\<bar>" by (simp only: of_int_le_iff)
    then have "(2::rat) ^ 1024 \<le> of_int \<bar>j\<bar>" by simp
    then show ?thesis by (rule fl_overflow)
  qed
  show "2 ^ 1024 \<le> i \<Longrightarrow> Number_of_int i = PosInfinity"
  proof -
    assume i: "2 ^ 1024 \<le> i"
    then have "2 ^ 1024 \<le> \<bar>i\<bar>" by simp
    from big [OF this] i show ?thesis by (simp add: Number_of_int_def Let_def)
  qed
  show "i \<le> - (2 ^ 1024) \<Longrightarrow> Number_of_int i = NegInfinity"
  proof -
    assume i: "i \<le> - (2 ^ 1024)"
    then have "2 ^ 1024 \<le> \<bar>i\<bar>" by simp
    from big [OF this] i show ?thesis by (simp add: Number_of_int_def Let_def)
  qed
qed

subsection \<open>Uploads and quiz scores\<close>

lemma upload_rejects:
  assumes "ftype f \<notin> set allowedTypes \<or> fsize f > maxSize"
  shows "\<exists>err. uploadQuizScreenshot lessonId studentId (Some f) now getPublicUrl uploadReply =
           (Inr (UploadFailed err), [])"
  using assms
  by (auto simp: uploadQuizScreenshot_def uploadQuizScreenshot_try_def try_catch_def)

lemma upload_succeeds:
  assumes "ftype f \<in> set allowedTypes" and "fsize f \<le> maxSize"
    and "getPublicUrl ''quiz-screenshots'' (screenshot_path lessonId studentId now f) = Some url"
  shows "uploadQuizScreenshot lessonId studentId (Some f) now getPublicUrl (Resolved x) =
           (Inr (Uploaded url (screenshot_filename lessonId studentId now f)),
            [Call (StorageUpload ''quiz-screenshots'' (screenshot_path lessonId studentId now f))])"
  using assms
  by (simp add: uploadQuizScreenshot_def uploadQuizScreenshot_try_def try_catch_def Let_def
                screenshot_path_def)

lemma validate_rejects:
  assumes "js_less (parseInt totalItems) (parseInt score) \<or> js_less (parseInt score) (Num 0) \<or>
           js_less_eq (parseInt totalItems) (Num 0)"
  shows "\<exists>message. validate_score score totalItems = Inl message"
  using assms by (auto simp: validate_score_def Let_def)

lemma validate_accepts:
  assumes "validate_score score totalItems = Inr (s, t)"
  shows "js_less_eq (Num 0) s \<and> js_less_eq s t \<and> parseInt score = s \<and> parseInt totalItems = t"
  using assms
  by (auto simp: validate_score_def Let_def js_less_eq_def isNaN_def split: if_splits)

lemma validate_greater:
  assumes "js_less_eq (Num 0) (parseInt score)" and "js_less (Num 0) (parseInt totalItems)"
    and "js_less (parseInt totalItems) (parseInt score)"
  shows "validate_score score totalItems = Inl ''Score cannot be greater than total items''"
  using assms
  by (cases "parseInt score"; cases "parseInt totalItems")
     (simp_all add: validate_score_def Let_def js_less_eq_def isNaN_def)

lemma validate_within:
  assumes "js_less_eq (Num 0) (parseInt score)" and "js_less (Num 0) (parseInt totalItems)"
    and "js_less_eq (parseInt score) (parseInt totalItems)"
  shows "validate_score score totalItems = Inr (parseInt score, parseInt totalItems)"
  using assms
  by (cases "parseInt score"; cases "parseInt totalItems")
     (simp_all add: validate_score_def Let_def js_less_eq_def isNaN_def)

lemma submit_rejected:
  assumes "validate_score score totalItems = Inl message"
  shows "fst (submitQuizScore item now lessonId score totalItems screenshotFile getPublicUrl
                uploadReply insertReply) = Inr False"
    and "calls (snd (submitQuizScore item now lessonId score totalItems screenshotFile getPublicUrl
                uploadReply insertReply)) = []"
    and "alerts (snd (submitQuizScore item now lessonId score totalItems screenshotFile getPublicUrl
                uploadReply insertReply)) \<noteq> []"
  using assms
  by (cases item; simp add: submitQuizScore_def submitQuizScore_try_def try_catch_def alerts_def)+

lemma update_rejected:
  assumes "validate_score score totalItems = Inl message"
  shows "fst (updateQuizSubmission item now submissionId score totalItems screenshotFile getPublicUrl
                lessonReply uploadReply updateReply) = Inr False"
    and "calls (snd (updateQuizSubmission item now submissionId score totalItems screenshotFile
                getPublicUrl lessonReply uploadReply updateReply)) = []"
    and "alerts (snd (updateQuizSubmission item now submissionId score totalItems screenshotFile
                getPublicUrl lessonReply uploadReply updateReply)) \<noteq> []"
  using assms
  by (cases item; simp add: updateQuizSubmission_def updateQuizSubmission_try_def try_catch_def
        alerts_def)+

lemma upload_shape:
  "\<exists>r fx. uploadQuizScreenshot lessonId studentId file_arg now getPublicUrl uploadReply = (Inr r, fx) \<and>
          (\<forall>q \<in> set (calls fx). \<exists>b p. q = StorageUpload b p)"
  by (cases file_arg; cases uploadReply)
     (auto simp: uploadQuizScreenshot_def uploadQuizScreenshot_try_def try_catch_def Let_def
           split: option.splits)

lemma written_StorageUpload [simp]: "submission_written (StorageUpload b p) = None"
  by (simp add: submission_written_def)

lemma written_Select [simp]: "submission_written (Select a b c) = None"
  by (simp add: submission_written_def)

lemma written_Insert [simp]: "submission_written (Insert ''quiz_submissions'' row) = Some row"
  by (simp add: submission_written_def)

lemma written_Update [simp]: "submission_written (Update ''quiz_submissions'' row fs) = Some row"
  by (simp add: submission_written_def)

lemma submit_writes:
  assumes "validate_score score totalItems = Inr (s, t)"
  shows "list_all (writes_pending_score s t)
           (calls (snd (submitQuizScore item now lessonId score totalItems screenshotFile getPublicUrl
                uploadReply insertReply)))"
proof (cases item)
  case (Stored u)
  show ?thesis
  proof (cases screenshotFile)
    case None
    with Stored assms show ?thesis
      by (cases insertReply)
         (simp_all add: submitQuizScore_def submitQuizScore_try_def try_catch_def Let_def
                        writes_pending_score_def)
  next
    case (Some f)
    obtain r fx where up: "uploadQuizScreenshot lessonId (uid u) (Some f) now getPublicUrl uploadReply = (Inr r, fx)"
      and st: "\<forall>q \<in> set (calls fx). \<exists>b p. q = StorageUpload b p"
      using upload_shape by blast
    from st have fx: "list_all (writes_pending_score s t) (calls fx)"
      by (auto simp: list_all_iff writes_pending_score_def)
    from Stored Some assms up fx show ?thesis
      by (cases r; cases insertReply)
         (simp_all add: submitQuizScore_def submitQuizScore_try_def try_catch_def Let_def
                        writes_pending_score_def)
  qed
qed (simp_all add: submitQuizScore_def submitQuizScore_try_def try_catch_def)

lemma update_writes:
  assumes "validate_score score totalItems = Inr (s, t)"
  shows "list_all (writes_pending_score s t)
           (calls (snd (updateQuizSubmission item now submissionId score totalItems screenshotFile
                getPublicUrl lessonReply uploadReply updateReply)))"
proof (cases item)
  case (Stored u)
  show ?thesis
  proof (cases screenshotFile)
    case None
    with Stored assms show ?thesis
      by (cases updateReply)
         (simp_all add: updateQuizSubmission_def updateQuizSubmission_try_def try_catch_def Let_def
                        writes_pending_score_def)
  next
    case (Some f)
    show ?thesis
    proof (cases lessonReply)
      case (Resolved lesson_id)
      obtain r fx where up: "uploadQuizScreenshot lesson_id (uid u) (Some f) now getPublicUrl uploadReply = (Inr r, fx)"
        and st: "\<forall>q \<in> set (calls fx). \<exists>b p. q = StorageUpload b p"
        using upload_shape by blast
      from st have fx: "list_all (writes_pending_score s t) (calls fx)"
        by (auto simp: list_all_iff writes_pending_score_def)
      from Stored Some assms up fx Resolved show ?thesis
        by (cases r; cases updateReply)
           (simp_all add: updateQuizSubmission_def updateQuizSubmission_try_def try_catch_def Let_def
                          writes_pending_score_def)
    qed (use Stored Some assms in
          \<open>simp_all add: updateQuizSubmission_def updateQuizSubmission_try_def try_catch_def Let_def
                          writes_pending_score_def\<close>)
  qed
qed (simp_all add: updateQuizSubmission_def updateQuizSubmission_try_def try_catch_def)

lemma statuses_subset:
  assumes "list_all (writes_status v) (calls fx)"
  shows "set (statuses_written fx) \<subseteq> {v}"
  using assms
  by (auto simp: statuses_written_def list_all_iff writes_status_def split: option.splits)

lemma statuses_nonempty:
  assumes "list_all (writes_status v) (calls fx)" and "list_ex is_write (calls fx)"
  shows "statuses_written fx \<noteq> []"
  using assms
  by (fastforce simp: statuses_written_def list_all_iff list_ex_iff writes_status_def is_write_def
        split: option.splits)

lemma pending_score_status: "writes_pending_score s t r \<Longrightarrow> writes_status (JStr ''pending'') r"
  by (auto simp: writes_pending_score_def writes_status_def split: option.splits)

lemma pending_score_within:
  "writes_pending_score s t r \<Longrightarrow> js_less_eq (Num 0) s \<Longrightarrow> js_less_eq s t \<Longrightarrow> score_within_total r"
  by (auto simp: writes_pending_score_def score_within_total_def split: option.splits)

lemma submit_success_writes:
  assumes "fst (submitQuizScore item now lessonId score totalItems screenshotFile getPublicUrl
                uploadReply insertReply) = Inr True"
  shows "list_ex is_write
           (calls (snd (submitQuizScore item now lessonId score totalItems screenshotFile getPublicUrl
                uploadReply insertReply)))"
proof (cases item)
  case (Stored u)
  show ?thesis
  proof (cases "validate_score score totalItems")
    case (Inl message)
    with assms submit_rejected(1) [OF Inl] show ?thesis by simp
  next
    case (Inr st)
    obtain s t where st: "st = (s, t)" by (cases st)
    show ?thesis
    proof (cases screenshotFile)
      case None
      with Stored Inr st assms show ?thesis
        by (cases insertReply)
           (simp_all add: submitQuizScore_def submitQuizScore_try_def try_catch_def Let_def
                          is_write_def split: if_splits)
    next
      case (Some f)
      obtain r fx where up: "uploadQuizScreenshot lessonId (uid u) (Some f) now getPublicUrl uploadReply = (Inr r, fx)"
        using upload_shape by blast
      from Stored Some Inr st up assms show ?thesis
        by (cases r; cases insertReply)
           (simp_all add: submitQuizScore_def submitQuizScore_try_def try_catch_def Let_def
                          is_write_def split: if_splits)
    qed
  qed
qed (use assms in \<open>simp_all add: submitQuizScore_def submitQuizScore_try_def try_catch_def\<close>)

lemma update_success_writes:
  assumes "fst (updateQuizSubmission item now submissionId score totalItems screenshotFile
                getPublicUrl lessonReply uploadReply updateReply) = Inr True"
  shows "list_ex is_write
           (calls (snd (updateQuizSubmission item now submissionId score totalItems screenshotFile
                getPublicUrl lessonReply uploadReply updateReply)))"
proof (cases item)
  case (Stored u)
  show ?thesis
  proof (cases "validate_score score totalItems")
    case (Inl message)
    with assms update_rejected(1) [OF Inl] show ?thesis by simp
  next
    case (Inr st)
    obtain s t where st: "st = (s, t)" by (cases st)
    show ?thesis
    proof (cases screenshotFile)
      case None
      with Stored Inr st assms show ?thesis
        by (cases updateReply)
           (simp_all add: updateQuizSubmission_def updateQuizSubmission_try_def try_catch_def Let_def
                          is_write_def split: if_splits)
    next
      case (Some f)
      show ?thesis
      proof (cases lessonReply)
        case (Resolved lesson_id)
        obtain r fx where up: "uploadQuizScreenshot lesson_id (uid u) (Some f) now getPublicUrl uploadReply = (Inr r, fx)"
          using upload_shape by blast
        from Stored Some Inr st up assms Resolved show ?thesis
          by (cases r; cases updateReply)
             (simp_all add: updateQuizSubmission_def updateQuizSubmission_try_def try_catch_def Let_def
                            is_write_def split: if_splits)
      qed (use Stored Some Inr st assms in
            \<open>simp_all add: updateQuizSubmission_def updateQuizSubmission_try_def try_catch_def Let_def
                split: if_splits\<close>)
    qed
  qed
qed (use assms in \<open>simp_all add: updateQuizSubmission_def updateQuizSubmission_try_def try_catch_def\<close>)

lemma resubmission_writes:
  "list_all (writes_status (JStr ''pending''))
     (calls (snd (requestQuizResubmission item now submissionId updateReply)))"
  "fst (requestQuizResubmission item now submissionId updateReply) = Inr True \<Longrightarrow>
   list_ex is_write (calls (snd (requestQuizResubmission item now submissionId updateReply)))"
  by (cases item; cases updateReply;
      simp add: requestQuizResubmission_def requestQuizResubmission_try_def try_catch_def Let_def
                writes_status_def is_write_def split: if_splits)+

lemma approve_writes:
  "list_all (writes_status (JStr ''approved''))
     (calls (snd (approveQuizSubmission item now submissionId comment updateReply)))"
  "fst (approveQuizSubmission item now submissionId comment updateReply) = Inr True \<Longrightarrow>
   list_ex is_write (calls (snd (approveQuizSubmission item now submissionId comment updateReply)))"
  by (cases item; cases updateReply;
      simp add: approveQuizSubmission_def approveQuizSubmission_try_def try_catch_def Let_def
                writes_status_def is_write_def split: if_splits)+

lemma reject_writes:
  "list_all (writes_status (JStr ''rejected''))
     (calls (snd (rejectQuizSubmission item now submissionId comment updateReply)))"
  "fst (rejectQuizSubmission item now submissionId comment updateReply) = Inr True \<Longrightarrow>
   list_ex is_write (calls (snd (rejectQuizSubmission item now submissionId comment updateReply)))"
  by (cases item; cases updateReply; cases comment;
      simp add: rejectQuizSubmission_def rejectQuizSubmission_try_def try_catch_def Let_def
                writes_status_def is_write_def split: if_splits)+

lemma submit_status:
  "list_all (writes_status (JStr ''pending''))
     (calls (snd (submitQuizScore item now lessonId score totalItems screenshotFile getPublicUrl
                uploadReply insertReply)))"
proof (cases "validate_score score totalItems")
  case (Inl message)
  then show ?thesis by (simp add: submit_rejected(2))
next
  case (Inr st)
  obtain s t where "st = (s, t)" by (cases st)
  with Inr have "list_all (writes_pending_score s t)
     (calls (snd (submitQuizScore item now lessonId score totalItems screenshotFile getPublicUrl
                uploadReply insertReply)))"
    by (simp add: submit_writes)
  then show ?thesis
    by (auto simp: list_all_iff intro: pending_score_status)
qed

lemma update_status:
  "list_all (writes_status (JStr ''pending''))
     (calls (snd (updateQuizSubmission item now submissionId score totalItems screenshotFile
                getPublicUrl lessonReply uploadReply updateReply)))"
proof (cases "validate_score score totalItems")
  case (Inl message)
  then show ?thesis by (simp add: update_rejected(2))
next
  case (Inr st)
  obtain s t where "st = (s, t)" by (cases st)
  with Inr have "list_all (writes_pending_score s t)
     (calls (snd (updateQuizSubmission item now submissionId score totalItems screenshotFile
                getPublicUrl lessonReply uploadReply updateReply)))"
    by (simp add: update_writes)
  then show ?thesis
    by (auto simp: list_all_iff intro: pending_score_status)
qed

lemma submit_within:
  "list_all score_within_total
     (calls (snd (submitQuizScore item now lessonId score totalItems screenshotFile getPublicUrl
                uploadReply insertReply)))"
proof (cases "validate_score score totalItems")
  case (Inl message)
  then show ?thesis by (simp add: submit_rejected(2))
next
  case (Inr st)
  obtain s t where st: "st = (s, t)" by (cases st)
  with Inr have "list_all (writes_pending_score s t)
     (calls (snd (submitQuizScore item now lessonId score totalItems screenshotFile getPublicUrl
                uploadReply insertReply)))"
    by (simp add: submit_writes)
  moreover have "js_less_eq (Num 0) s \<and> js_less_eq s t"
    using validate_accepts Inr st by blast
  ultimately show ?thesis
    by (auto simp: list_all_iff intro: pending_score_within)
qed

lemma update_within:
  "list_all score_within_total
     (calls (snd (updateQuizSubmission item now submissionId score totalItems screenshotFile
                getPublicUrl lessonReply uploadReply updateReply)))"
proof (cases "validate_score score totalItems")
  case (Inl message)
  then show ?thesis by (simp add: update_rejected(2))
next
  case (Inr st)
  obtain s t where st: "st = (s, t)" by (cases st)
  with Inr have "list_all (writes_pending_score s t)
     (calls (snd (updateQuizSubmission item now submissionId score totalItems screenshotFile
                getPublicUrl lessonReply uploadReply updateReply)))"
    by (simp add: update_writes)
  moreover have "js_less_eq (Num 0) s \<and> js_less_eq s t"
    using validate_accepts Inr st by blast
  ultimately show ?thesis
    by (auto simp: list_all_iff intro: pending_score_within)
qed

text \<open>
  C6. For every file, \<open>uploadQuizScreenshot\<close> returns \<open>{success: false, error}\<close> and does
  nothing else (no upload is attempted) when the file's type is not one of image/jpeg,
  image/png, image/webp, image/gif, or when its size exceeds 5 * 1024 * 1024 bytes.
  Otherwise, when the upload resolves without error and the storage client gives the
  public URL of the path uploaded to, it returns \<open>{success: true, url, filename}\<close> with
  that URL, having attempted exactly that one upload.
\<close>

theorem uploadQuizScreenshot_contract:
  "((ftype f \<notin> {''image/jpeg'', ''image/png'', ''image/webp'', ''image/gif''} \<or>
     fsize f > 5 * 1024 * 1024) \<longrightarrow>
      (\<exists>err. uploadQuizScreenshot lessonId studentId (Some f) now getPublicUrl uploadReply =
               (Inr (UploadFailed err), []))) \<and>
   (ftype f \<in> {''image/jpeg'', ''image/png'', ''image/webp'', ''image/gif''} \<and>
    fsize f \<le> 5 * 1024 * 1024 \<and>
    getPublicUrl ''quiz-screenshots'' (screenshot_path lessonId studentId now f) = Some url \<longrightarrow>
      uploadQuizScreenshot lessonId studentId (Some f) now getPublicUrl (Resolved ()) =
        (Inr (Uploaded url (screenshot_filename lessonId studentId now f)),
         [Call (StorageUpload ''quiz-screenshots'' (screenshot_path lessonId studentId now f))]))"
  using upload_rejects [of f lessonId studentId now getPublicUrl uploadReply]
    upload_succeeds [of f getPublicUrl lessonId studentId now url "()"]
  by (simp add: allowedTypes_def maxSize_def)

lemma screenshot_path_example:
  "screenshot_path ''L1'' ''s1'' 1730000000000 \<lparr>ftype = ''image/png'', fsize = 2048\<rparr> =
     ''quiz_screenshots/s1_lessonL1_1730000000000.png''"
  "screenshot_filename ''L1'' ''s1'' 1730000000000 \<lparr>ftype = ''image/png'', fsize = 2048\<rparr> =
     ''s1_lessonL1_1730000000000.png''"
  by (simp_all add: screenshot_path_def screenshot_filename_def Number_toString_def
                    split_slash_1_def digit_char_def)

theorem uploadQuizScreenshot_contract_witness:
  "(\<exists>err. uploadQuizScreenshot ''L1'' ''s1'' (Some \<lparr>ftype = ''application/pdf'', fsize = 2048\<rparr>)
             1730000000000 (\<lambda>bucket path. Some (''https://cdn/'' @ path)) (Resolved ()) =
           (Inr (UploadFailed err), [])) \<and>
   (\<exists>err. uploadQuizScreenshot ''L1'' ''s1'' (Some \<lparr>ftype = ''image/png'', fsize = 5242881\<rparr>)
             1730000000000 (\<lambda>bucket path. Some (''https://cdn/'' @ path)) (Resolved ()) =
           (Inr (UploadFailed err), [])) \<and>
   uploadQuizScreenshot ''L1'' ''s1'' (Some \<lparr>ftype = ''image/png'', fsize = 2048\<rparr>)
       1730000000000 (\<lambda>bucket path. Some (''https://cdn/'' @ path)) (Resolved ()) =
     (Inr (Uploaded ''https://cdn/quiz_screenshots/s1_lessonL1_1730000000000.png''
                    ''s1_lessonL1_1730000000000.png''),
      [Call (StorageUpload ''quiz-screenshots'' ''quiz_screenshots/s1_lessonL1_1730000000000.png'')])"
proof -
  let ?url = "\<lambda>bucket path. Some (''https://cdn/'' @ path) :: string option"
  have pdf: "\<exists>err. uploadQuizScreenshot ''L1'' ''s1'' (Some \<lparr>ftype = ''application/pdf'', fsize = 2048\<rparr>)
             1730000000000 ?url (Resolved ()) = (Inr (UploadFailed err), [])"
    using uploadQuizScreenshot_contract
            [where f = "\<lparr>ftype = ''application/pdf'', fsize = 2048\<rparr>" and uploadReply = "Resolved ()"
               and lessonId = "''L1''" and studentId = "''s1''" and now = 1730000000000
               and getPublicUrl = ?url]
    by simp
  have big: "\<exists>err. uploadQuizScreenshot ''L1'' ''s1'' (Some \<lparr>ftype = ''image/png'', fsize = 5242881\<rparr>)
             1730000000000 ?url (Resolved ()) = (Inr (UploadFailed err), [])"
    using uploadQuizScreenshot_contract
            [where f = "\<lparr>ftype = ''image/png'', fsize = 5242881\<rparr>" and uploadReply = "Resolved ()"
               and lessonId = "''L1''" and studentId = "''s1''" and now = 1730000000000
               and getPublicUrl = ?url]
    by simp
  have ok: "uploadQuizScreenshot ''L1'' ''s1'' (Some \<lparr>ftype = ''image/png'', fsize = 2048\<rparr>)
       1730000000000 ?url (Resolved ()) =
     (Inr (Uploaded ''https://cdn/quiz_screenshots/s1_lessonL1_1730000000000.png''
                    ''s1_lessonL1_1730000000000.png''),
      [Call (StorageUpload ''quiz-screenshots'' ''quiz_screenshots/s1_lessonL1_1730000000000.png'')])"
    using uploadQuizScreenshot_contract
            [where f = "\<lparr>ftype = ''image/png'', fsize = 2048\<rparr>"
               and lessonId = "''L1''" and studentId = "''s1''" and now = 1730000000000
               and getPublicUrl = ?url
               and url = "''https://cdn/quiz_screenshots/s1_lessonL1_1730000000000.png''"]
    by (simp add: screenshot_path_example)
  from pdf big ok show ?thesis
    by blast
qed

lemmas parseInt_defs = parseInt_def strip_sign_def strip_radix_def radix_digit_def digit_value_def
  parse_digits_def js_whitespace_def

lemmas double_defs = Number_of_int_def fl_def binade_def round_half_even_def bit_length.simps Let_def

lemma parseInt_examples:
  "parseInt ''12'' = Num 12" "parseInt '' 10'' = Num 10" "parseInt ''7'' = Num 7"
  "parseInt ''abc'' = NaN" "parseInt ''-3'' = Num (- 3)" "parseInt ''0x1F'' = Num 31"
  "parseInt ''12.7px'' = Num 12"
  by (simp_all add: parseInt_defs double_defs)

text \<open>
  Beyond \<open>2^53\<close> the parsed integer is rounded to a double: \<open>2^53 + 1\<close> parses to \<open>2^53\<close>,
  as \<open>2^53\<close> itself does. An integer of 310 digits is beyond the largest double and
  parses to \<open>Infinity\<close>.
\<close>

lemma parseInt_rounds:
  "parseInt ''9007199254740993'' = Num 9007199254740992"
  "parseInt ''9007199254740992'' = Num 9007199254740992"
proof -
  have half: "\<lfloor>(9007199254740993 :: rat) / 2\<rfloor> = 4503599627370496"
    by (simp add: floor_unique)
  show "parseInt ''9007199254740993'' = Num 9007199254740992"
    by (simp add: parseInt_defs double_defs half)
  show "parseInt ''9007199254740992'' = Num 9007199254740992"
    by (simp add: parseInt_defs double_defs)
qed

lemma parseInt_overflows:
  "parseInt ''9999999999999999999999999999999999999999999999999999999999999999999999999999999999999999999999999999999999999999999999999999999999999999999999999999999999999999999999999999999999999999999999999999999999999999999999999999999999999999999999999999999999999999999999999999999999999999999999999999999999999999999999'' = PosInfinity"
  by (simp add: parseInt_defs Number_of_int_overflow)

text \<open>
  C2. Whenever the parsed total is less than the parsed score, or the parsed score is
  negative, or the parsed total is not positive (the comparisons are JavaScript's, on
  the Numbers that \<open>parseInt\<close> returns), \<open>submitQuizScore\<close> and \<open>updateQuizSubmission\<close>
  return false, raise an alert and attempt no remote call at all (so no row of
  \<open>quiz_submissions\<close> is inserted or updated); for a logged-in student whose score is
  not negative and whose total is positive but less than the score, the only effect is
  the alert that the score cannot be greater than the total. For all inputs and all
  backend replies, every insert or update of \<open>quiz_submissions\<close> that the two operations
  send carries Numbers \<open>score\<close> and \<open>total_items\<close>, neither of them \<open>NaN\<close>, with
  \<open>0 <= score\<close> and \<open>score <= total_items\<close>.
\<close>

theorem quiz_score_validation:
  "(js_less (parseInt totalItems) (parseInt score) \<or> js_less (parseInt score) (Num 0) \<or>
    js_less_eq (parseInt totalItems) (Num 0) \<longrightarrow>
      fst (submitQuizScore item now lessonId score totalItems screenshotFile getPublicUrl
             uploadReply insertReply) = Inr False \<and>
      alerts (snd (submitQuizScore item now lessonId score totalItems screenshotFile getPublicUrl
             uploadReply insertReply)) \<noteq> [] \<and>
      calls (snd (submitQuizScore item now lessonId score totalItems screenshotFile getPublicUrl
             uploadReply insertReply)) = [] \<and>
      fst (updateQuizSubmission item now submissionId score totalItems screenshotFile getPublicUrl
             lessonReply uploadReply updateReply) = Inr False \<and>
      alerts (snd (updateQuizSubmission item now submissionId score totalItems screenshotFile
             getPublicUrl lessonReply uploadReply updateReply)) \<noteq> [] \<and>
      calls (snd (updateQuizSubmission item now submissionId score totalItems screenshotFile
             getPublicUrl lessonReply uploadReply updateReply)) = []) \<and>
   (js_less_eq (Num 0) (parseInt score) \<and> js_less (Num 0) (parseInt totalItems) \<and>
    js_less (parseInt totalItems) (parseInt score) \<and> role u = ''student'' \<longrightarrow>
      submitQuizScore (Stored u) now lessonId score totalItems screenshotFile getPublicUrl
          uploadReply insertReply =
        (Inr False, [Alert ''Score cannot be greater than total items'']) \<and>
      updateQuizSubmission (Stored u) now submissionId score totalItems screenshotFile getPublicUrl
          lessonReply uploadReply updateReply =
        (Inr False, [Alert ''Score cannot be greater than total items''])) \<and>
   list_all score_within_total
     (calls (snd (submitQuizScore item now lessonId score totalItems screenshotFile getPublicUrl
                    uploadReply insertReply))) \<and>
   list_all score_within_total
     (calls (snd (updateQuizSubmission item now submissionId score totalItems screenshotFile
                    getPublicUrl lessonReply uploadReply updateReply)))"
proof -
  let ?submit = "submitQuizScore item now lessonId score totalItems screenshotFile getPublicUrl
             uploadReply insertReply"
  let ?update = "updateQuizSubmission item now submissionId score totalItems screenshotFile
             getPublicUrl lessonReply uploadReply updateReply"
  have first: "js_less (parseInt totalItems) (parseInt score) \<or> js_less (parseInt score) (Num 0) \<or>
      js_less_eq (parseInt totalItems) (Num 0) \<longrightarrow>
      fst ?submit = Inr False \<and> alerts (snd ?submit) \<noteq> [] \<and> calls (snd ?submit) = [] \<and>
      fst ?update = Inr False \<and> alerts (snd ?update) \<noteq> [] \<and> calls (snd ?update) = []"
  proof
    assume "js_less (parseInt totalItems) (parseInt score) \<or> js_less (parseInt score) (Num 0) \<or>
      js_less_eq (parseInt totalItems) (Num 0)"
    then obtain message where "validate_score score totalItems = Inl message"
      using validate_rejects by blast
    then show "fst ?submit = Inr False \<and> alerts (snd ?submit) \<noteq> [] \<and> calls (snd ?submit) = [] \<and>
      fst ?update = Inr False \<and> alerts (snd ?update) \<noteq> [] \<and> calls (snd ?update) = []"
      by (simp add: submit_rejected update_rejected)
  qed
  have second: "js_less_eq (Num 0) (parseInt score) \<and> js_less (Num 0) (parseInt totalItems) \<and>
      js_less (parseInt totalItems) (parseInt score) \<and> role u = ''student'' \<longrightarrow>
      submitQuizScore (Stored u) now lessonId score totalItems screenshotFile getPublicUrl
          uploadReply insertReply =
        (Inr False, [Alert ''Score cannot be greater than total items'']) \<and>
      updateQuizSubmission (Stored u) now submissionId score totalItems screenshotFile getPublicUrl
          lessonReply uploadReply updateReply =
        (Inr False, [Alert ''Score cannot be greater than total items''])"
  proof
    assume h: "js_less_eq (Num 0) (parseInt score) \<and> js_less (Num 0) (parseInt totalItems) \<and>
      js_less (parseInt totalItems) (parseInt score) \<and> role u = ''student''"
    then have "validate_score score totalItems = Inl ''Score cannot be greater than total items''"
      by (simp add: validate_greater)
    with h show "submitQuizScore (Stored u) now lessonId score totalItems screenshotFile getPublicUrl
          uploadReply insertReply =
        (Inr False, [Alert ''Score cannot be greater than total items'']) \<and>
      updateQuizSubmission (Stored u) now submissionId score totalItems screenshotFile getPublicUrl
          lessonReply uploadReply updateReply =
        (Inr False, [Alert ''Score cannot be greater than total items''])"
      by (simp add: submitQuizScore_def submitQuizScore_try_def updateQuizSubmission_def
                    updateQuizSubmission_try_def try_catch_def)
  qed
  have third: "list_all score_within_total (calls (snd ?submit))"
    by (rule submit_within)
  have fourth: "list_all score_within_total (calls (snd ?update))"
    by (rule update_within)
  show ?thesis
    by (intro conjI; fact)
qed

theorem quiz_score_validation_witness:
  "parseInt ''12'' = Num 12 \<and> parseInt '' 10'' = Num 10 \<and>
   submitQuizScore (Stored \<lparr>uid = ''s1'', role = ''student''\<rparr>) 5 ''L1'' ''12'' '' 10'' None
       (\<lambda>bucket path. None) (Resolved ()) (Resolved ()) =
     (Inr False, [Alert ''Score cannot be greater than total items'']) \<and>
   updateQuizSubmission (Stored \<lparr>uid = ''s1'', role = ''student''\<rparr>) 5 ''q9'' ''12'' '' 10'' None
       (\<lambda>bucket path. None) (Resolved ''L1'') (Resolved ()) (Resolved ()) =
     (Inr False, [Alert ''Score cannot be greater than total items'']) \<and>
   calls (snd (submitQuizScore (Stored \<lparr>uid = ''s1'', role = ''student''\<rparr>) 5 ''L1'' ''-3'' '' 10''
       None (\<lambda>bucket path. None) (Resolved ()) (Resolved ()))) = [] \<and>
   calls (snd (submitQuizScore (Stored \<lparr>uid = ''s1'', role = ''student''\<rparr>) 5 ''L1'' ''7'' '' 10''
       None (\<lambda>bucket path. None) (Resolved ()) (Resolved ()))) =
     [Insert ''quiz_submissions''
        [(''student_id'', JStr ''s1''), (''lesson_id'', JStr ''L1''), (''score'', JNum (Num 7)),
         (''total_items'', JNum (Num 10)), (''screenshot_url'', JNull),
         (''status'', JStr ''pending''),
         (''submitted_at'', JTime 5), (''created_at'', JTime 5), (''updated_at'', JTime 5)]] \<and>
   list_all score_within_total
     [Insert ''quiz_submissions''
        [(''student_id'', JStr ''s1''), (''lesson_id'', JStr ''L1''), (''score'', JNum (Num 7)),
         (''total_items'', JNum (Num 10)), (''screenshot_url'', JNull),
         (''status'', JStr ''pending''),
         (''submitted_at'', JTime 5), (''created_at'', JTime 5), (''updated_at'', JTime 5)]]"
proof -
  let ?stu = "\<lparr>uid = ''s1'', role = ''student''\<rparr>"
  have sent: "calls (snd (submitQuizScore (Stored ?stu) 5 ''L1'' ''7'' '' 10''
       None (\<lambda>bucket path. None) (Resolved ()) (Resolved ()))) =
     [Insert ''quiz_submissions''
        [(''student_id'', JStr ''s1''), (''lesson_id'', JStr ''L1''), (''score'', JNum (Num 7)),
         (''total_items'', JNum (Num 10)), (''screenshot_url'', JNull),
         (''status'', JStr ''pending''),
         (''submitted_at'', JTime 5), (''created_at'', JTime 5), (''updated_at'', JTime 5)]]"
    by (simp add: submitQuizScore_def submitQuizScore_try_def try_catch_def validate_score_def
                  parseInt_examples isNaN_def js_less_eq_def Let_def)
  note rejecting = quiz_score_validation
      [where score = "''12''" and totalItems = "'' 10''" and u = ?stu
         and now = 5 and lessonId = "''L1''" and submissionId = "''q9''" and screenshotFile = None
         and getPublicUrl = "\<lambda>bucket path. None" and uploadReply = "Resolved ()"
         and insertReply = "Resolved ()" and lessonReply = "Resolved ''L1''"
         and updateReply = "Resolved ()"]
  note negative = quiz_score_validation
      [where score = "''-3''" and totalItems = "'' 10''" and item = "Stored ?stu"
         and now = 5 and lessonId = "''L1''" and screenshotFile = None
         and getPublicUrl = "\<lambda>bucket path. None" and uploadReply = "Resolved ()"
         and insertReply = "Resolved ()"]
  note accepting = quiz_score_validation
      [where score = "''7''" and totalItems = "'' 10''" and item = "Stored ?stu"
         and now = 5 and lessonId = "''L1''" and screenshotFile = None
         and getPublicUrl = "\<lambda>bucket path. None" and uploadReply = "Resolved ()"
         and insertReply = "Resolved ()"]
  from rejecting negative accepting sent show ?thesis
    by (simp add: parseInt_examples js_less_eq_def isNaN_def)
qed

text \<open>
  The same at the edge of the doubles: the score \<open>2^53 + 1\<close> against the total \<open>2^53\<close> is
  not rejected, because both parse to \<open>2^53\<close>, and the row handed to the insert carries
  that Number twice; two inputs of 310 digits are both \<open>Infinity\<close>, and so is what the
  row carries.
\<close>

lemma submit_rounded_score:
  "submitQuizScore (Stored \<lparr>uid = ''s1'', role = ''student''\<rparr>) 5 ''L1'' ''9007199254740993''
       ''9007199254740992'' None (\<lambda>bucket path. None) (Resolved ()) (Resolved ()) =
     (Inr True,
      [Call (Insert ''quiz_submissions''
        [(''student_id'', JStr ''s1''), (''lesson_id'', JStr ''L1''),
         (''score'', JNum (Num 9007199254740992)),
         (''total_items'', JNum (Num 9007199254740992)), (''screenshot_url'', JNull),
         (''status'', JStr ''pending''),
         (''submitted_at'', JTime 5), (''created_at'', JTime 5), (''updated_at'', JTime 5)])])"
  by (simp add: submitQuizScore_def submitQuizScore_try_def try_catch_def validate_score_def
                parseInt_rounds isNaN_def js_less_eq_def Let_def)

lemma submit_infinite_score:
  "submitQuizScore (Stored \<lparr>uid = ''s1'', role = ''student''\<rparr>) 5 ''L1''
       ''9999999999999999999999999999999999999999999999999999999999999999999999999999999999999999999999999999999999999999999999999999999999999999999999999999999999999999999999999999999999999999999999999999999999999999999999999999999999999999999999999999999999999999999999999999999999999999999999999999999999999999999999''
       ''9999999999999999999999999999999999999999999999999999999999999999999999999999999999999999999999999999999999999999999999999999999999999999999999999999999999999999999999999999999999999999999999999999999999999999999999999999999999999999999999999999999999999999999999999999999999999999999999999999999999999999999999''
       None (\<lambda>bucket path. None) (Resolved ()) (Resolved ()) =
     (Inr True,
      [Call (Insert ''quiz_submissions''
        [(''student_id'', JStr ''s1''), (''lesson_id'', JStr ''L1''),
         (''score'', JNum PosInfinity),
         (''total_items'', JNum PosInfinity), (''screenshot_url'', JNull),
         (''status'', JStr ''pending''),
         (''submitted_at'', JTime 5), (''created_at'', JTime 5), (''updated_at'', JTime 5)])])"
  by (simp add: submitQuizScore_def submitQuizScore_try_def try_catch_def validate_score_def
                parseInt_overflows isNaN_def js_less_eq_def Let_def)

lemma resubmission_calls:
  assumes "role u = ''student''"
  shows "calls (snd (requestQuizResubmission (Stored u) now submissionId updateReply)) =
           [Update ''quiz_submissions''
              [(''status'', JStr ''pending''), (''teacher_comment'', JNull),
               (''updated_at'', JTime now)]
              [Eq ''id'' (JStr submissionId), Eq ''student_id'' (JStr (uid u))]]"
  using assms
  by (cases updateReply)
     (simp_all add: requestQuizResubmission_def requestQuizResubmission_try_def try_catch_def)

lemma approve_calls:
  assumes "reviewer u"
  shows "calls (snd (approveQuizSubmission (Stored u) now submissionId comment updateReply)) =
           [Update ''quiz_submissions''
              [(''status'', JStr ''approved''),
               (''teacher_comment'', (case comment of None \<Rightarrow> JNull | Some c \<Rightarrow> JStr c)),
               (''reviewed_at'', JTime now), (''reviewed_by'', JStr (uid u)),
               (''updated_at'', JTime now)]
              [Eq ''id'' (JStr submissionId)]]"
  using assms
  by (cases updateReply)
     (simp_all add: approveQuizSubmission_def approveQuizSubmission_try_def try_catch_def)

lemma reject_calls:
  assumes "reviewer u" and "js_trim c \<noteq> []"
  shows "calls (snd (rejectQuizSubmission (Stored u) now submissionId (Some c) updateReply)) =
           [Update ''quiz_submissions''
              [(''status'', JStr ''rejected''), (''teacher_comment'', JStr (js_trim c)),
               (''reviewed_at'', JTime now), (''reviewed_by'', JStr (uid u)),
               (''updated_at'', JTime now)]
              [Eq ''id'' (JStr submissionId)]]"
proof -
  from assms(2) have "c \<noteq> []" by (auto simp: js_trim_def)
  with assms show ?thesis
    by (cases updateReply)
       (simp_all add: rejectQuizSubmission_def rejectQuizSubmission_try_def try_catch_def)
qed

lemma submit_calls:
  assumes "role u = ''student''"
    and "validate_score score totalItems = Inr (s, t)"
  shows "calls (snd (submitQuizScore (Stored u) now lessonId score totalItems None getPublicUrl
                       uploadReply insertReply)) =
           [Insert ''quiz_submissions''
              [(''student_id'', JStr (uid u)), (''lesson_id'', JStr lessonId),
               (''score'', JNum s), (''total_items'', JNum t), (''screenshot_url'', JNull),
               (''status'', JStr ''pending''), (''submitted_at'', JTime now),
               (''created_at'', JTime now), (''updated_at'', JTime now)]]"
  using assms
  by (cases insertReply)
     (simp_all add: submitQuizScore_def submitQuizScore_try_def try_catch_def)

lemma update_calls:
  assumes "role u = ''student''"
    and "validate_score score totalItems = Inr (s, t)"
  shows "calls (snd (updateQuizSubmission (Stored u) now submissionId score totalItems None
                       getPublicUrl lessonReply uploadReply updateReply)) =
           [Update ''quiz_submissions''
              [(''score'', JNum s), (''total_items'', JNum t), (''status'', JStr ''pending''),
               (''teacher_comment'', JNull), (''updated_at'', JTime now)]
              [Eq ''id'' (JStr submissionId), Eq ''student_id'' (JStr (uid u))]]"
  using assms
  by (cases updateReply)
     (simp_all add: updateQuizSubmission_def updateQuizSubmission_try_def try_catch_def)

lemma statuses_of_calls:
  assumes "calls fx = qs @ [r]"
    and "\<forall>q \<in> set qs. submission_written q = None"
    and "submission_written r = Some row" and "map_of row ''status'' = Some v"
  shows "statuses_written fx = [v]"
proof -
  have "concat (map (\<lambda>r. case submission_written r of
                         None \<Rightarrow> []
                       | Some row \<Rightarrow> (case map_of row ''status'' of None \<Rightarrow> [] | Some v \<Rightarrow> [v])) qs) = []"
    using assms(2) by (induction qs) auto
  with assms show ?thesis
    by (simp add: statuses_written_def)
qed

lemma submit_statuses_with_file:
  assumes "role u = ''student''"
    and "validate_score score totalItems = Inr (s, t)"
    and "uploadQuizScreenshot lessonId (uid u) (Some f) now getPublicUrl uploadReply =
           (Inr (Uploaded link filename), fx)"
  shows "statuses_written (snd (submitQuizScore (Stored u) now lessonId score totalItems (Some f)
            getPublicUrl uploadReply insertReply)) = [JStr ''pending'']"
proof -
  from upload_shape [of lessonId "uid u" "Some f" now getPublicUrl uploadReply] assms(3)
  have fx: "\<forall>q \<in> set (calls fx). submission_written q = None" by auto
  let ?row = "[(''student_id'', JStr (uid u)), (''lesson_id'', JStr lessonId),
               (''score'', JNum s), (''total_items'', JNum t), (''screenshot_url'', JStr link),
               (''status'', JStr ''pending''), (''submitted_at'', JTime now),
               (''created_at'', JTime now), (''updated_at'', JTime now)]"
  have sent: "calls (snd (submitQuizScore (Stored u) now lessonId score totalItems (Some f)
            getPublicUrl uploadReply insertReply)) = calls fx @ [Insert ''quiz_submissions'' ?row]"
    using assms
    by (cases insertReply)
       (simp_all add: submitQuizScore_def submitQuizScore_try_def try_catch_def)
  show ?thesis
    by (rule statuses_of_calls [OF sent fx, of ?row]) simp_all
qed

lemma update_statuses_with_file:
  assumes "role u = ''student''"
    and "validate_score score totalItems = Inr (s, t)"
    and "uploadQuizScreenshot lessonId (uid u) (Some f) now getPublicUrl uploadReply =
           (Inr (Uploaded link filename), fx)"
  shows "statuses_written (snd (updateQuizSubmission (Stored u) now submissionId score totalItems
            (Some f) getPublicUrl (Resolved lessonId) uploadReply updateReply)) = [JStr ''pending'']"
proof -
  let ?sel = "Select ''quiz_submissions'' ''lesson_id'' [Eq ''id'' (JStr submissionId)]"
  from upload_shape [of lessonId "uid u" "Some f" now getPublicUrl uploadReply] assms(3)
  have fx: "\<forall>q \<in> set (?sel # calls fx). submission_written q = None" by auto
  let ?row = "[(''score'', JNum s), (''total_items'', JNum t), (''status'', JStr ''pending''),
               (''teacher_comment'', JNull), (''updated_at'', JTime now),
               (''screenshot_url'', JStr link)]"
  have sent: "calls (snd (updateQuizSubmission (Stored u) now submissionId score totalItems
            (Some f) getPublicUrl (Resolved lessonId) uploadReply updateReply)) =
          (?sel # calls fx) @ [Update ''quiz_submissions'' ?row
                [Eq ''id'' (JStr submissionId), Eq ''student_id'' (JStr (uid u))]]"
    using assms
    by (cases updateReply)
       (simp_all add: updateQuizSubmission_def updateQuizSubmission_try_def try_catch_def)
  show ?thesis
    by (rule statuses_of_calls [OF sent fx, of ?row]) simp_all
qed

text \<open>
  C3. Every value that the client writes to the \<open>status\<close> column of \<open>quiz_submissions\<close>
  is one of \<open>pending\<close>, \<open>approved\<close>, \<open>rejected\<close>. Of the operations in the sources, five
  insert into or update that table: \<open>submitQuizScore\<close>, \<open>updateQuizSubmission\<close> and
  \<open>requestQuizResubmission\<close> write no status but \<open>pending\<close>, \<open>approveQuizSubmission\<close> none
  but \<open>approved\<close> and \<open>rejectQuizSubmission\<close> none but \<open>rejected\<close>, for all arguments, stored
  users and backend replies; and each of them, when it returns true, has written its
  status. Each of them does write it: for a logged-in student, \<open>requestQuizResubmission\<close>
  sends exactly one update, which sets \<open>status\<close> to \<open>pending\<close> and clears the teacher's
  comment; with a score and a total that pass the checks and no screenshot,
  \<open>submitQuizScore\<close> sends exactly one insert and \<open>updateQuizSubmission\<close> exactly one
  update, both with \<open>status\<close> \<open>pending\<close>; with a screenshot whose upload succeeds the
  status written is again \<open>pending\<close>, once. For a logged-in teacher or administrator,
  \<open>approveQuizSubmission\<close> sends exactly one update with \<open>status\<close> \<open>approved\<close>, and
  \<open>rejectQuizSubmission\<close> with a comment that is not blank sends exactly one update with
  \<open>status\<close> \<open>rejected\<close>. All of these whatever the backend replies.
\<close>

theorem status_values_written:
  "set (statuses_written (snd (submitQuizScore item now lessonId score totalItems screenshotFile
          getPublicUrl uploadReply insertReply))) \<subseteq> {JStr ''pending''} \<and>
   set (statuses_written (snd (updateQuizSubmission item now submissionId score totalItems
          screenshotFile getPublicUrl lessonReply uploadReply updateReply))) \<subseteq> {JStr ''pending''} \<and>
   set (statuses_written (snd (requestQuizResubmission item now submissionId updateReply)))
     \<subseteq> {JStr ''pending''} \<and>
   set (statuses_written (snd (approveQuizSubmission item now submissionId comment updateReply)))
     \<subseteq> {JStr ''approved''} \<and>
   set (statuses_written (snd (rejectQuizSubmission item now submissionId comment updateReply)))
     \<subseteq> {JStr ''rejected''} \<and>
   (fst (submitQuizScore item now lessonId score totalItems screenshotFile
          getPublicUrl uploadReply insertReply) = Inr True \<longrightarrow>
      statuses_written (snd (submitQuizScore item now lessonId score totalItems screenshotFile
          getPublicUrl uploadReply insertReply)) \<noteq> []) \<and>
   (fst (updateQuizSubmission item now submissionId score totalItems
          screenshotFile getPublicUrl lessonReply uploadReply updateReply) = Inr True \<longrightarrow>
      statuses_written (snd (updateQuizSubmission item now submissionId score totalItems
          screenshotFile getPublicUrl lessonReply uploadReply updateReply)) \<noteq> []) \<and>
   (fst (requestQuizResubmission item now submissionId updateReply) = Inr True \<longrightarrow>
      statuses_written (snd (requestQuizResubmission item now submissionId updateReply)) \<noteq> []) \<and>
   (fst (approveQuizSubmission item now submissionId comment updateReply) = Inr True \<longrightarrow>
      statuses_written (snd (approveQuizSubmission item now submissionId comment updateReply)) \<noteq> []) \<and>
   (fst (rejectQuizSubmission item now submissionId comment updateReply) = Inr True \<longrightarrow>
      statuses_written (snd (rejectQuizSubmission item now submissionId comment updateReply)) \<noteq> []) \<and>
   (role u = ''student'' \<longrightarrow>
      calls (snd (requestQuizResubmission (Stored u) now submissionId updateReply)) =
        [Update ''quiz_submissions''
           [(''status'', JStr ''pending''), (''teacher_comment'', JNull),
            (''updated_at'', JTime now)]
           [Eq ''id'' (JStr submissionId), Eq ''student_id'' (JStr (uid u))]]) \<and>
   (role u = ''student'' \<and> js_less_eq (Num 0) (parseInt score) \<and>
    js_less (Num 0) (parseInt totalItems) \<and> js_less_eq (parseInt score) (parseInt totalItems) \<longrightarrow>
      calls (snd (submitQuizScore (Stored u) now lessonId score totalItems None getPublicUrl
                    uploadReply insertReply)) =
        [Insert ''quiz_submissions''
           [(''student_id'', JStr (uid u)), (''lesson_id'', JStr lessonId),
            (''score'', JNum (parseInt score)), (''total_items'', JNum (parseInt totalItems)),
            (''screenshot_url'', JNull), (''status'', JStr ''pending''),
            (''submitted_at'', JTime now), (''created_at'', JTime now),
            (''updated_at'', JTime now)]] \<and>
      calls (snd (updateQuizSubmission (Stored u) now submissionId score totalItems None
                    getPublicUrl lessonReply uploadReply updateReply)) =
        [Update ''quiz_submissions''
           [(''score'', JNum (parseInt score)), (''total_items'', JNum (parseInt totalItems)),
            (''status'', JStr ''pending''), (''teacher_comment'', JNull),
            (''updated_at'', JTime now)]
           [Eq ''id'' (JStr submissionId), Eq ''student_id'' (JStr (uid u))]]) \<and>
   (role u = ''student'' \<and> js_less_eq (Num 0) (parseInt score) \<and>
    js_less (Num 0) (parseInt totalItems) \<and> js_less_eq (parseInt score) (parseInt totalItems) \<and>
    uploadQuizScreenshot lessonId (uid u) (Some f) now getPublicUrl uploadReply =
      (Inr (Uploaded link filename), fx) \<longrightarrow>
      statuses_written (snd (submitQuizScore (Stored u) now lessonId score totalItems (Some f)
          getPublicUrl uploadReply insertReply)) = [JStr ''pending''] \<and>
      statuses_written (snd (updateQuizSubmission (Stored u) now submissionId score totalItems
          (Some f) getPublicUrl (Resolved lessonId) uploadReply updateReply)) = [JStr ''pending'']) \<and>
   (reviewer u \<longrightarrow>
      calls (snd (approveQuizSubmission (Stored u) now submissionId comment updateReply)) =
        [Update ''quiz_submissions''
           [(''status'', JStr ''approved''),
            (''teacher_comment'', (case comment of None \<Rightarrow> JNull | Some c \<Rightarrow> JStr c)),
            (''reviewed_at'', JTime now), (''reviewed_by'', JStr (uid u)),
            (''updated_at'', JTime now)]
           [Eq ''id'' (JStr submissionId)]]) \<and>
   (reviewer u \<and> js_trim c \<noteq> [] \<longrightarrow>
      calls (snd (rejectQuizSubmission (Stored u) now submissionId (Some c) updateReply)) =
        [Update ''quiz_submissions''
           [(''status'', JStr ''rejected''), (''teacher_comment'', JStr (js_trim c)),
            (''reviewed_at'', JTime now), (''reviewed_by'', JStr (uid u)),
            (''updated_at'', JTime now)]
           [Eq ''id'' (JStr submissionId)]])"
  apply (intro conjI impI; (elim conjE)?)
                    apply (rule statuses_subset [OF submit_status])
                   apply (rule statuses_subset [OF update_status])
                  apply (rule statuses_subset [OF resubmission_writes(1)])
                 apply (rule statuses_subset [OF approve_writes(1)])
                apply (rule statuses_subset [OF reject_writes(1)])
               apply (erule statuses_nonempty [OF submit_status submit_success_writes])
              apply (erule statuses_nonempty [OF update_status update_success_writes])
             apply (erule statuses_nonempty [OF resubmission_writes(1) resubmission_writes(2)])
            apply (erule statuses_nonempty [OF approve_writes(1) approve_writes(2)])
           apply (erule statuses_nonempty [OF reject_writes(1) reject_writes(2)])
          apply (erule resubmission_calls)
         apply (rule submit_calls [OF _ validate_within]; assumption)
        apply (rule update_calls [OF _ validate_within]; assumption)
       apply (rule submit_statuses_with_file [OF _ validate_within]; assumption)
      apply (rule update_statuses_with_file [OF _ validate_within]; assumption)
     apply (erule approve_calls)
    apply (rule reject_calls; assumption)
  done

theorem status_values_written_witness:
  "fst (rejectQuizSubmission (Stored \<lparr>uid = ''t1'', role = ''teacher''\<rparr>) 5 ''q9''
          (Some ''blurred'') (Resolved ())) = Inr True \<and>
   statuses_written (snd (rejectQuizSubmission (Stored \<lparr>uid = ''t1'', role = ''teacher''\<rparr>) 5
          ''q9'' (Some ''blurred'') (Resolved ()))) \<noteq> [] \<and>
   set (statuses_written (snd (rejectQuizSubmission (Stored \<lparr>uid = ''t1'', role = ''teacher''\<rparr>) 5
          ''q9'' (Some ''blurred'') (Resolved ())))) \<subseteq> {JStr ''rejected''} \<and>
   fst (approveQuizSubmission (Stored \<lparr>uid = ''t1'', role = ''teacher''\<rparr>) 5 ''q9''
          (Some ''blurred'') (Resolved ())) = Inr True \<and>
   statuses_written (snd (approveQuizSubmission (Stored \<lparr>uid = ''t1'', role = ''teacher''\<rparr>) 5
          ''q9'' (Some ''blurred'') (Resolved ()))) \<noteq> [] \<and>
   set (statuses_written (snd (approveQuizSubmission (Stored \<lparr>uid = ''t1'', role = ''teacher''\<rparr>) 5
          ''q9'' (Some ''blurred'') (Resolved ())))) \<subseteq> {JStr ''approved''} \<and>
   fst (submitQuizScore (Stored \<lparr>uid = ''s1'', role = ''student''\<rparr>) 5 ''L1'' ''7'' '' 10'' None
          (\<lambda>bucket path. None) (Resolved ()) (Resolved ())) = Inr True \<and>
   statuses_written (snd (submitQuizScore (Stored \<lparr>uid = ''s1'', role = ''student''\<rparr>) 5 ''L1''
          ''7'' '' 10'' None (\<lambda>bucket path. None) (Resolved ()) (Resolved ()))) \<noteq> [] \<and>
   set (statuses_written (snd (submitQuizScore (Stored \<lparr>uid = ''s1'', role = ''student''\<rparr>) 5
          ''L1'' ''7'' '' 10'' None (\<lambda>bucket path. None) (Resolved ()) (Resolved ()))))
     \<subseteq> {JStr ''pending''} \<and>
   calls (snd (requestQuizResubmission (Stored \<lparr>uid = ''s1'', role = ''student''\<rparr>) 5 ''q9''
          (ErrorResult ''permission denied''))) =
     [Update ''quiz_submissions''
        [(''status'', JStr ''pending''), (''teacher_comment'', JNull), (''updated_at'', JTime 5)]
        [Eq ''id'' (JStr ''q9''), Eq ''student_id'' (JStr ''s1'')]] \<and>
   calls (snd (updateQuizSubmission (Stored \<lparr>uid = ''s1'', role = ''student''\<rparr>) 5 ''q9'' ''7''
          '' 10'' None (\<lambda>bucket path. None) (Resolved ''L1'') (Resolved ()) (Resolved ()))) =
     [Update ''quiz_submissions''
        [(''score'', JNum (Num 7)), (''total_items'', JNum (Num 10)), (''status'', JStr ''pending''),
         (''teacher_comment'', JNull), (''updated_at'', JTime 5)]
        [Eq ''id'' (JStr ''q9''), Eq ''student_id'' (JStr ''s1'')]] \<and>
   statuses_written (snd (updateQuizSubmission (Stored \<lparr>uid = ''s1'', role = ''student''\<rparr>) 5
          ''q9'' ''7'' '' 10'' (Some \<lparr>ftype = ''image/png'', fsize = 2048\<rparr>)
          (\<lambda>bucket path. Some (''https://cdn/'' @ path)) (Resolved ''L1'') (Resolved ())
          (Resolved ()))) = [JStr ''pending'']"
proof -
  let ?t = "Stored \<lparr>uid = ''t1'', role = ''teacher''\<rparr>"
  let ?stu = "\<lparr>uid = ''s1'', role = ''student''\<rparr>"
  let ?s = "Stored ?stu"
  let ?png = "\<lparr>ftype = ''image/png'', fsize = 2048\<rparr>"
  let ?url = "\<lambda>bucket path. Some (''https://cdn/'' @ path) :: string option"
  have rejected: "fst (rejectQuizSubmission ?t 5 ''q9'' (Some ''blurred'') (Resolved ())) = Inr True"
    by (simp add: rejectQuizSubmission_def rejectQuizSubmission_try_def try_catch_def reviewer_def
                  js_trim_def js_whitespace_def)
  have approved: "fst (approveQuizSubmission ?t 5 ''q9'' (Some ''blurred'') (Resolved ())) = Inr True"
    by (simp add: approveQuizSubmission_def approveQuizSubmission_try_def try_catch_def reviewer_def)
  have submitted: "fst (submitQuizScore ?s 5 ''L1'' ''7'' '' 10'' None (\<lambda>bucket path. None)
                         (Resolved ()) (Resolved ())) = Inr True"
    by (simp add: submitQuizScore_def submitQuizScore_try_def try_catch_def validate_score_def
                  parseInt_examples isNaN_def js_less_eq_def Let_def)
  have student: "role ?stu = ''student''"
    by simp
  have valid: "role ?stu = ''student'' \<and> js_less_eq (Num 0) (parseInt ''7'') \<and>
      js_less (Num 0) (parseInt '' 10'') \<and> js_less_eq (parseInt ''7'') (parseInt '' 10'')"
    by (simp add: parseInt_examples js_less_eq_def isNaN_def)
  have uploaded: "uploadQuizScreenshot ''L1'' (uid ?stu) (Some ?png) 5 ?url (Resolved ()) =
      (Inr (Uploaded ''https://cdn/quiz_screenshots/s1_lessonL1_5.png'' ''s1_lessonL1_5.png''),
       [Call (StorageUpload ''quiz-screenshots'' ''quiz_screenshots/s1_lessonL1_5.png'')])"
    by (simp add: uploadQuizScreenshot_def uploadQuizScreenshot_try_def try_catch_def Let_def
                  allowedTypes_def maxSize_def screenshot_filename_def Number_toString_def
                  split_slash_1_def digit_char_def)
  note teacher = status_values_written
      [where item = ?t and now = 5 and submissionId = "''q9''" and comment = "Some ''blurred''"
         and updateReply = "Resolved ()"]
  note submitting = status_values_written
      [where item = ?s and now = 5 and lessonId = "''L1''" and score = "''7''"
         and totalItems = "'' 10''" and screenshotFile = None
         and getPublicUrl = "\<lambda>bucket path. None" and uploadReply = "Resolved ()"
         and insertReply = "Resolved ()"]
  note resubmitting = status_values_written
      [where u = ?stu and now = 5 and submissionId = "''q9''"
         and updateReply = "ErrorResult ''permission denied''"]
  note updating = status_values_written
      [where u = ?stu and now = 5 and submissionId = "''q9''" and score = "''7''"
         and totalItems = "'' 10''" and getPublicUrl = "\<lambda>bucket path. None"
         and lessonReply = "Resolved ''L1''" and uploadReply = "Resolved ()"
         and updateReply = "Resolved ()"]
  note with_file = status_values_written
      [where u = ?stu and now = 5 and submissionId = "''q9''" and score = "''7''"
         and totalItems = "'' 10''" and getPublicUrl = ?url and lessonId = "''L1''"
         and f = ?png and uploadReply = "Resolved ()" and updateReply = "Resolved ()"
         and link = "''https://cdn/quiz_screenshots/s1_lessonL1_5.png''"
         and filename = "''s1_lessonL1_5.png''"
         and fx = "[Call (StorageUpload ''quiz-screenshots'' ''quiz_screenshots/s1_lessonL1_5.png'')]"]
  note rest = conjunct2 [THEN conjunct2, THEN conjunct2, THEN conjunct2]
  have r1: "statuses_written (snd (rejectQuizSubmission ?t 5 ''q9'' (Some ''blurred'')
              (Resolved ()))) \<noteq> []"
    using teacher [THEN rest, THEN rest, THEN conjunct2, THEN conjunct1, THEN mp, OF rejected] .
  have r2: "set (statuses_written (snd (rejectQuizSubmission ?t 5 ''q9'' (Some ''blurred'')
              (Resolved ())))) \<subseteq> {JStr ''rejected''}"
    using teacher [THEN rest, THEN conjunct1] .
  have a1: "statuses_written (snd (approveQuizSubmission ?t 5 ''q9'' (Some ''blurred'')
              (Resolved ()))) \<noteq> []"
    using teacher [THEN rest, THEN rest, THEN conjunct1, THEN mp, OF approved] .
  have a2: "set (statuses_written (snd (approveQuizSubmission ?t 5 ''q9'' (Some ''blurred'')
              (Resolved ())))) \<subseteq> {JStr ''approved''}"
    using teacher [THEN conjunct2, THEN conjunct2, THEN conjunct2, THEN conjunct1] .
  have s1: "statuses_written (snd (submitQuizScore ?s 5 ''L1'' ''7'' '' 10'' None
              (\<lambda>bucket path. None) (Resolved ()) (Resolved ()))) \<noteq> []"
    using submitting [THEN rest, THEN conjunct2, THEN conjunct1, THEN mp, OF submitted] .
  have s2: "set (statuses_written (snd (submitQuizScore ?s 5 ''L1'' ''7'' '' 10'' None
              (\<lambda>bucket path. None) (Resolved ()) (Resolved ())))) \<subseteq> {JStr ''pending''}"
    using submitting [THEN conjunct1] .
  have q1: "calls (snd (requestQuizResubmission ?s 5 ''q9'' (ErrorResult ''permission denied''))) =
     [Update ''quiz_submissions''
        [(''status'', JStr ''pending''), (''teacher_comment'', JNull), (''updated_at'', JTime 5)]
        [Eq ''id'' (JStr ''q9''), Eq ''student_id'' (JStr ''s1'')]]"
    using resubmitting [THEN rest, THEN rest, THEN conjunct2, THEN conjunct2, THEN conjunct1,
                        THEN mp, OF student]
    by simp
  have u1: "calls (snd (updateQuizSubmission ?s 5 ''q9'' ''7'' '' 10'' None (\<lambda>bucket path. None)
              (Resolved ''L1'') (Resolved ()) (Resolved ()))) =
     [Update ''quiz_submissions''
        [(''score'', JNum (Num 7)), (''total_items'', JNum (Num 10)), (''status'', JStr ''pending''),
         (''teacher_comment'', JNull), (''updated_at'', JTime 5)]
        [Eq ''id'' (JStr ''q9''), Eq ''student_id'' (JStr ''s1'')]]"
    using updating [THEN rest, THEN rest, THEN conjunct2, THEN conjunct2, THEN conjunct2,
                    THEN conjunct1, THEN mp, OF valid, THEN conjunct2]
    by (simp add: parseInt_examples)
  have u2: "statuses_written (snd (updateQuizSubmission ?s 5 ''q9'' ''7'' '' 10'' (Some ?png) ?url
              (Resolved ''L1'') (Resolved ()) (Resolved ()))) = [JStr ''pending'']"
    using with_file [THEN rest, THEN rest, THEN rest, THEN conjunct1, THEN mp,
                     OF conjI [OF valid [THEN conjunct1] conjI [OF valid [THEN conjunct2, THEN conjunct1]
                       conjI [OF valid [THEN conjunct2, THEN conjunct2, THEN conjunct1]
                         conjI [OF valid [THEN conjunct2, THEN conjunct2, THEN conjunct2] uploaded]]]],
                     THEN conjunct2] .
  from rejected r1 r2 approved a1 a2 submitted s1 s2 q1 u1 u2 show ?thesis
    by (intro conjI)
qed

subsection \<open>Failures: no retry, and the fallback of student notes\<close>







subsection \<open>Double rounding of the percentage\<close>

lemma percentage_error:
  assumes "0 < c" and "c \<le> n"
  shows "\<bar>fl (fl (of_nat c / of_nat n) * 100) - 100 * of_nat c / of_nat n\<bar> \<le> 201 / 2 ^ 53"
proof -
  define x :: rat where "x = of_nat c / of_nat n"
  define y where "y = fl x"
  define u :: rat where "u = 1 / 2 ^ 53"
  have u0: "0 < u" and u1: "100 * u \<le> 1"
    by (simp_all add: u_def)
  have n: "0 < n" using assms by simp
  have x0: "0 < x" using assms n by (simp add: x_def)
  have x1: "x \<le> 1" using assms n by (simp add: x_def)
  have "\<bar>y - x\<bar> \<le> x / 2 ^ 53"
    unfolding y_def using x0 by (rule fl_error)
  then have ey: "\<bar>y - x\<bar> \<le> x * u"
    by (simp only: u_def times_divide_eq_right mult_1_right)
  have xu: "x * u < x"
  proof -
    have "u < 1" using u0 u1 by linarith
    then have "x * u < x * 1" using x0 by (simp only: mult_less_cancel_left_pos)
    then show ?thesis by simp
  qed
  have ylo: "x - x * u \<le> y" and yhi: "y \<le> x + x * u"
    using ey by linarith+
  have y0: "0 < y * 100"
    using ylo xu by simp
  have "\<bar>fl (y * 100) - y * 100\<bar> \<le> y * 100 / 2 ^ 53"
    using y0 by (rule fl_error)
  then have ez: "\<bar>fl (y * 100) - y * 100\<bar> \<le> (y * 100) * u"
    by (simp only: u_def times_divide_eq_right mult_1_right)
  have yu: "y * u \<le> (x + x * u) * u"
    using yhi u0 by (simp only: mult_le_cancel_right_pos)
  have xx: "x * u \<le> u"
    using x1 u0 by (simp add: mult_left_le_one_le)
  have xuu: "100 * (x * u * u) \<le> x * u"
  proof -
    have "(x * u) * (100 * u) \<le> (x * u) * 1"
      using u1 x0 u0 by (intro mult_left_mono) simp_all
    then show ?thesis by (simp add: mult.assoc mult.left_commute)
  qed
  have "fl (y * 100) - 100 * x = (fl (y * 100) - y * 100) + 100 * (y - x)"
    by (simp add: algebra_simps)
  then have "\<bar>fl (y * 100) - 100 * x\<bar> \<le> \<bar>fl (y * 100) - y * 100\<bar> + \<bar>100 * (y - x)\<bar>"
    by (simp only: abs_triangle_ineq)
  also have "\<dots> = \<bar>fl (y * 100) - y * 100\<bar> + 100 * \<bar>y - x\<bar>"
    by (simp only: abs_mult abs_numeral)
  also have "\<dots> \<le> (y * 100) * u + 100 * (x * u)"
  proof (rule add_mono [OF ez])
    show "100 * \<bar>y - x\<bar> \<le> 100 * (x * u)"
      using ey by simp
  qed
  also have "\<dots> = 100 * (y * u) + 100 * (x * u)"
    by simp
  also have "\<dots> \<le> 100 * ((x + x * u) * u) + 100 * (x * u)"
    using yu by linarith
  also have "\<dots> = 200 * (x * u) + 100 * (x * u * u)"
    by (simp add: algebra_simps)
  also have "\<dots> \<le> 201 * (x * u)"
    using xuu by linarith
  also have "\<dots> \<le> 201 * u"
    using xx by linarith
  finally have "\<bar>fl (y * 100) - 100 * x\<bar> \<le> 201 * u" .
  then show ?thesis
    by (simp only: y_def x_def u_def times_divide_eq_right mult_1_right)
qed

lemma rounded_percentage_div:
  "0 < n \<Longrightarrow> rounded_percentage c n = int ((200 * c + n) div (2 * n))"
proof -
  assume n: "0 < n"
  have "100 * of_nat c / (of_nat n :: rat) + 1 / 2 = of_nat (200 * c + n) / of_nat (2 * n)"
    using n by (simp add: field_simps)
  then have "\<lfloor>100 * of_nat c / (of_nat n :: rat) + 1 / 2\<rfloor> = \<lfloor>(of_nat (200 * c + n) / of_nat (2 * n) :: rat)\<rfloor>"
    by (rule arg_cong)
  also have "\<dots> = int ((200 * c + n) div (2 * n))"
    by (rule floor_divide_of_nat_eq)
  finally show ?thesis
    using n by (simp add: rounded_percentage_def)
qed

lemma floor_half: "\<lfloor>1 / 2 :: rat\<rfloor> = 0"
  by (rule floor_unique) simp_all

lemma completionPercentage_zero: "completionPercentage 0 n = 0"
  by (simp add: completionPercentage_def fl_def Math_round_def floor_half)

lemma completionPercentage_rounding:
  assumes cn: "c \<le> n" and n0: "0 < n" and nb: "n < 2 ^ 32"
  shows "completionPercentage c n = rounded_percentage c n \<or>
         ((200 * c + n) mod (2 * n) = 0 \<and> completionPercentage c n = rounded_percentage c n - 1)"
proof (cases "c = 0")
  case True
  with n0 show ?thesis
    by (simp add: completionPercentage_zero rounded_percentage_div)
next
  case False
  then have c0: "0 < c" by simp
  define z where "z = fl (fl (of_nat c / of_nat n) * 100)"
  define t :: rat where "t = 100 * of_nat c / of_nat n"
  define eps :: rat where "eps = 201 / 2 ^ 53"
  define N where "N = 200 * c + n"
  define D where "D = 2 * n"
  define k where "k = int (N div D)"
  define r where "r = N mod D"
  have D0: "0 < D" using n0 by (simp add: D_def)
  have err: "\<bar>z - t\<bar> \<le> eps"
    unfolding z_def t_def eps_def using c0 cn by (rule percentage_error)
  have cp: "completionPercentage c n = \<lfloor>z + 1 / 2\<rfloor>"
    using n0 by (simp add: completionPercentage_def Math_round_def z_def)
  have rp: "rounded_percentage c n = k"
    using n0 by (simp add: rounded_percentage_div k_def N_def D_def)
  have split: "of_nat N = (of_nat D :: rat) * of_int k + of_nat r"
  proof -
    have "(of_nat N :: rat) = of_nat (D * (N div D) + N mod D)" by simp
    also have "\<dots> = of_nat D * of_nat (N div D) + of_nat (N mod D)"
      by (simp only: of_nat_add of_nat_mult)
    finally show ?thesis by (simp add: k_def r_def)
  qed
  have th: "t + 1 / 2 = of_int k + of_nat r / of_nat D"
  proof -
    have "t + 1 / 2 = of_nat N / of_nat D"
      using n0 by (simp add: t_def N_def D_def field_simps)
    also have "\<dots> = ((of_nat D :: rat) * of_int k + of_nat r) / of_nat D"
      by (simp only: split)
    also have "\<dots> = of_int k + of_nat r / of_nat D"
      using D0 by (simp add: field_simps)
    finally show ?thesis .
  qed
  have eps_small: "eps < 1 / of_nat D"
  proof -
    have "D < 2 ^ 33" using nb by (simp add: D_def)
    then have "(of_nat D :: rat) < of_nat (2 ^ 33)" by (simp only: of_nat_less_iff)
    then have "(of_nat D :: rat) < 2 ^ 33" by simp
    then have "1 / (2 ^ 33 :: rat) < 1 / of_nat D"
      using D0 by (intro divide_strict_left_mono) simp_all
    moreover have "eps \<le> 1 / 2 ^ 33" by (simp add: eps_def)
    ultimately show ?thesis by linarith
  qed
  have eps1: "eps < 1" and eps0: "0 \<le> eps"
    by (simp_all add: eps_def)
  have zlo: "t - eps \<le> z" and zhi: "z \<le> t + eps"
    using err by linarith+
  show ?thesis
  proof (cases "r = 0")
    case True
    with th have tk: "t + 1 / 2 = of_int k" by simp
    have lo: "of_int (k - 1) \<le> z + 1 / 2"
      using zlo tk eps1 by simp
    have hi: "z + 1 / 2 < of_int k + 1"
      using zhi tk eps1 by linarith
    have "\<lfloor>z + 1 / 2\<rfloor> = k \<or> \<lfloor>z + 1 / 2\<rfloor> = k - 1"
    proof (cases "of_int k \<le> z + 1 / 2")
      case True
      with hi have "\<lfloor>z + 1 / 2\<rfloor> = k" by (intro floor_unique) simp_all
      then show ?thesis ..
    next
      case False
      then have "z + 1 / 2 < of_int (k - 1) + 1" by simp
      with lo have "\<lfloor>z + 1 / 2\<rfloor> = k - 1" by (intro floor_unique) simp_all
      then show ?thesis ..
    qed
    with True cp rp show ?thesis
      by (auto simp: r_def N_def D_def)
  next
    case False
    then have r1: "1 \<le> r" by simp
    have rD: "r + 1 \<le> D" using D0 by (simp add: r_def Suc_leI)
    have frac_lo: "1 / of_nat D \<le> (of_nat r / of_nat D :: rat)"
      using r1 D0 by (simp add: divide_right_mono)
    have frac_hi: "(of_nat r / of_nat D :: rat) \<le> 1 - 1 / of_nat D"
    proof -
      have "(of_nat (r + 1) :: rat) \<le> of_nat D" using rD by (simp only: of_nat_le_iff)
      then have "(of_nat r :: rat) \<le> of_nat D - 1" by simp
      then have "(of_nat r / of_nat D :: rat) \<le> (of_nat D - 1) / of_nat D"
        by (simp add: divide_right_mono)
      also have "\<dots> = 1 - 1 / of_nat D" using D0 by (simp add: field_simps)
      finally show ?thesis .
    qed
    have lo: "of_int k \<le> z + 1 / 2"
      using zlo th frac_lo eps_small by linarith
    have hi: "z + 1 / 2 < of_int k + 1"
      using zhi th frac_hi eps_small by linarith
    from lo hi have "\<lfloor>z + 1 / 2\<rfloor> = k" by (rule floor_unique)
    with cp rp show ?thesis by simp
  qed
qed

subsection \<open>Progress reports\<close>

lemma find_completed:
  assumes "distinct (map p_lesson_id ps)"
  shows "(case find (\<lambda>p. p_lesson_id p = i) ps of None \<Rightarrow> False | Some p \<Rightarrow> p_completed p) =
           list_ex (\<lambda>p. p_lesson_id p = i \<and> p_completed p) ps"
  using assms
proof (induction ps)
  case Nil
  show ?case by simp
next
  case (Cons p ps)
  show ?case
  proof (cases "p_lesson_id p = i")
    case True
    with Cons.prems have "i \<notin> p_lesson_id ` set ps"
      by simp
    then have "\<forall>q \<in> set ps. p_lesson_id q \<noteq> i"
      by blast
    then have "\<not> list_ex (\<lambda>p. p_lesson_id p = i \<and> p_completed p) ps"
      by (simp add: list_ex_iff)
    with True show ?thesis by simp
  next
    case False
    with Cons show ?thesis by simp
  qed
qed

lemma map_throwing_total:
  assumes "\<And>x. x \<in> set xs \<Longrightarrow> f x = Inr (g x)"
  shows "map_throwing f xs = Inr (map g xs)"
  using assms by (induction xs) simp_all

lemma entries_completed:
  assumes "distinct (map p_lesson_id ps)"
  shows "length (filter r_completed (map (lesson_entry ps ss) ls)) = lessons_completed ls ps"
proof -
  have "r_completed (lesson_entry ps ss l) =
          list_ex (\<lambda>p. p_lesson_id p = lesson_id l \<and> p_completed p) ps" for l
    using find_completed [OF assms, of "lesson_id l"] by (simp add: lesson_entry_def Let_def)
  then show ?thesis
    by (simp add: lessons_completed_def filter_map comp_def)
qed

lemma entries_completed_comp:
  assumes "distinct (map p_lesson_id ps)"
  shows "length (filter (r_completed \<circ> lesson_entry ps ss) ls) = lessons_completed ls ps"
  using entries_completed [OF assms, of ss ls] by (simp add: filter_map)

lemma rows_completed:
  assumes dl: "distinct (map lesson_id ls)"
    and dp: "distinct (map p_lesson_id rows)"
    and sub: "set (map p_lesson_id rows) \<subseteq> set (map lesson_id ls)"
  shows "length (filter p_completed rows) = lessons_completed ls rows"
proof -
  let ?P = "\<lambda>l. list_ex (\<lambda>p. p_lesson_id p = lesson_id l \<and> p_completed p) rows"
  have d1: "distinct (map p_lesson_id (filter p_completed rows))"
    using dp by (rule distinct_map_filter)
  have d2: "distinct (map lesson_id (filter ?P ls))"
    using dl by (rule distinct_map_filter)
  from sub have in_ls: "\<forall>p \<in> set rows. \<exists>l \<in> set ls. p_lesson_id p = lesson_id l"
    by (simp add: subset_iff image_iff) metis
  have "set (map p_lesson_id (filter p_completed rows)) = set (map lesson_id (filter ?P ls))"
  proof (intro equalityI subsetI)
    fix i
    assume "i \<in> set (map p_lesson_id (filter p_completed rows))"
    then obtain p where p: "p \<in> set rows" "p_completed p" "i = p_lesson_id p"
      by auto
    with in_ls obtain l where "l \<in> set ls" "p_lesson_id p = lesson_id l"
      by blast
    with p show "i \<in> set (map lesson_id (filter ?P ls))"
      by (auto simp: list_ex_iff image_iff)
  next
    fix i
    assume "i \<in> set (map lesson_id (filter ?P ls))"
    then obtain l p where "l \<in> set ls" "i = lesson_id l" "p \<in> set rows"
        "p_lesson_id p = lesson_id l" "p_completed p"
      by (auto simp: list_ex_iff)
    then show "i \<in> set (map p_lesson_id (filter p_completed rows))"
      by (auto simp: image_iff)
  qed
  then have "card (set (map p_lesson_id (filter p_completed rows))) =
             card (set (map lesson_id (filter ?P ls)))"
    by simp
  then have "length (map p_lesson_id (filter p_completed rows)) = length (map lesson_id (filter ?P ls))"
    using d1 d2 by (simp only: distinct_card)
  then show ?thesis
    by (simp add: lessons_completed_def)
qed

lemma byModule_report:
  assumes "role u = ''student''"
    and "progressQuery (uid u) (map lesson_id ls) = Resolved ps"
    and "submissionsQuery (uid u) (map lesson_id ls) = Resolved ss"
    and "distinct (map p_lesson_id ps)"
  shows "getStudentProgressByModule (Stored u) moduleId (Resolved ls) progressQuery submissionsQuery =
           Some \<lparr> report_of = moduleId,
                  total_lessons = length ls,
                  completed_lessons = lessons_completed ls ps,
                  completion_percentage = completionPercentage (lessons_completed ls ps) (length ls),
                  lessons = map (lesson_entry ps ss) ls \<rparr>"
proof -
  have "map_throwing (lessonProgress_entry (Some ps) (Some ss)) ls = Inr (map (lesson_entry ps ss) ls)"
    by (rule map_throwing_total) (simp add: lessonProgress_entry_def lesson_entry_def Let_def)
  then show ?thesis
    using assms
    by (simp add: getStudentProgressByModule_def getStudentProgressByModule_try_def data_of_def
                  Let_def entries_completed_comp)
qed

lemma moduleProgress_entry_numbers:
  "\<exists>r. moduleProgress_entry (Some ps) (Some ss) m = Inr r \<and> report_numbers r = expected_module_numbers ps m"
  by (simp add: moduleProgress_entry_def expected_module_numbers_def report_numbers_def Let_def
                lessons_completed_def completionPercentage_def)

lemma map_throwing_Inr:
  assumes "\<And>x. x \<in> set xs \<Longrightarrow> \<exists>y. f x = Inr y \<and> h y = g x"
  shows "\<exists>ys. map_throwing f xs = Inr ys \<and> map h ys = map g xs"
  using assms
proof (induction xs)
  case Nil
  show ?case by simp
next
  case (Cons x xs)
  from Cons.prems obtain y where y: "f x = Inr y" "h y = g x" by auto
  from Cons obtain ys where ys: "map_throwing f xs = Inr ys" "map h ys = map g xs" by auto
  from y ys show ?case by simp
qed

lemma studentProgress_report:
  assumes "reviewer u"
    and "\<forall>m \<in> set ms. module_lessons m \<noteq> None"
  shows "\<exists>sp. getStudentProgress (Stored u) studentId (Resolved student) (Resolved ms)
                 (Resolved ps) (Resolved ss) = Some sp \<and>
              map report_numbers (modules sp) = map (expected_module_numbers ps) ms"
proof -
  obtain rs where rs: "map_throwing (moduleProgress_entry (Some ps) (Some ss)) ms = Inr rs"
      "map report_numbers rs = map (expected_module_numbers ps) ms"
    using map_throwing_Inr [of ms "moduleProgress_entry (Some ps) (Some ss)" report_numbers
            "expected_module_numbers ps"] moduleProgress_entry_numbers
    by blast
  have "map_throwing lessons_length ms = Inr (map (\<lambda>m. length (the (module_lessons m))) ms)"
    using assms(2) by (intro map_throwing_total) (auto simp: lessons_length_def)
  with rs assms(1) show ?thesis
    by (simp add: getStudentProgress_def getStudentProgress_try_def data_of_def Let_def)
qed

lemma student_rows_distinct:
  assumes "distinct (map (\<lambda>p. (p_student_id p, p_lesson_id p)) ps)"
  shows "distinct (map p_lesson_id (filter (\<lambda>p. p_student_id p = s) ps))"
  using assms
proof (induction ps)
  case Nil
  show ?case by simp
next
  case (Cons p ps)
  then show ?case by (auto simp: image_iff)
qed

lemma studentsByModule_report:
  assumes "reviewer u"
    and "progressQuery (map lesson_id ls) = Resolved ps"
    and "submissionsQuery (map lesson_id ls) = Resolved ss"
    and dl: "distinct (map lesson_id ls)"
    and dp: "distinct (map (\<lambda>p. (p_student_id p, p_lesson_id p)) ps)"
    and sub: "set (map p_lesson_id ps) \<subseteq> set (map lesson_id ls)"
  shows "map report_numbers
           (getStudentsByModule (Stored u) moduleId (Resolved ls) (Resolved students)
              progressQuery submissionsQuery) =
         map (expected_student_numbers ls ps) students"
proof -
  have entry: "\<exists>r. studentProgress_entry ls (Some ps) (Some ss) s = Inr r \<and>
                   report_numbers r = expected_student_numbers ls ps s" for s
  proof -
    let ?rows = "filter (\<lambda>p. p_student_id p = student_id s) ps"
    have "length (filter p_completed ?rows) = lessons_completed ls ?rows"
      using dl student_rows_distinct [OF dp] sub by (intro rows_completed) auto
    then show ?thesis
      by (simp add: studentProgress_entry_def expected_student_numbers_def report_numbers_def Let_def)
  qed
  obtain rs where rs: "map_throwing (studentProgress_entry ls (Some ps) (Some ss)) students = Inr rs"
      "map report_numbers rs = map (expected_student_numbers ls ps) students"
    using map_throwing_Inr [of students "studentProgress_entry ls (Some ps) (Some ss)"
            report_numbers "expected_student_numbers ls ps"] entry
    by blast
  with assms(1-3) show ?thesis
    by (simp add: getStudentsByModule_def getStudentsByModule_try_def data_of_def)
qed

text \<open>
  The claim C1 gives the percentage as \<open>round(100 * completed / total)\<close>. The code
  divides first and multiplies by 100 afterwards, in double precision: for a module of
  40 lessons of which the student has completed 23, the quotient \<open>23 / 40\<close> rounds to a
  double below \<open>0.575\<close>, its product with 100 is below \<open>57.5\<close>, and the report says 57,
  where \<open>100 * 23 / 40 = 57.5\<close> rounds to 58.
\<close>

theorem completion_percentage_counterexample:
  "map_option report_numbers
     (getStudentProgressByModule (Stored \<lparr>uid = ''s1'', role = ''student''\<rparr>) ''m1''
        (Resolved (map (\<lambda>i. \<lparr>lesson_id = decimal i, lesson_title = ''''\<rparr>) [1..40]))
        (\<lambda>student ids. Resolved
           (map (\<lambda>i. \<lparr>p_student_id = ''s1'', p_lesson_id = decimal i, p_completed = True,
                      p_completed_at = None\<rparr>) [1..23]))
        (\<lambda>student ids. Resolved [])) = Some (40, 23, 57) \<and>
   rounded_percentage 23 40 = 58"
  by code_simp

text \<open>
  C1, amended. Let the queries resolve without error, with at most one progress row for
  each pair of a student and a lesson, the lessons' ids distinct and every progress row
  fetched for a module belonging to one of its lessons, as the queries and the table's
  uniqueness constraint provide. Then \<open>getStudentProgressByModule\<close>, each module's entry
  of \<open>getStudentProgress\<close> and each student's entry of \<open>getStudentsByModule\<close> report
  \<open>total_lessons\<close> as the number of the module's lessons, \<open>completed_lessons\<close> as the number
  of those lessons that have a progress row (of the student) with \<open>completed = true\<close>,
  and \<open>completion_percentage\<close> as \<open>Math.round((completed / total) * 100)\<close> computed in
  double precision, which is 0 for a module without lessons. For fewer than \<open>2^32\<close>
  lessons this percentage is \<open>100 * completed / total\<close> rounded to the nearest integer,
  except that when \<open>100 * completed / total\<close> lies exactly half-way between two integers
  the percentage is one of the two (the lower one for 23 of 40, the upper one for 1 of 8).
\<close>

theorem progress_percentages:
  "(role u = ''student'' \<and> progressQuery (uid u) (map lesson_id ls) = Resolved ps \<and>
    submissionsQuery (uid u) (map lesson_id ls) = Resolved ss \<and> distinct (map p_lesson_id ps) \<longrightarrow>
      (\<exists>r. getStudentProgressByModule (Stored u) moduleId (Resolved ls) progressQuery
               submissionsQuery = Some r \<and>
           report_numbers r =
             (length ls, lessons_completed ls ps,
              completionPercentage (lessons_completed ls ps) (length ls)))) \<and>
   (reviewer u \<and> (\<forall>m \<in> set ms. module_lessons m \<noteq> None) \<longrightarrow>
      (\<exists>sp. getStudentProgress (Stored u) studentId (Resolved student) (Resolved ms)
                (Resolved ps) (Resolved ss) = Some sp \<and>
            map report_numbers (modules sp) = map (expected_module_numbers ps) ms)) \<and>
   (reviewer u \<and> allProgress (map lesson_id ls) = Resolved rows \<and>
    allSubmissions (map lesson_id ls) = Resolved ss \<and> distinct (map lesson_id ls) \<and>
    distinct (map (\<lambda>p. (p_student_id p, p_lesson_id p)) rows) \<and>
    set (map p_lesson_id rows) \<subseteq> set (map lesson_id ls) \<longrightarrow>
      map report_numbers
        (getStudentsByModule (Stored u) moduleId (Resolved ls) (Resolved students)
           allProgress allSubmissions) =
      map (expected_student_numbers ls rows) students) \<and>
   completionPercentage c 0 = 0 \<and>
   (c \<le> n \<and> 0 < n \<and> n < 2 ^ 32 \<longrightarrow>
      completionPercentage c n = rounded_percentage c n \<or>
      (200 * c + n) mod (2 * n) = 0 \<and> completionPercentage c n = rounded_percentage c n - 1)"
proof -
  have by_module: "\<exists>r. getStudentProgressByModule (Stored u) moduleId (Resolved ls) progressQuery
               submissionsQuery = Some r \<and>
           report_numbers r =
             (length ls, lessons_completed ls ps,
              completionPercentage (lessons_completed ls ps) (length ls))"
    if "role u = ''student'' \<and> progressQuery (uid u) (map lesson_id ls) = Resolved ps \<and>
        submissionsQuery (uid u) (map lesson_id ls) = Resolved ss \<and> distinct (map p_lesson_id ps)"
    using that by (simp add: byModule_report report_numbers_def)
  have by_student: "\<exists>sp. getStudentProgress (Stored u) studentId (Resolved student) (Resolved ms)
                (Resolved ps) (Resolved ss) = Some sp \<and>
            map report_numbers (modules sp) = map (expected_module_numbers ps) ms"
    if "reviewer u \<and> (\<forall>m \<in> set ms. module_lessons m \<noteq> None)"
    using that studentProgress_report by blast
  have students: "map report_numbers
        (getStudentsByModule (Stored u) moduleId (Resolved ls) (Resolved students)
           allProgress allSubmissions) =
      map (expected_student_numbers ls rows) students"
    if "reviewer u \<and> allProgress (map lesson_id ls) = Resolved rows \<and>
        allSubmissions (map lesson_id ls) = Resolved ss \<and> distinct (map lesson_id ls) \<and>
        distinct (map (\<lambda>p. (p_student_id p, p_lesson_id p)) rows) \<and>
        set (map p_lesson_id rows) \<subseteq> set (map lesson_id ls)"
    using that studentsByModule_report by blast
  have none: "completionPercentage c 0 = 0"
    by (simp add: completionPercentage_def)
  have rounding: "completionPercentage c n = rounded_percentage c n \<or>
      (200 * c + n) mod (2 * n) = 0 \<and> completionPercentage c n = rounded_percentage c n - 1"
    if "c \<le> n \<and> 0 < n \<and> n < 2 ^ 32"
    using that completionPercentage_rounding by blast
  from by_module by_student students none rounding show ?thesis
    by blast
qed

lemma witness_values:
  "lessons_completed
     [\<lparr>lesson_id = ''L1'', lesson_title = ''Fractions''\<rparr>,
      \<lparr>lesson_id = ''L2'', lesson_title = ''Decimals''\<rparr>]
     [\<lparr>p_student_id = ''s1'', p_lesson_id = ''L1'', p_completed = True, p_completed_at = Some 5\<rparr>]
     = 1"
  "completionPercentage 1 2 = 50"
  "completionPercentage 23 40 = 57"
  "rounded_percentage 23 40 = 58"
  "completionPercentage 1 8 = 13"
  "rounded_percentage 1 8 = 13"
  by code_simp+

lemma witness_expected:
  "expected_module_numbers
     [\<lparr>p_student_id = ''s1'', p_lesson_id = ''L1'', p_completed = True, p_completed_at = Some 5\<rparr>]
     \<lparr>module_id = ''m1'', module_title = ''Numbers'',
      module_lessons = Some [\<lparr>lesson_id = ''L1'', lesson_title = ''Fractions''\<rparr>,
                             \<lparr>lesson_id = ''L2'', lesson_title = ''Decimals''\<rparr>]\<rparr>
     = (2, 1, 50)"
  "expected_student_numbers
     [\<lparr>lesson_id = ''L1'', lesson_title = ''Fractions''\<rparr>,
      \<lparr>lesson_id = ''L2'', lesson_title = ''Decimals''\<rparr>]
     [\<lparr>p_student_id = ''s1'', p_lesson_id = ''L1'', p_completed = True, p_completed_at = Some 5\<rparr>,
      \<lparr>p_student_id = ''s2'', p_lesson_id = ''L1'', p_completed = False, p_completed_at = None\<rparr>]
     \<lparr>student_id = ''s1'', full_name = ''Ana'', email = ''ana@example.org''\<rparr>
     = (2, 1, 50)"
  "expected_student_numbers
     [\<lparr>lesson_id = ''L1'', lesson_title = ''Fractions''\<rparr>,
      \<lparr>lesson_id = ''L2'', lesson_title = ''Decimals''\<rparr>]
     [\<lparr>p_student_id = ''s1'', p_lesson_id = ''L1'', p_completed = True, p_completed_at = Some 5\<rparr>,
      \<lparr>p_student_id = ''s2'', p_lesson_id = ''L1'', p_completed = False, p_completed_at = None\<rparr>]
     \<lparr>student_id = ''s2'', full_name = ''Ben'', email = ''ben@example.org''\<rparr>
     = (2, 0, 0)"
  by code_simp+

theorem progress_percentages_witness:
  "map_option report_numbers
     (getStudentProgressByModule (Stored \<lparr>uid = ''s1'', role = ''student''\<rparr>) ''m1''
        (Resolved [\<lparr>lesson_id = ''L1'', lesson_title = ''Fractions''\<rparr>,
                   \<lparr>lesson_id = ''L2'', lesson_title = ''Decimals''\<rparr>])
        (\<lambda>student ids. Resolved
           [\<lparr>p_student_id = ''s1'', p_lesson_id = ''L1'', p_completed = True,
             p_completed_at = Some 5\<rparr>])
        (\<lambda>student ids. Resolved [])) = Some (2, 1, 50) \<and>
   map_option (\<lambda>sp. map report_numbers (modules sp))
     (getStudentProgress (Stored \<lparr>uid = ''t1'', role = ''teacher''\<rparr>) ''s1''
        (Resolved \<lparr>student_id = ''s1'', full_name = ''Ana'', email = ''ana@example.org''\<rparr>)
        (Resolved [\<lparr>module_id = ''m1'', module_title = ''Numbers'',
                    module_lessons = Some [\<lparr>lesson_id = ''L1'', lesson_title = ''Fractions''\<rparr>,
                                           \<lparr>lesson_id = ''L2'', lesson_title = ''Decimals''\<rparr>]\<rparr>])
        (Resolved [\<lparr>p_student_id = ''s1'', p_lesson_id = ''L1'', p_completed = True,
                    p_completed_at = Some 5\<rparr>])
        (Resolved [])) = Some [(2, 1, 50)] \<and>
   map report_numbers
     (getStudentsByModule (Stored \<lparr>uid = ''t1'', role = ''teacher''\<rparr>) ''m1''
        (Resolved [\<lparr>lesson_id = ''L1'', lesson_title = ''Fractions''\<rparr>,
                   \<lparr>lesson_id = ''L2'', lesson_title = ''Decimals''\<rparr>])
        (Resolved [\<lparr>student_id = ''s1'', full_name = ''Ana'', email = ''ana@example.org''\<rparr>,
                   \<lparr>student_id = ''s2'', full_name = ''Ben'', email = ''ben@example.org''\<rparr>])
        (\<lambda>ids. Resolved
           [\<lparr>p_student_id = ''s1'', p_lesson_id = ''L1'', p_completed = True, p_completed_at = Some 5\<rparr>,
            \<lparr>p_student_id = ''s2'', p_lesson_id = ''L1'', p_completed = False, p_completed_at = None\<rparr>])
        (\<lambda>ids. Resolved [])) = [(2, 1, 50), (2, 0, 0)] \<and>
   completionPercentage 23 40 = rounded_percentage 23 40 - 1 \<and>
   (200 * 23 + 40) mod (2 * 40) = (0::nat)"
proof -
  let ?u = "\<lparr>uid = ''s1'', role = ''student''\<rparr>"
  let ?t = "\<lparr>uid = ''t1'', role = ''teacher''\<rparr>"
  let ?ls = "[\<lparr>lesson_id = ''L1'', lesson_title = ''Fractions''\<rparr>,
              \<lparr>lesson_id = ''L2'', lesson_title = ''Decimals''\<rparr>]"
  let ?ps = "[\<lparr>p_student_id = ''s1'', p_lesson_id = ''L1'', p_completed = True,
               p_completed_at = Some 5\<rparr>]"
  let ?rows = "[\<lparr>p_student_id = ''s1'', p_lesson_id = ''L1'', p_completed = True, p_completed_at = Some 5\<rparr>,
            \<lparr>p_student_id = ''s2'', p_lesson_id = ''L1'', p_completed = False, p_completed_at = None\<rparr>]"
  let ?ms = "[\<lparr>module_id = ''m1'', module_title = ''Numbers'', module_lessons = Some ?ls\<rparr>]"
  let ?ana = "\<lparr>student_id = ''s1'', full_name = ''Ana'', email = ''ana@example.org''\<rparr>"
  let ?ben = "\<lparr>student_id = ''s2'', full_name = ''Ben'', email = ''ben@example.org''\<rparr>"
  note inst = progress_percentages
      [where u = ?u and ls = ?ls and ps = ?ps and ss = "[]" and moduleId = "''m1''"
         and progressQuery = "\<lambda>student ids. Resolved ?ps"
         and submissionsQuery = "\<lambda>student ids. Resolved []" and c = 23 and n = 40]
  note teacher = progress_percentages
      [where u = ?t and ls = ?ls and ps = ?ps and ss = "[]" and moduleId = "''m1''"
         and ms = ?ms and studentId = "''s1''" and student = ?ana
         and allProgress = "\<lambda>ids. Resolved ?rows" and rows = ?rows
         and allSubmissions = "\<lambda>ids. Resolved []" and students = "[?ana, ?ben]"]
  have hyp: "role ?u = ''student'' \<and>
      (\<lambda>student ids. Resolved ?ps) (uid ?u) (map lesson_id ?ls) = Resolved ?ps \<and>
      (\<lambda>student ids. Resolved []) (uid ?u) (map lesson_id ?ls) = Resolved [] \<and>
      distinct (map p_lesson_id ?ps)"
    by simp
  have len: "length ?ls = 2"
    by simp
  from inst [THEN conjunct1, THEN mp, OF hyp] obtain r where r: "getStudentProgressByModule (Stored ?u) ''m1'' (Resolved ?ls)
              (\<lambda>student ids. Resolved ?ps) (\<lambda>student ids. Resolved []) = Some r"
      "report_numbers r = (length ?ls, lessons_completed ?ls ?ps,
              completionPercentage (lessons_completed ?ls ?ps) (length ?ls))"
    by auto
  from r(2) have "report_numbers r = (2, 1, 50)"
    by (simp only: witness_values len)
  with r(1) have first: "map_option report_numbers
     (getStudentProgressByModule (Stored ?u) ''m1'' (Resolved ?ls)
        (\<lambda>student ids. Resolved ?ps) (\<lambda>student ids. Resolved [])) = Some (2, 1, 50)"
    by simp
  have hyp2: "reviewer ?t \<and> (\<forall>m \<in> set ?ms. module_lessons m \<noteq> None)"
    by (simp add: reviewer_def)
  from teacher [THEN conjunct2, THEN conjunct1, THEN mp, OF hyp2] obtain sp where sp: "getStudentProgress (Stored ?t) ''s1'' (Resolved ?ana)
        (Resolved ?ms) (Resolved ?ps) (Resolved []) = Some sp"
      "map report_numbers (modules sp) = map (expected_module_numbers ?ps) ?ms"
    by auto
  from sp(2) have "map report_numbers (modules sp) = [(2, 1, 50)]"
    by (simp only: list.map witness_expected)
  with sp(1) have second: "map_option (\<lambda>sp. map report_numbers (modules sp))
     (getStudentProgress (Stored ?t) ''s1'' (Resolved ?ana) (Resolved ?ms) (Resolved ?ps)
        (Resolved [])) = Some [(2, 1, 50)]"
    by simp
  have hyp3: "reviewer ?t \<and> (\<lambda>ids. Resolved ?rows) (map lesson_id ?ls) = Resolved ?rows \<and>
      (\<lambda>ids. Resolved []) (map lesson_id ?ls) = Resolved [] \<and> distinct (map lesson_id ?ls) \<and>
      distinct (map (\<lambda>p. (p_student_id p, p_lesson_id p)) ?rows) \<and>
      set (map p_lesson_id ?rows) \<subseteq> set (map lesson_id ?ls)"
    by (simp add: reviewer_def)
  from teacher [THEN conjunct2, THEN conjunct2, THEN conjunct1, THEN mp, OF hyp3]
  have "map report_numbers
     (getStudentsByModule (Stored ?t) ''m1'' (Resolved ?ls) (Resolved [?ana, ?ben])
        (\<lambda>ids. Resolved ?rows) (\<lambda>ids. Resolved [])) =
     map (expected_student_numbers ?ls ?rows) [?ana, ?ben]" .
  then have third: "map report_numbers
     (getStudentsByModule (Stored ?t) ''m1'' (Resolved ?ls) (Resolved [?ana, ?ben])
        (\<lambda>ids. Resolved ?rows) (\<lambda>ids. Resolved [])) = [(2, 1, 50), (2, 0, 0)]"
    by (simp only: list.map witness_expected)
  have bounds: "(23::nat) \<le> 40 \<and> (0::nat) < 40 \<and> (40::nat) < 2 ^ 32"
    by simp
  from inst [THEN conjunct2, THEN conjunct2, THEN conjunct2, THEN conjunct2, THEN mp, OF bounds]
  have "completionPercentage 23 40 = rounded_percentage 23 40 \<or>
      (200 * 23 + 40) mod (2 * 40) = (0::nat) \<and>
      completionPercentage 23 40 = rounded_percentage 23 40 - 1" .
  then have fourth: "completionPercentage 23 40 = rounded_percentage 23 40 - 1"
    by (simp add: witness_values)
  from first second third fourth show ?thesis
    by simp
qed

end
